theory Spec2Isabelle
  imports Complex_Main "HOL-Library.AList"
begin

section \<open>Common ground: exceptions, Python numerics, the random source\<close>

text \<open>
  The Python exceptions the modelled code can raise. A function that may raise returns
  \<open>error + 'a\<close>, with \<open>Inl\<close> for the exception.
\<close>

datatype error = KeyError | IndexError | ValueError | TypeError | AttributeError
  | ZeroDivisionError

text \<open>Sequencing of a computation that may raise with its continuation.\<close>

definition bindE :: "error + 'a \<Rightarrow> ('a \<Rightarrow> error + 'b) \<Rightarrow> error + 'b" where
  "bindE m f = (case m of Inl e \<Rightarrow> Inl e | Inr x \<Rightarrow> f x)"

text \<open>Python's \<open>int(x)\<close> on a float truncates towards zero.\<close>

definition py_int :: "real \<Rightarrow> int" where
  "py_int x = (if 0 \<le> x then \<lfloor>x\<rfloor> else \<lceil>x\<rceil>)"

text \<open>Python's \<open>round(x)\<close>: to the nearest integer, ties to the even one.\<close>

definition py_round :: "real \<Rightarrow> int" where
  "py_round x =
     (if x - real_of_int \<lfloor>x\<rfloor> < 1 / 2 then \<lfloor>x\<rfloor>
      else if x - real_of_int \<lfloor>x\<rfloor> > 1 / 2 then \<lfloor>x\<rfloor> + 1
      else if even \<lfloor>x\<rfloor> then \<lfloor>x\<rfloor> else \<lfloor>x\<rfloor> + 1)"

text \<open>\<open>np.clip(x, lo, hi)\<close> on a scalar.\<close>

definition clip :: "real \<Rightarrow> real \<Rightarrow> real \<Rightarrow> real" where
  "clip x lo hi = min (max x lo) hi"

text \<open>
  The random source. The code draws from the global generators of \<open>random\<close> and
  \<open>np.random\<close>; the model makes the source explicit as the stream of the raw outcomes
  of the draws still to come, in the order in which the program makes them. Every
  function that draws takes the stream and returns what is left of it.
  \<^item> \<open>np.random.uniform(lo, hi)\<close> is \<open>lo + (hi - lo) * u\<close> for a raw outcome \<open>u\<close>,
    which the generator takes from \<open>[0, 1)\<close>;
  \<^item> \<open>np.random.normal(mu, sigma)\<close> is \<open>mu + sigma * z\<close> for a raw outcome \<open>z\<close>
    (any real), and raises ValueError for a negative \<open>sigma\<close>;
  \<^item> \<open>random.choice(xs)\<close> and \<open>random.randint(a, b)\<close> scale a raw outcome
    \<open>u\<close> from \<open>[0, 1)\<close> to an index.
\<close>

type_synonym rng = "nat \<Rightarrow> real"

definition draw :: "rng \<Rightarrow> real \<times> rng" where
  "draw g = (g 0, \<lambda>n. g (Suc n))"

definition uniform :: "real \<Rightarrow> real \<Rightarrow> rng \<Rightarrow> real \<times> rng" where
  "uniform lo hi g = (case draw g of (u, g') \<Rightarrow> (lo + (hi - lo) * u, g'))"

definition normal :: "real \<Rightarrow> real \<Rightarrow> rng \<Rightarrow> error + real \<times> rng" where
  "normal mu sigma g =
     (if sigma < 0 then Inl ValueError
      else case draw g of (z, g') \<Rightarrow> Inr (mu + sigma * z, g'))"

definition rand_index :: "nat \<Rightarrow> real \<Rightarrow> nat" where
  "rand_index n u = min (n - 1) (nat \<lfloor>u * real n\<rfloor>)"

definition choice :: "'a list \<Rightarrow> rng \<Rightarrow> error + 'a \<times> rng" where
  "choice xs g =
     (if xs = [] then Inl IndexError
      else case draw g of (u, g') \<Rightarrow> Inr (xs ! rand_index (length xs) u, g'))"

definition randint :: "int \<Rightarrow> int \<Rightarrow> rng \<Rightarrow> error + int \<times> rng" where
  "randint a b g =
     (if b < a then Inl ValueError
      else case draw g of (u, g') \<Rightarrow> Inr (a + int (rand_index (nat (b - a + 1)) u), g'))"

text \<open>\<open>np.random.randn(n)\<close>: the next \<open>n\<close> raw outcomes.\<close>

definition randn :: "nat \<Rightarrow> rng \<Rightarrow> real list \<times> rng" where
  "randn n g = (map g [0..<n], \<lambda>k. g (k + n))"

text \<open>
  A Python dict is an association list with distinct keys, in insertion order:
  \<open>map_of d k\<close> is \<open>d.get(k)\<close>, \<open>AList.update k v d\<close> is \<open>d[k] = v\<close> (the value
  is replaced in place, a new key goes to the end).
\<close>

type_synonym ('k, 'v) dict = "('k \<times> 'v) list"

definition dict_lookup :: "('k, 'v) dict \<Rightarrow> 'k \<Rightarrow> error + 'v" where
  "dict_lookup d k = (case map_of d k of None \<Rightarrow> Inl KeyError | Some v \<Rightarrow> Inr v)"

text \<open>\<open>d[k].append(x)\<close>\<close>

definition dict_append :: "('k, 'v list) dict \<Rightarrow> 'k \<Rightarrow> 'v \<Rightarrow> error + ('k, 'v list) dict" where
  "dict_append d k x =
     (case map_of d k of None \<Rightarrow> Inl KeyError | Some xs \<Rightarrow> Inr (AList.update k (xs @ [x]) d))"

text \<open>\<open>xs[0]\<close>\<close>

definition first :: "'a list \<Rightarrow> error + 'a" where
  "first xs = (case xs of [] \<Rightarrow> Inl IndexError | x # _ \<Rightarrow> Inr x)"


section \<open>material\_properties.py\<close>

record WoodProperties =
  wood_name :: string
  density :: real
  youngs_modulus :: real
  damping_coefficient :: real
  speed_of_sound :: real
  hardness :: real

definition stiffness_factor :: "WoodProperties \<Rightarrow> real" where
  "stiffness_factor w = sqrt (youngs_modulus w / density w)"

definition resonance_brightness :: "WoodProperties \<Rightarrow> real" where
  "resonance_brightness w = 1.0 - (density w - 500) / 1000"

record MembraneProperties =
  membrane_material :: string
  membrane_thickness :: real
  tension :: real
  age_months :: int
  moisture_absorption :: real

definition effective_tension :: "MembraneProperties \<Rightarrow> real" where
  "effective_tension m =
     (let age_factor = 1.0 + (real_of_int (age_months m) / 24) * 0.3
      in tension m * age_factor)"

definition fundamental_freq_factor :: "MembraneProperties \<Rightarrow> real" where
  "fundamental_freq_factor m = sqrt (effective_tension m)"

record StickProperties =
  stick_material :: string
  mass :: real
  stick_length :: real
  stick_diameter :: real
  tip_hardness :: real
  tip_radius :: real

record InstrumentBody =
  wood_type :: string
  body_length :: real
  body_diameter :: real
  wall_thickness :: real

definition cavity_volume :: "InstrumentBody \<Rightarrow> real" where
  "cavity_volume b =
     (let inner_radius = (body_diameter b / 2) - wall_thickness b
      in pi * (inner_radius ^ 2) * body_length b)"

definition WOOD_DATABASE :: "(string, WoodProperties) dict" where
  "WOOD_DATABASE =
    [(''jackwood'', \<lparr>wood_name = ''Jackwood (Varikka)'', density = 720, youngs_modulus = 9.8,
        damping_coefficient = 0.15, speed_of_sound = 3800, hardness = 65\<rparr>),
     (''rosewood'', \<lparr>wood_name = ''Rosewood (Eetti)'', density = 900, youngs_modulus = 12.5,
        damping_coefficient = 0.18, speed_of_sound = 4200, hardness = 80\<rparr>),
     (''teak'', \<lparr>wood_name = ''Teak (Thekk'' @ [CHR 0xD1, CHR 0x83] @ '')'', density = 680,
        youngs_modulus = 10.2, damping_coefficient = 0.12, speed_of_sound = 3900,
        hardness = 70\<rparr>),
     (''bamboo'', \<lparr>wood_name = ''Bamboo (Mula)'', density = 400, youngs_modulus = 17.0,
        damping_coefficient = 0.08, speed_of_sound = 4500, hardness = 55\<rparr>),
     (''mango'', \<lparr>wood_name = ''Mango Wood (Maavu)'', density = 650, youngs_modulus = 8.5,
        damping_coefficient = 0.14, speed_of_sound = 3600, hardness = 60\<rparr>)]"

text \<open>
  \<open>MEMBRANE_DATABASE\<close> is a module-level dict of mutable objects. The code hands these
  objects out by reference and assigns to their fields, so the model keeps the objects
  in a store: the dict, passed to and returned from every function that writes to it.
  Each key holds its own object and no other membrane object is ever created, so a
  reference to a membrane is the key of its object.
\<close>

type_synonym membrane_ref = string
type_synonym membrane_db = "(string, MembraneProperties) dict"

definition MEMBRANE_DATABASE :: membrane_db where
  "MEMBRANE_DATABASE =
    [(''cow_high'', \<lparr>membrane_material = ''cow_leather'', membrane_thickness = 3.2,
        tension = 0.85, age_months = 6, moisture_absorption = 0.3\<rparr>),
     (''cow_medium'', \<lparr>membrane_material = ''cow_leather'', membrane_thickness = 3.5,
        tension = 0.65, age_months = 12, moisture_absorption = 0.3\<rparr>),
     (''cow_low'', \<lparr>membrane_material = ''cow_leather'', membrane_thickness = 4.0,
        tension = 0.45, age_months = 18, moisture_absorption = 0.3\<rparr>),
     (''goat_high'', \<lparr>membrane_material = ''goat_leather'', membrane_thickness = 2.8,
        tension = 0.75, age_months = 4, moisture_absorption = 0.25\<rparr>)]"

definition STICK_DATABASE :: "(string, StickProperties) dict" where
  "STICK_DATABASE =
    [(''bamboo_light'', \<lparr>stick_material = ''bamboo'', mass = 85, stick_length = 35,
        stick_diameter = 1.2, tip_hardness = 70, tip_radius = 8\<rparr>),
     (''bamboo_medium'', \<lparr>stick_material = ''bamboo'', mass = 95, stick_length = 35,
        stick_diameter = 1.4, tip_hardness = 75, tip_radius = 8\<rparr>),
     (''bamboo_heavy'', \<lparr>stick_material = ''bamboo'', mass = 110, stick_length = 38,
        stick_diameter = 1.5, tip_hardness = 78, tip_radius = 9\<rparr>),
     (''teak_medium'', \<lparr>stick_material = ''teak'', mass = 125, stick_length = 34,
        stick_diameter = 1.3, tip_hardness = 82, tip_radius = 7\<rparr>),
     (''rosewood_heavy'', \<lparr>stick_material = ''rosewood'', mass = 145, stick_length = 33,
        stick_diameter = 1.4, tip_hardness = 88, tip_radius = 6\<rparr>)]"

definition momentum_factor :: "StickProperties \<Rightarrow> real" where
  "momentum_factor s = mass s / 100.0"

text \<open>
  \<open>WOOD_DATABASE.get(self.material, WOOD_DATABASE["bamboo"])\<close>; the division raises
  for a stick of length zero.
\<close>

definition resonant_frequency :: "StickProperties \<Rightarrow> error + real" where
  "resonant_frequency s =
     bindE (dict_lookup WOOD_DATABASE ''bamboo'') (\<lambda>dflt.
       let wood_stiffness =
             youngs_modulus (case map_of WOOD_DATABASE (stick_material s) of
                               None \<Rightarrow> dflt | Some w \<Rightarrow> w)
       in if stick_length s ^ 2 = 0 then Inl ZeroDivisionError
          else Inr (100 * wood_stiffness / (stick_length s ^ 2)))"

definition impact_brightness :: "StickProperties \<Rightarrow> real" where
  "impact_brightness s = tip_hardness s / 100.0"

text \<open>
  \<open>get_random_wood_variant\<close>. The keyword arguments of the constructor are evaluated
  in the order written, so the five draws are made in the order density, elasticity,
  damping, speed of sound, hardness.
\<close>

definition get_random_wood_variant ::
  "string \<Rightarrow> real \<Rightarrow> rng \<Rightarrow> error + WoodProperties \<times> rng" where
  "get_random_wood_variant base_wood variation g =
     bindE (dict_lookup WOOD_DATABASE base_wood) (\<lambda>base.
       case uniform (1 - variation) (1 + variation) g of (f_density, g1) \<Rightarrow>
       case uniform (1 - variation / 2) (1 + variation / 2) g1 of (f_youngs, g2) \<Rightarrow>
       case uniform (1 - variation) (1 + variation) g2 of (f_damping, g3) \<Rightarrow>
       case uniform (1 - variation / 4) (1 + variation / 4) g3 of (f_speed, g4) \<Rightarrow>
       case uniform (1 - variation) (1 + variation) g4 of (f_hardness, g5) \<Rightarrow>
         Inr (\<lparr>wood_name = wood_name base @ '' (Variant)'',
               density = density base * f_density,
               youngs_modulus = youngs_modulus base * f_youngs,
               damping_coefficient = damping_coefficient base * f_damping,
               speed_of_sound = speed_of_sound base * f_speed,
               hardness = hardness base * f_hardness\<rparr>, g5))"

text \<open>The default of the parameter \<open>variation\<close>.\<close>

definition get_random_wood_variant_default ::
  "string \<Rightarrow> rng \<Rightarrow> error + WoodProperties \<times> rng" where
  "get_random_wood_variant_default base_wood g = get_random_wood_variant base_wood 0.1 g"

text \<open>
  The variant generator as the specification words it: every numeric field of the base
  preset is multiplied by its own uniform factor from \<open>[1 - variation, 1 + variation]\<close>,
  the elasticity modulus by one from half that range.
\<close>

definition spec_random_wood_variant ::
  "string \<Rightarrow> real \<Rightarrow> rng \<Rightarrow> error + WoodProperties \<times> rng" where
  "spec_random_wood_variant base_wood variation g =
     bindE (dict_lookup WOOD_DATABASE base_wood) (\<lambda>base.
       case uniform (1 - variation) (1 + variation) g of (f_density, g1) \<Rightarrow>
       case uniform (1 - variation / 2) (1 + variation / 2) g1 of (f_youngs, g2) \<Rightarrow>
       case uniform (1 - variation) (1 + variation) g2 of (f_damping, g3) \<Rightarrow>
       case uniform (1 - variation) (1 + variation) g3 of (f_speed, g4) \<Rightarrow>
       case uniform (1 - variation) (1 + variation) g4 of (f_hardness, g5) \<Rightarrow>
         Inr (\<lparr>wood_name = wood_name base @ '' (Variant)'',
               density = density base * f_density,
               youngs_modulus = youngs_modulus base * f_youngs,
               damping_coefficient = damping_coefficient base * f_damping,
               speed_of_sound = speed_of_sound base * f_speed,
               hardness = hardness base * f_hardness\<rparr>, g5))"


section \<open>player\_system.py\<close>

datatype PlayerRole = CHENDA_LEAD | CHENDA_RHYTHM | CHENDA_ACCENT
  | ELATHAALAM_PRIMARY | ELATHAALAM_SECONDARY | KOMBU

datatype InstrumentType = CHENDA | ELATHAALAM | KOMBU_instrument | KUZHAL

record TimingCharacteristics =
  base_precision :: real
  rush_tendency :: real
  groove_offset :: real

definition get_timing_offset ::
  "TimingCharacteristics \<Rightarrow> real \<Rightarrow> rng \<Rightarrow> error + real \<times> rng" where
  "get_timing_offset tc beat_position g =
     bindE (normal 0 ((1.0 - base_precision tc) * 0.01) g) (\<lambda>(random_variation, g').
       let rush_component = rush_tendency tc * 0.005;
           groove_component = groove_offset tc / 1000.0
       in Inr (random_variation + rush_component + groove_component, g'))"

text \<open>The two membranes of a chenda are references into \<open>MEMBRANE_DATABASE\<close>.\<close>

record ChendaInstrument =
  chenda_id :: string
  body_wood :: WoodProperties
  membrane_valam :: membrane_ref
  membrane_edamthala :: membrane_ref
  body :: InstrumentBody
  stick_valam :: StickProperties
  stick_edamthala :: StickProperties

record ElathaalamInstrument =
  elathaalam_id :: string
  diameter :: real
  thickness :: real
  metal_type :: string
  age_years :: int

text \<open>The field \<open>instrument\<close> of a player is untyped in the source; the wind player has \<open>None\<close>.\<close>

datatype Instrument = Chenda ChendaInstrument | Elathaalam ElathaalamInstrument
  | NoInstrument

text \<open>
  The dataclass \<open>Player\<close>. Its FX-send fields (\<open>eq_low\<close> to \<open>stereo_width\<close>) are
  read by none of the functions modelled here and are left out.
\<close>

record Player =
  player_id :: string
  name :: string
  role :: PlayerRole
  instrument_type :: InstrumentType
  instrument :: Instrument
  timing :: TimingCharacteristics
  skill_level :: real
  dynamic_range :: "real \<times> real"
  spatial_position :: "real \<times> real \<times> real"
  gain :: real
  pan :: real
  mute :: bool
  solo :: bool

text \<open>
  The constructor call used by the factories: \<open>gain\<close>, \<open>mute\<close> and \<open>solo\<close> take
  their defaults, and \<open>__post_init__\<close> replaces the unset \<open>pan\<close> by
  \<open>spatial_position[0]\<close>.
\<close>

definition Player_init ::
  "string \<Rightarrow> string \<Rightarrow> PlayerRole \<Rightarrow> InstrumentType \<Rightarrow> Instrument \<Rightarrow>
   TimingCharacteristics \<Rightarrow> real \<Rightarrow> real \<times> real \<Rightarrow> real \<times> real \<times> real \<Rightarrow> Player" where
  "Player_init pid nm r ty ins tc skill dyn pos =
     \<lparr>player_id = pid, name = nm, role = r, instrument_type = ty, instrument = ins,
      timing = tc, skill_level = skill, dynamic_range = dyn, spatial_position = pos,
      gain = 1.0, pan = fst pos, mute = False, solo = False\<rparr>"

definition get_velocity_for_intensity :: "Player \<Rightarrow> real \<Rightarrow> rng \<Rightarrow> error + real \<times> rng" where
  "get_velocity_for_intensity p inten g =
     (case dynamic_range p of (min_vel, max_vel) \<Rightarrow>
        let base_velocity = min_vel + inten * (max_vel - min_vel)
        in bindE (normal 0 ((1.0 - skill_level p) * 0.05) g) (\<lambda>(variation, g').
             Inr (clip (base_velocity + variation) 0.0 1.0, g')))"

subsection \<open>InstrumentFactory\<close>

text \<open>
  \<open>create_chenda\<close> writes to the membrane objects it looks up, so it takes the store
  and returns it, also when a later lookup raises: the writes made before stay.
\<close>

definition create_chenda ::
  "string \<Rightarrow> string \<Rightarrow> string \<Rightarrow> string \<Rightarrow> string \<Rightarrow> string \<Rightarrow> real \<Rightarrow>
   membrane_db \<Rightarrow> rng \<Rightarrow> (error + ChendaInstrument) \<times> membrane_db \<times> rng" where
  "create_chenda cid base_wood valam_tension edamthala_tension valam_stick edamthala_stick
       variation db g =
     (case get_random_wood_variant base_wood variation g of
        Inl e \<Rightarrow> (Inl e, db, g)
      | Inr (wood, g1) \<Rightarrow>
     let ref_v = ''cow_'' @ valam_tension; ref_e = ''cow_'' @ edamthala_tension in
     (case map_of db ref_v of None \<Rightarrow> (Inl KeyError, db, g1) | Some membrane_v \<Rightarrow>
     (case map_of db ref_e of None \<Rightarrow> (Inl KeyError, db, g1) | Some _ \<Rightarrow>
     (case uniform 0.95 1.05 g1 of (f_v, g2) \<Rightarrow>
      let db1 = AList.update ref_v (membrane_v\<lparr>tension := tension membrane_v * f_v\<rparr>) db in
     (case map_of db1 ref_e of None \<Rightarrow> (Inl KeyError, db1, g2) | Some membrane_e \<Rightarrow>
     (case uniform 0.95 1.05 g2 of (f_e, g3) \<Rightarrow>
      let db2 = AList.update ref_e (membrane_e\<lparr>tension := tension membrane_e * f_e\<rparr>) db1 in
     (case uniform 58 62 g3 of (len, g4) \<Rightarrow>
     (case uniform 28 32 g4 of (diam, g5) \<Rightarrow>
     (case uniform 2.3 2.7 g5 of (wall, g6) \<Rightarrow>
      let bdy = \<lparr>wood_type = base_wood, body_length = len, body_diameter = diam,
                 wall_thickness = wall\<rparr> in
     (case map_of STICK_DATABASE valam_stick of None \<Rightarrow> (Inl KeyError, db2, g6)
      | Some stick_v \<Rightarrow>
     (case map_of STICK_DATABASE edamthala_stick of None \<Rightarrow> (Inl KeyError, db2, g6)
      | Some stick_e \<Rightarrow>
        (Inr \<lparr>chenda_id = cid, body_wood = wood, membrane_valam = ref_v,
              membrane_edamthala = ref_e, body = bdy, stick_valam = stick_v,
              stick_edamthala = stick_e\<rparr>, db2, g6))))))))))))"

definition create_elathaalam ::
  "string \<Rightarrow> string \<Rightarrow> rng \<Rightarrow> error + ElathaalamInstrument \<times> rng" where
  "create_elathaalam eid size_name g =
     (let sizes = [(''small'', (12, 14)), (''medium'', (14, 16)), (''large'', (16, 18))] in
      bindE (dict_lookup sizes ''medium'') (\<lambda>dflt.
        case (case map_of sizes size_name of None \<Rightarrow> dflt | Some r \<Rightarrow> r) of (lo, hi) \<Rightarrow>
        case uniform lo hi g of (diam, g1) \<Rightarrow>
        case uniform 1.5 2.5 g1 of (thick, g2) \<Rightarrow>
        bindE (choice [''bronze'', ''brass''] g2) (\<lambda>(metal, g3).
        bindE (randint 1 10 g3) (\<lambda>(age, g4).
          Inr (\<lparr>elathaalam_id = eid, diameter = diam, thickness = thick,
                metal_type = metal, age_years = age\<rparr>, g4)))))"

subsection \<open>PlayerFactory\<close>

text \<open>Arguments that a factory leaves out take the defaults of \<open>create_chenda\<close>.\<close>

definition create_chenda_lead ::
  "string \<Rightarrow> membrane_db \<Rightarrow> rng \<Rightarrow> (error + Player) \<times> membrane_db \<times> rng" where
  "create_chenda_lead pid db g =
     (case create_chenda (pid @ ''_chenda'') ''jackwood'' ''high'' ''medium'' ''bamboo_medium''
             ''bamboo_heavy'' 0.08 db g of
        (Inl e, db', g') \<Rightarrow> (Inl e, db', g')
      | (Inr ins, db', g') \<Rightarrow>
          (Inr (Player_init pid ''Lead Player'' CHENDA_LEAD CHENDA (Chenda ins)
                  \<lparr>base_precision = 0.95, rush_tendency = 0.02, groove_offset = 0.0\<rparr>
                  0.95 (0.6, 1.0) (-0.3, 0, 1.0)), db', g'))"

definition create_chenda_rhythm ::
  "string \<Rightarrow> membrane_db \<Rightarrow> rng \<Rightarrow> (error + Player) \<times> membrane_db \<times> rng" where
  "create_chenda_rhythm pid db g =
     (case create_chenda (pid @ ''_chenda'') ''teak'' ''medium'' ''medium'' ''bamboo_medium''
             ''bamboo_heavy'' 0.08 db g of
        (Inl e, db', g') \<Rightarrow> (Inl e, db', g')
      | (Inr ins, db', g') \<Rightarrow>
          (Inr (Player_init pid ''Rhythm Player'' CHENDA_RHYTHM CHENDA (Chenda ins)
                  \<lparr>base_precision = 0.98, rush_tendency = 0.0, groove_offset = 0.0\<rparr>
                  0.92 (0.5, 0.85) (0.3, 0, 1.0)), db', g'))"

definition create_chenda_accent ::
  "string \<Rightarrow> membrane_db \<Rightarrow> rng \<Rightarrow> (error + Player) \<times> membrane_db \<times> rng" where
  "create_chenda_accent pid db g =
     (case create_chenda (pid @ ''_chenda'') ''rosewood'' ''high'' ''medium'' ''teak_medium''
             ''bamboo_heavy'' 0.08 db g of
        (Inl e, db', g') \<Rightarrow> (Inl e, db', g')
      | (Inr ins, db', g') \<Rightarrow>
          (Inr (Player_init pid ''Accent Player'' CHENDA_ACCENT CHENDA (Chenda ins)
                  \<lparr>base_precision = 0.90, rush_tendency = -0.01, groove_offset = 0.0\<rparr>
                  0.90 (0.4, 1.0) (0, 0, 0.8)), db', g'))"

definition create_elathaalam_primary :: "string \<Rightarrow> rng \<Rightarrow> error + Player \<times> rng" where
  "create_elathaalam_primary pid g =
     bindE (create_elathaalam (pid @ ''_elathaalam'') ''medium'' g) (\<lambda>(ins, g').
       Inr (Player_init pid ''Elathaalam 1'' ELATHAALAM_PRIMARY ELATHAALAM (Elathaalam ins)
              \<lparr>base_precision = 0.93, rush_tendency = 0.0, groove_offset = 0.0\<rparr>
              0.90 (0.5, 0.9) (-0.8, 0, 1.2), g'))"

definition create_elathaalam_secondary :: "string \<Rightarrow> rng \<Rightarrow> error + Player \<times> rng" where
  "create_elathaalam_secondary pid g =
     bindE (create_elathaalam (pid @ ''_elathaalam'') ''small'' g) (\<lambda>(ins, g').
       Inr (Player_init pid ''Elathaalam 2'' ELATHAALAM_SECONDARY ELATHAALAM (Elathaalam ins)
              \<lparr>base_precision = 0.91, rush_tendency = 0.0, groove_offset = 0.5\<rparr>
              0.88 (0.4, 0.8) (0.8, 0, 1.2), g'))"

definition create_kombu :: "string \<Rightarrow> Player" where
  "create_kombu pid =
     Player_init pid ''Kombu Player'' KOMBU KOMBU_instrument NoInstrument
       \<lparr>base_precision = 0.85, rush_tendency = 0.0, groove_offset = 0.0\<rparr>
       0.85 (0.3, 0.7) (0, 0, 1.5)"

subsection \<open>Ensemble\<close>

record Ensemble =
  players :: "(string, Player) dict"

definition build_standard_melam ::
  "membrane_db \<Rightarrow> rng \<Rightarrow> (error + Ensemble) \<times> membrane_db \<times> rng" where
  "build_standard_melam db g =
     (case create_chenda_lead ''P1'' db g of (Inl e, db1, g1) \<Rightarrow> (Inl e, db1, g1)
      | (Inr p1, db1, g1) \<Rightarrow>
     (case create_chenda_rhythm ''P2'' db1 g1 of (Inl e, db2, g2) \<Rightarrow> (Inl e, db2, g2)
      | (Inr p2, db2, g2) \<Rightarrow>
     (case create_chenda_accent ''P3'' db2 g2 of (Inl e, db3, g3) \<Rightarrow> (Inl e, db3, g3)
      | (Inr p3, db3, g3) \<Rightarrow>
     (case create_elathaalam_primary ''P4'' g3 of Inl e \<Rightarrow> (Inl e, db3, g3)
      | Inr (p4, g4) \<Rightarrow>
     (case create_elathaalam_secondary ''P5'' g4 of Inl e \<Rightarrow> (Inl e, db3, g4)
      | Inr (p5, g5) \<Rightarrow>
        (Inr \<lparr>players = [(''P1'', p1), (''P2'', p2), (''P3'', p3), (''P4'', p4), (''P5'', p5),
                          (''P6'', create_kombu ''P6'')]\<rparr>, db3, g5))))))"

definition get_player :: "Ensemble \<Rightarrow> string \<Rightarrow> Player option" where
  "get_player ens pid = map_of (players ens) pid"

definition get_players_by_role :: "Ensemble \<Rightarrow> PlayerRole \<Rightarrow> Player list" where
  "get_players_by_role ens r = [p \<leftarrow> map snd (players ens). role p = r]"

definition get_chenda_players :: "Ensemble \<Rightarrow> Player list" where
  "get_chenda_players ens = [p \<leftarrow> map snd (players ens). instrument_type p = CHENDA]"

definition get_cymbal_players :: "Ensemble \<Rightarrow> Player list" where
  "get_cymbal_players ens = [p \<leftarrow> map snd (players ens). instrument_type p = ELATHAALAM]"


section \<open>orchestration\_engine.py\<close>

datatype OrchestrationStrategy = TRADITIONAL | DYNAMIC | ANTIPHONAL | UNISON | LAYERED

record StrokeEvent =
  time :: real
  stroke_type :: string
  sound_category :: string
  intensity :: real
  duration :: real
  assigned_player :: "string option"
  velocity :: "real option"
  contact_point :: "real option"

record OrchestrationPattern =
  chenda_events :: "(string, StrokeEvent list) dict"
  cymbal_events :: "(string, StrokeEvent list) dict"
  wind_events :: "(string, StrokeEvent list) dict"

text \<open>\<open>d.update(other)\<close>\<close>

definition dict_update_all :: "('k, 'v) dict \<Rightarrow> ('k, 'v) dict \<Rightarrow> ('k, 'v) dict" where
  "dict_update_all d other = foldl (\<lambda>acc (k, v). AList.update k v acc) d other"

definition get_all_player_events ::
  "OrchestrationPattern \<Rightarrow> (string, StrokeEvent list) dict" where
  "get_all_player_events pat =
     dict_update_all (dict_update_all (dict_update_all [] (chenda_events pat))
       (cymbal_events pat)) (wind_events pat)"

definition empty_pattern :: OrchestrationPattern where
  "empty_pattern = \<lparr>chenda_events = [], cymbal_events = [], wind_events = []\<rparr>"

text \<open>
  \<open>_assign_event_to_player\<close>: the draws are made in the order velocity, timing
  offset, contact point.
\<close>

definition assign_event_to_player ::
  "StrokeEvent \<Rightarrow> Player \<Rightarrow> rng \<Rightarrow> error + StrokeEvent \<times> rng" where
  "assign_event_to_player event player g =
     bindE (get_velocity_for_intensity player (intensity event) g) (\<lambda>(vel, g1).
     bindE (get_timing_offset (timing player) (time event) g1) (\<lambda>(timing_offset, g2).
       let adjusted_time = time event + timing_offset in
       case (if intensity event > 0.7 then uniform 0.6 0.9 g2 else uniform 0.3 0.6 g2) of
         (cp, g3) \<Rightarrow>
           Inr (\<lparr>time = adjusted_time, stroke_type = stroke_type event,
                 sound_category = sound_category event, intensity = intensity event,
                 duration = duration event, assigned_player = Some (player_id player),
                 velocity = Some vel, contact_point = Some cp\<rparr>, g3)))"

text \<open>\<open>_add_cymbal_events\<close>: one loop turn per cymbal player.\<close>

fun add_cymbal_events ::
  "real \<Rightarrow> Player list \<Rightarrow> OrchestrationPattern \<Rightarrow> rng \<Rightarrow> error + OrchestrationPattern \<times> rng"
  where
  "add_cymbal_events t [] pat g = Inr (pat, g)"
| "add_cymbal_events t (cymbal # cymbals) pat g =
     bindE (get_timing_offset (timing cymbal) t g) (\<lambda>(off, g1).
     bindE (get_velocity_for_intensity cymbal 0.6 g1) (\<lambda>(vel, g2).
       let cymbal_event =
             \<lparr>time = t + off, stroke_type = ''1'', sound_category = ''NAM'', intensity = 0.6,
              duration = 0.5, assigned_player = Some (player_id cymbal),
              velocity = Some vel, contact_point = Some 0.5\<rparr> in
       bindE (dict_append (cymbal_events pat) (player_id cymbal) cymbal_event) (\<lambda>ce.
         add_cymbal_events t cymbals (pat\<lparr>cymbal_events := ce\<rparr>) g2)))"

definition analyze_pattern_complexity :: "StrokeEvent list \<Rightarrow> real" where
  "analyze_pattern_complexity events =
     (if events = [] then 0.0
      else
        let non_rest = [e \<leftarrow> events. sound_category e \<noteq> ''REST''];
            density_of_events = real (length non_rest) / real (length events);
            intensities = map intensity non_rest;
            dynamic_span =
              (if intensities \<noteq> [] then Max (set intensities) - Min (set intensities)
               else 0.0);
            complexity = density_of_events * 0.5 + dynamic_span * 0.5
        in clip complexity 0.0 1.0)"

definition is_structural_beat :: "nat \<Rightarrow> nat \<Rightarrow> bool" where
  "is_structural_beat position total_length = (position mod 4 = 0)"

definition select_player_traditional ::
  "StrokeEvent \<Rightarrow> nat \<Rightarrow> real \<Rightarrow> Player \<Rightarrow> Player \<Rightarrow> Player \<Rightarrow> Player" where
  "select_player_traditional event position complexity lead rhythm accent =
     (let is_downbeat = (position mod 4 = 0) in
      if intensity event > 0.8 then
        (if stroke_type event \<in> set [''Dheem'', ''Dha''] then accent else lead)
      else if is_downbeat \<and> intensity event < 0.6 then rhythm
      else if complexity > 0.7 then lead
      else [lead, rhythm, accent] ! (position mod 3))"

text \<open>
  The initialisation shared by the strategies: \<open>pattern.chenda_events[p.id] = []\<close> for
  the given chenda players, \<open>pattern.cymbal_events[c.id] = []\<close> for the cymbals.
\<close>

definition init_lists :: "Player list \<Rightarrow> (string, StrokeEvent list) dict" where
  "init_lists ps = foldl (\<lambda>d p. AList.update (player_id p) [] d) [] ps"

definition init_pattern :: "Player list \<Rightarrow> Player list \<Rightarrow> OrchestrationPattern" where
  "init_pattern chendas cymbals =
     \<lparr>chenda_events = init_lists chendas, cymbal_events = init_lists cymbals,
      wind_events = []\<rparr>"

text \<open>The loop of \<open>_orchestrate_traditional\<close> over \<open>enumerate(events)\<close>, from index \<open>i\<close>.\<close>

fun traditional_loop ::
  "Player \<Rightarrow> Player \<Rightarrow> Player \<Rightarrow> Player list \<Rightarrow> real \<Rightarrow> nat \<Rightarrow> nat \<Rightarrow> StrokeEvent list \<Rightarrow>
   OrchestrationPattern \<Rightarrow> rng \<Rightarrow> error + OrchestrationPattern \<times> rng" where
  "traditional_loop lead rhythm accent cymbals complexity total_length i [] pat g = Inr (pat, g)"
| "traditional_loop lead rhythm accent cymbals complexity total_length i (event # rest) pat g =
     (if sound_category event = ''REST''
      then traditional_loop lead rhythm accent cymbals complexity total_length (Suc i) rest pat g
      else
        let player = select_player_traditional event i complexity lead rhythm accent in
        bindE (assign_event_to_player event player g) (\<lambda>(assigned_event, g1).
        bindE (dict_append (chenda_events pat) (player_id player) assigned_event) (\<lambda>ce.
        bindE (if is_structural_beat i total_length
               then add_cymbal_events (time event) cymbals (pat\<lparr>chenda_events := ce\<rparr>) g1
               else Inr (pat\<lparr>chenda_events := ce\<rparr>, g1)) (\<lambda>(pat', g2).
          traditional_loop lead rhythm accent cymbals complexity total_length (Suc i) rest pat' g2))))"

definition orchestrate_traditional ::
  "Ensemble \<Rightarrow> StrokeEvent list \<Rightarrow> rng \<Rightarrow> error + OrchestrationPattern \<times> rng" where
  "orchestrate_traditional ens events g =
     bindE (first (get_players_by_role ens CHENDA_LEAD)) (\<lambda>lead_player.
     bindE (first (get_players_by_role ens CHENDA_RHYTHM)) (\<lambda>rhythm_player.
     bindE (first (get_players_by_role ens CHENDA_ACCENT)) (\<lambda>accent_player.
       let cymbals = get_cymbal_players ens;
           pat = init_pattern [lead_player, rhythm_player, accent_player] cymbals;
           complexity = analyze_pattern_complexity events
       in traditional_loop lead_player rhythm_player accent_player cymbals complexity
            (length events) 0 events pat g)))"

text \<open>
  \<open>_select_player_by_load\<close>: \<open>min(loads, key=loads.get)\<close> is the first key, in
  insertion order, of least load, and raises ValueError on no key at all. The result
  of \<open>get_player\<close> may be \<open>None\<close>.
\<close>

definition first_min_key :: "(string \<times> nat) \<Rightarrow> (string \<times> nat) list \<Rightarrow> string" where
  "first_min_key kv kvs =
     fst (foldl (\<lambda>best cand. if snd cand < snd best then cand else best) kv kvs)"

definition select_player_by_load ::
  "Ensemble \<Rightarrow> StrokeEvent \<Rightarrow> Player list \<Rightarrow> OrchestrationPattern \<Rightarrow> error + Player option"
  where
  "select_player_by_load ens event ps pat =
     (let loads = foldl (\<lambda>d p. AList.update (player_id p)
                     (length (case map_of (chenda_events pat) (player_id p) of
                                None \<Rightarrow> [] | Some evs \<Rightarrow> evs)) d) [] ps
      in case loads of
           [] \<Rightarrow> Inl ValueError
         | kv # kvs \<Rightarrow> Inr (get_player ens (first_min_key kv kvs)))"

text \<open>
  \<open>_calculate_density\<close>: \<open>_orchestrate_dynamic\<close> computes it and does not use the
  result; it raises nothing.
\<close>

definition calculate_density :: "StrokeEvent list \<Rightarrow> real" where
  "calculate_density events =
     (if events = [] \<or> length events < 2 then 0.0
      else
        let non_rest = [e \<leftarrow> events. sound_category e \<noteq> ''REST''] in
        if non_rest = [] then 0.0
        else
          let span = time (last non_rest) - time (hd non_rest) in
          if span = 0 then 0.0 else real (length non_rest) / span)"

fun dynamic_loop ::
  "Ensemble \<Rightarrow> Player list \<Rightarrow> Player list \<Rightarrow> nat \<Rightarrow> StrokeEvent list \<Rightarrow>
   OrchestrationPattern \<Rightarrow> rng \<Rightarrow> error + OrchestrationPattern \<times> rng" where
  "dynamic_loop ens chendas cymbals i [] pat g = Inr (pat, g)"
| "dynamic_loop ens chendas cymbals i (event # rest) pat g =
     (if sound_category event = ''REST''
      then dynamic_loop ens chendas cymbals (Suc i) rest pat g
      else
        bindE (select_player_by_load ens event chendas pat) (\<lambda>sel.
        case sel of None \<Rightarrow> Inl AttributeError | Some player \<Rightarrow>
        bindE (assign_event_to_player event player g) (\<lambda>(assigned_event, g1).
        bindE (dict_append (chenda_events pat) (player_id player) assigned_event) (\<lambda>ce.
        bindE (if i mod 8 = 0
               then add_cymbal_events (time event) cymbals (pat\<lparr>chenda_events := ce\<rparr>) g1
               else Inr (pat\<lparr>chenda_events := ce\<rparr>, g1)) (\<lambda>(pat', g2).
          dynamic_loop ens chendas cymbals (Suc i) rest pat' g2)))))"

definition orchestrate_dynamic ::
  "Ensemble \<Rightarrow> StrokeEvent list \<Rightarrow> rng \<Rightarrow> error + OrchestrationPattern \<times> rng" where
  "orchestrate_dynamic ens events g =
     (let chenda_players = get_chenda_players ens;
          cymbals = get_cymbal_players ens;
          pat = init_pattern chenda_players cymbals
      in dynamic_loop ens chenda_players cymbals 0 events pat g)"

fun antiphonal_loop ::
  "Player \<Rightarrow> Player \<Rightarrow> Player \<Rightarrow> nat \<Rightarrow> StrokeEvent list \<Rightarrow>
   OrchestrationPattern \<Rightarrow> rng \<Rightarrow> error + OrchestrationPattern \<times> rng" where
  "antiphonal_loop lead rhythm accent i [] pat g = Inr (pat, g)"
| "antiphonal_loop lead rhythm accent i (event # rest) pat g =
     (if sound_category event = ''REST''
      then antiphonal_loop lead rhythm accent (Suc i) rest pat g
      else
        let phrase_length = 4;
            phrase_num = i div phrase_length;
            player = (if phrase_num mod 2 = 0 then lead
                      else if i mod 2 = 0 then rhythm else accent) in
        bindE (assign_event_to_player event player g) (\<lambda>(assigned_event, g1).
        bindE (dict_append (chenda_events pat) (player_id player) assigned_event) (\<lambda>ce.
          antiphonal_loop lead rhythm accent (Suc i) rest (pat\<lparr>chenda_events := ce\<rparr>) g1)))"

definition orchestrate_antiphonal ::
  "Ensemble \<Rightarrow> StrokeEvent list \<Rightarrow> rng \<Rightarrow> error + OrchestrationPattern \<times> rng" where
  "orchestrate_antiphonal ens events g =
     bindE (first (get_players_by_role ens CHENDA_LEAD)) (\<lambda>lead.
     bindE (first (get_players_by_role ens CHENDA_RHYTHM)) (\<lambda>rhythm.
     bindE (first (get_players_by_role ens CHENDA_ACCENT)) (\<lambda>accent.
       let cymbals = get_cymbal_players ens;
           pat = init_pattern [lead, rhythm, accent] cymbals
       in antiphonal_loop lead rhythm accent 0 events pat g)))"

text \<open>
  The inner loop of the unison and layered strategies: every player of the list gets
  its own assigned copy of the event, appended to its own list.
\<close>

fun assign_to_all ::
  "StrokeEvent \<Rightarrow> Player list \<Rightarrow> OrchestrationPattern \<Rightarrow> rng \<Rightarrow>
   error + OrchestrationPattern \<times> rng" where
  "assign_to_all event [] pat g = Inr (pat, g)"
| "assign_to_all event (player # ps) pat g =
     bindE (assign_event_to_player event player g) (\<lambda>(assigned_event, g1).
     bindE (dict_append (chenda_events pat) (player_id player) assigned_event) (\<lambda>ce.
       assign_to_all event ps (pat\<lparr>chenda_events := ce\<rparr>) g1))"

fun unison_loop ::
  "Player list \<Rightarrow> Player list \<Rightarrow> nat \<Rightarrow> nat \<Rightarrow> StrokeEvent list \<Rightarrow>
   OrchestrationPattern \<Rightarrow> rng \<Rightarrow> error + OrchestrationPattern \<times> rng" where
  "unison_loop chendas cymbals total_length i [] pat g = Inr (pat, g)"
| "unison_loop chendas cymbals total_length i (event # rest) pat g =
     (if sound_category event = ''REST''
      then unison_loop chendas cymbals total_length (Suc i) rest pat g
      else
        bindE (assign_to_all event chendas pat g) (\<lambda>(pat1, g1).
        bindE (if is_structural_beat i total_length
               then add_cymbal_events (time event) cymbals pat1 g1
               else Inr (pat1, g1)) (\<lambda>(pat', g2).
          unison_loop chendas cymbals total_length (Suc i) rest pat' g2)))"

definition orchestrate_unison ::
  "Ensemble \<Rightarrow> StrokeEvent list \<Rightarrow> rng \<Rightarrow> error + OrchestrationPattern \<times> rng" where
  "orchestrate_unison ens events g =
     (let chenda_players = get_chenda_players ens;
          cymbals = get_cymbal_players ens;
          pat = init_pattern chenda_players cymbals
      in unison_loop chenda_players cymbals (length events) 0 events pat g)"

text \<open>
  The players that have entered at index \<open>i\<close> of the layered strategy:
  \<open>chenda_players[idx]\<close> for every \<open>idx\<close> with \<open>i >= entry_points[idx]\<close> that the list has.
\<close>

definition active_players :: "nat list \<Rightarrow> Player list \<Rightarrow> nat \<Rightarrow> Player list" where
  "active_players entry_points chendas i =
     map (\<lambda>(idx, entry). chendas ! idx)
       [(idx, entry) \<leftarrow> zip [0..<length entry_points] entry_points.
          i \<ge> entry \<and> idx < length chendas]"

fun layered_loop ::
  "Player list \<Rightarrow> nat list \<Rightarrow> nat \<Rightarrow> StrokeEvent list \<Rightarrow>
   OrchestrationPattern \<Rightarrow> rng \<Rightarrow> error + OrchestrationPattern \<times> rng" where
  "layered_loop chendas entry_points i [] pat g = Inr (pat, g)"
| "layered_loop chendas entry_points i (event # rest) pat g =
     (if sound_category event = ''REST''
      then layered_loop chendas entry_points (Suc i) rest pat g
      else
        bindE (assign_to_all event (active_players entry_points chendas i) pat g)
          (\<lambda>(pat', g1). layered_loop chendas entry_points (Suc i) rest pat' g1))"

definition orchestrate_layered ::
  "Ensemble \<Rightarrow> StrokeEvent list \<Rightarrow> rng \<Rightarrow> error + OrchestrationPattern \<times> rng" where
  "orchestrate_layered ens events g =
     (let chenda_players = get_chenda_players ens;
          cymbals = get_cymbal_players ens;
          pat = init_pattern chenda_players cymbals;
          entry_points = [0, length events div 4, length events div 2]
      in layered_loop chenda_players entry_points 0 events pat g)"

definition orchestrate_sequence ::
  "Ensemble \<Rightarrow> StrokeEvent list \<Rightarrow> OrchestrationStrategy \<Rightarrow> rng \<Rightarrow>
   error + OrchestrationPattern \<times> rng" where
  "orchestrate_sequence ens events strategy g =
     (case strategy of
        TRADITIONAL \<Rightarrow> orchestrate_traditional ens events g
      | DYNAMIC \<Rightarrow> orchestrate_dynamic ens events g
      | ANTIPHONAL \<Rightarrow> orchestrate_antiphonal ens events g
      | UNISON \<Rightarrow> orchestrate_unison ens events g
      | LAYERED \<Rightarrow> orchestrate_layered ens events g)"


section \<open>spectral\_engine.py\<close>

text \<open>
  One entry of the spectral database: its category and its partials, each a row
  \<open>[frequency, amplitude, decay scale]\<close>.
\<close>

record AcousticSignature =
  cat :: string
  partials :: "(real \<times> real \<times> real) list"

text \<open>
  The engine after \<open>load_db\<close>: \<open>db\<close> is the loaded dictionary, the empty one when
  the file was not found.
\<close>

record SpectralEngine =
  engine_sample_rate :: int
  db :: "(string, AcousticSignature) dict"

definition freq_factor :: "real \<Rightarrow> real" where
  "freq_factor freq =
     (if freq < 80 then 0.4
      else if freq < 180 then 1.2
      else if freq < 450 then 1.6
      else if freq < 800 then 1.1
      else if freq < 2500 then 0.8
      else if freq < 5000 then 0.6
      else 0.1)"

text \<open>
  The inner loop of \<open>synthesize_additive\<close> over \<open>t_idx\<close>, on the part of the output
  buffer from \<open>t_idx\<close> on; it leaves the loop at the first envelope below the threshold.
\<close>

fun oscillator_loop ::
  "real \<Rightarrow> real \<Rightarrow> real \<Rightarrow> real \<Rightarrow> real \<Rightarrow> real \<Rightarrow> nat \<Rightarrow> real list \<Rightarrow> real list" where
  "oscillator_loop time_step omega decay_coef transient_mix amp_filtered distortion t_idx [] = []"
| "oscillator_loop time_step omega decay_coef transient_mix amp_filtered distortion t_idx
       (out # outs) =
     (let t = real t_idx * time_step;
          env = exp (decay_coef * t);
          transient_env = exp (-500.0 * t) * transient_mix;
          total_amp = (env + transient_env) * amp_filtered * distortion
      in if total_amp < 0.00001 then out # outs
         else (out + sin (omega * t) * total_amp)
              # oscillator_loop time_step omega decay_coef transient_mix amp_filtered distortion
                  (Suc t_idx) outs)"

text \<open>One turn of the outer loop: the contribution of one partial.\<close>

definition add_partial :: "real \<Rightarrow> real list \<Rightarrow> real \<times> real \<times> real \<Rightarrow> real list" where
  "add_partial time_step output p =
     (case p of (freq, amp, decay_scale) \<Rightarrow>
        if amp < 0.001 then output
        else
          let inharmonic_stretch = 1.0 + (freq * 0.00005);
              target_freq = freq * inharmonic_stretch;
              amp_filtered = amp * freq_factor freq;
              omega = 2.0 * pi * target_freq;
              decay_coef = -5.0 * decay_scale;
              distortion = 1.0 + 0.1 * \<bar>sin (omega * 0.002)\<bar>;
              transient_mix = (if freq > 1000 then 0.4 else 0.0)
          in oscillator_loop time_step omega decay_coef transient_mix amp_filtered distortion
               0 output)"

text \<open>The running maximum of the absolute values, started at 0.\<close>

definition abs_max :: "real list \<Rightarrow> real" where
  "abs_max output = foldl (\<lambda>max_val x. if \<bar>x\<bar> > max_val then \<bar>x\<bar> else max_val) 0.0 output"

definition synthesize_additive ::
  "(real \<times> real \<times> real) list \<Rightarrow> real \<Rightarrow> int \<Rightarrow> real \<Rightarrow> error + real list" where
  "synthesize_additive parts dur sr vel =
     (let num_samples = py_int (dur * real_of_int sr) in
      if num_samples < 0 then Inl ValueError
      else if sr = 0 then Inl ZeroDivisionError
      else
        let time_step = 1.0 / real_of_int sr;
            output = foldl (add_partial time_step) (replicate (nat num_samples) 0.0) parts;
            max_val = abs_max output
        in if max_val > 0 then Inr (map (\<lambda>x. x * ((1.0 / max_val) * vel)) output)
           else Inr output)"

text \<open>\<open>np.max\<close> of a one-dimensional array; it raises on an empty one.\<close>

definition np_max :: "real list \<Rightarrow> error + real" where
  "np_max xs = (case xs of [] \<Rightarrow> Inl ValueError | x # rest \<Rightarrow> Inr (foldl max x rest))"

text \<open>The timing shift of one layer inside its buffer of \<open>target_samples\<close> samples.\<close>

definition shift_layer :: "real \<Rightarrow> int \<Rightarrow> nat \<Rightarrow> real list \<Rightarrow> real list" where
  "shift_layer timing_offset sr target_samples layer =
     (if timing_offset > 0 then
        (let offset_samples = py_int (\<bar>timing_offset\<bar> * real_of_int sr) in
         if offset_samples > 0
         then take target_samples (replicate (nat offset_samples) 0.0 @ layer)
         else layer)
      else if timing_offset < 0 then
        (let offset_samples = py_int (\<bar>timing_offset\<bar> * real_of_int sr) in
         if offset_samples > 0
         then take target_samples
                (drop (nat offset_samples) (layer @ replicate (nat offset_samples) 0.0))
         else layer)
      else layer)"

text \<open>
  One virtual drummer of \<open>get_sound\<close>. The velocity is the field of a stroke event,
  which is \<open>None\<close> before orchestration: the product with the jitter then raises.
\<close>

definition render_layer ::
  "SpectralEngine \<Rightarrow> string list \<Rightarrow> real option \<Rightarrow> real \<Rightarrow> rng \<Rightarrow> error + real list \<times> rng"
  where
  "render_layer eng candidates vel dur g =
     bindE (choice candidates g) (\<lambda>(sound_id, g1).
     bindE (dict_lookup (db eng) sound_id) (\<lambda>data.
     bindE (normal 0 0.015 g1) (\<lambda>(dz, g2).
     bindE (normal 0 0.008 g2) (\<lambda>(timing_offset, g3).
       let detune = 1.0 + dz;
           target_samples = py_int (dur * real_of_int (engine_sample_rate eng)) in
       case uniform 0.9 1.1 g3 of (jitter, g4) \<Rightarrow>
       (case vel of
          None \<Rightarrow> Inl TypeError
        | Some v \<Rightarrow>
            bindE (synthesize_additive
                     (map (\<lambda>(f, a, d). (f * detune, a * detune, d * detune)) (partials data))
                     dur (engine_sample_rate eng) (v * jitter)) (\<lambda>layer.
              let n = nat target_samples;
                  layer1 = (if length layer < n then layer @ replicate (n - length layer) 0.0
                            else if length layer > n then take n layer
                            else layer)
              in Inr (shift_layer timing_offset (engine_sample_rate eng) n layer1, g4)))))))"

fun render_layers ::
  "SpectralEngine \<Rightarrow> string list \<Rightarrow> real option \<Rightarrow> real \<Rightarrow> nat \<Rightarrow> rng \<Rightarrow>
   error + real list list \<times> rng" where
  "render_layers eng candidates vel dur 0 g = Inr ([], g)"
| "render_layers eng candidates vel dur (Suc k) g =
     bindE (render_layer eng candidates vel dur g) (\<lambda>(layer, g1).
     bindE (render_layers eng candidates vel dur k g1) (\<lambda>(layers, g2).
       Inr (layer # layers, g2)))"

definition get_sound ::
  "SpectralEngine \<Rightarrow> string \<Rightarrow> real option \<Rightarrow> real \<Rightarrow> rng \<Rightarrow> error + real list \<times> rng" where
  "get_sound eng category vel dur g =
     (let candidates = map fst [(k, v) \<leftarrow> db eng. cat v = category];
          target_samples = py_int (dur * real_of_int (engine_sample_rate eng)) in
      if candidates = [] then
        (if target_samples < 0 then Inl ValueError
         else Inr (replicate (nat target_samples) 0.0, g))
      else
        let num_drummers = 4 in
        bindE (render_layers eng candidates vel dur num_drummers g) (\<lambda>(layers, g1).
          let n = nat target_samples;
              ensemble = foldl (\<lambda>acc layer. if length layer = n then map2 (+) acc layer else acc)
                           (replicate n 0.0) layers in
          bindE (np_max (map abs ensemble)) (\<lambda>max_val.
            if max_val > 0 then
              (case vel of None \<Rightarrow> Inl TypeError
               | Some v \<Rightarrow> Inr (map (\<lambda>x. x / max_val * v) ensemble, g1))
            else Inr (ensemble, g1))))"


section \<open>Sample buffers\<close>

text \<open>
  A sample of an audio buffer in the mixer is a float. Its finite values are modelled as
  reals, with exact arithmetic, and the value NaN is kept apart, since the code's
  handling of NaN is part of what is specified: an operation with a NaN operand gives
  NaN, and a comparison with NaN is false. Infinities and rounding are not modelled.
\<close>

datatype fsample = Fin real | NaN

instantiation fsample :: "{zero, plus, times}"
begin

definition zero_fsample :: fsample where
  "zero_fsample = Fin 0"

definition plus_fsample :: "fsample \<Rightarrow> fsample \<Rightarrow> fsample" where
  "plus_fsample x y = (case (x, y) of (Fin a, Fin b) \<Rightarrow> Fin (a + b) | _ \<Rightarrow> NaN)"

definition times_fsample :: "fsample \<Rightarrow> fsample \<Rightarrow> fsample" where
  "times_fsample x y = (case (x, y) of (Fin a, Fin b) \<Rightarrow> Fin (a * b) | _ \<Rightarrow> NaN)"

instance ..

end

text \<open>Scaling a sample or a buffer by a finite scalar, and applying a real function.\<close>

definition fmap :: "(real \<Rightarrow> real) \<Rightarrow> fsample \<Rightarrow> fsample" where
  "fmap f x = (case x of Fin a \<Rightarrow> Fin (f a) | NaN \<Rightarrow> NaN)"

definition scale :: "real \<Rightarrow> fsample list \<Rightarrow> fsample list" where
  "scale c xs = map (\<lambda>x. x * Fin c) xs"

text \<open>Elementwise sum of two buffers of the same shape.\<close>

definition vadd :: "fsample list \<Rightarrow> fsample list \<Rightarrow> fsample list" where
  "vadd xs ys = map2 (+) xs ys"

definition zeros :: "nat \<Rightarrow> fsample list" where
  "zeros n = replicate n (Fin 0)"

text \<open>
  \<open>np.max(np.abs(a))\<close>: it raises on an array without elements and is NaN when an
  element is NaN.
\<close>

definition peak :: "fsample list \<Rightarrow> error + fsample" where
  "peak xs =
     (if xs = [] then Inl ValueError
      else if NaN \<in> set xs then Inr NaN
      else Inr (Fin (Max (set (map (\<lambda>x. case x of Fin a \<Rightarrow> \<bar>a\<bar> | NaN \<Rightarrow> 0) xs)))))"

text \<open>The comparisons \<open>x > c\<close> and \<open>x < c\<close> of a float with a finite constant.\<close>

definition fgt :: "fsample \<Rightarrow> real \<Rightarrow> bool" where
  "fgt x c = (case x of Fin a \<Rightarrow> a > c | NaN \<Rightarrow> False)"

definition flt :: "fsample \<Rightarrow> real \<Rightarrow> bool" where
  "flt x c = (case x of Fin a \<Rightarrow> a < c | NaN \<Rightarrow> False)"

text \<open>\<open>a / p * c\<close> on every element, for a float \<open>p\<close> known to be above zero.\<close>

definition normalize_to :: "fsample \<Rightarrow> real \<Rightarrow> fsample list \<Rightarrow> fsample list" where
  "normalize_to p c xs = map (\<lambda>x. (x * fmap inverse p) * Fin c) xs"


section \<open>Library filters\<close>

text \<open>
  \<open>scipy.signal.butter(1, Wn, btype, output='sos')\<close> followed by
  \<open>scipy.signal.sosfilt\<close>: the first-order Butterworth filter designed by the bilinear
  transform, run in transposed direct form II from a zero state. The design raises
  ValueError unless \<open>0 < Wn < 1\<close>. This follows scipy's documented behaviour; the
  library is not part of the repository.
\<close>

datatype btype = Lowpass | Highpass

definition butter1 :: "real \<Rightarrow> btype \<Rightarrow> error + real \<times> real \<times> real" where
  "butter1 Wn bt =
     (if \<not> (0 < Wn \<and> Wn < 1) then Inl ValueError
      else
        let k = tan (pi * Wn / 2) in
        case bt of
          Lowpass \<Rightarrow> Inr (k / (1 + k), k / (1 + k), (k - 1) / (k + 1))
        | Highpass \<Rightarrow> Inr (1 / (1 + k), - 1 / (1 + k), (k - 1) / (k + 1)))"

fun sosfilt1 :: "real \<times> real \<times> real \<Rightarrow> fsample \<Rightarrow> fsample list \<Rightarrow> fsample list" where
  "sosfilt1 c st [] = []"
| "sosfilt1 (b0, b1, a1) st (x # xs) =
     (let y = Fin b0 * x + st
      in y # sosfilt1 (b0, b1, a1) (Fin b1 * x + Fin (- a1) * y) xs)"

definition butter_filter :: "real \<Rightarrow> btype \<Rightarrow> fsample list \<Rightarrow> error + fsample list" where
  "butter_filter Wn bt xs = bindE (butter1 Wn bt) (\<lambda>c. Inr (sosfilt1 c (Fin 0) xs))"

text \<open>
  \<open>scipy.interpolate.interp1d(t_orig, y, kind='linear', fill_value=0,
  bounds_error=False)\<close> for \<open>t_orig = arange(len(y))\<close>, at one point: zero outside
  \<open>[0, len(y) - 1]\<close>, the straight line between the two neighbours inside.
\<close>

definition interp_linear :: "fsample list \<Rightarrow> real \<Rightarrow> fsample" where
  "interp_linear ys x =
     (if x < 0 \<or> x > real (length ys - 1) then Fin 0
      else
        let hi = max 1 (min (length ys - 1) (nat \<lceil>x\<rceil>));
            lo = hi - 1;
            slope = ys ! hi + Fin (- 1) * (ys ! lo)
        in slope * Fin (x - real lo) + ys ! lo)"

text \<open>\<open>np.linspace(0, stop, num)\<close>\<close>

definition linspace0 :: "real \<Rightarrow> nat \<Rightarrow> real list" where
  "linspace0 stop num =
     (if num = 1 then [0.0]
      else map (\<lambda>i. real i * (stop / real (num - 1))) [0..<num])"


section \<open>physical\_modeling.py and stick\_physics.py\<close>

text \<open>
  \<open>generate_transient\<close>. Its band-pass stage, \<open>scipy.signal.butter(2, [low, high],
  btype='band')\<close> followed by \<open>scipy.signal.filtfilt\<close>, is library code and a parameter
  of the model: \<open>bandpass low high noise\<close>, which may raise. A result of another
  length cannot be multiplied with the envelope.
\<close>

type_synonym bandpass = "real \<Rightarrow> real \<Rightarrow> real list \<Rightarrow> error + real list"

definition generate_transient ::
  "bandpass \<Rightarrow> real \<Rightarrow> int \<Rightarrow> real \<Rightarrow> real \<Rightarrow> real \<Rightarrow> rng \<Rightarrow> error + real list \<times> rng" where
  "generate_transient bp dur sr center_freq bandwidth decay g =
     (let num_samples = py_int (dur * real_of_int sr) in
      if num_samples < 1 then Inr ([], g)
      else
        case randn (nat num_samples) g of (noise, g1) \<Rightarrow>
        let nyquist = real_of_int sr / 2;
            low = max (center_freq - bandwidth / 2) 20 / nyquist;
            high = min (center_freq + bandwidth / 2) (nyquist * 0.99) / nyquist in
        bindE (if low < high then bp low high noise else Inr noise) (\<lambda>filtered_noise.
          let t = linspace0 dur (nat num_samples);
              env = map (\<lambda>ti. exp (- ti / decay)) t
          in if length filtered_noise \<noteq> nat num_samples then Inl ValueError
             else Inr (map2 (*) filtered_noise env, g1)))"

record ImpactSpectrum =
  impact_force :: real
  contact_duration :: real
  spectral_centroid :: real
  spectral_width :: real
  transient_energy :: real
  stick_resonance_freq :: real
  stick_resonance_energy :: real
  angle :: real
  impact_contact_point :: real

record MembraneResponse =
  excitation_amplitude :: real
  decay_time :: real
  pitch_bend_amount :: real
  pitch_bend_duration :: real

text \<open>
  \<open>calculate_impact_spectrum\<close>. Velocity and contact point are the fields of the
  stroke event, \<open>None\<close> before orchestration; the first arithmetic on \<open>None\<close> raises.
\<close>

definition calculate_impact_spectrum ::
  "StickProperties \<Rightarrow> real option \<Rightarrow> real option \<Rightarrow> real \<Rightarrow> error + ImpactSpectrum" where
  "calculate_impact_spectrum stick vel cp ang =
     (case vel of None \<Rightarrow> Inl TypeError | Some v \<Rightarrow>
      let angle_rad = ang * pi / 180;
          force = momentum_factor stick * v * cos (angle_rad - pi / 2);
          base_contact_duration = 0.001 in
      if impact_brightness stick = 0 then Inl ZeroDivisionError
      else
        let cd = base_contact_duration / impact_brightness stick;
            base_centroid = 2000;
            hardness_factor = impact_brightness stick;
            velocity_factor = 1.0 + v in
        (case cp of
           None \<Rightarrow> Inl TypeError
         | Some c \<Rightarrow>
             let position_factor = 0.5 + c * 0.5;
                 centroid = base_centroid * hardness_factor * velocity_factor * position_factor;
                 width = 1500 * v + 500;
                 energy = impact_brightness stick * v * 0.3 in
             bindE (resonant_frequency stick) (\<lambda>res_freq.
               Inr \<lparr>impact_force = force, contact_duration = cd, spectral_centroid = centroid,
                    spectral_width = width, transient_energy = energy,
                    stick_resonance_freq = res_freq, stick_resonance_energy = 0.1 * v,
                    angle = ang, impact_contact_point = c\<rparr>)))"

definition calculate_membrane_response ::
  "MembraneProperties \<Rightarrow> ImpactSpectrum \<Rightarrow> error + MembraneResponse" where
  "calculate_membrane_response membrane impact =
     (let excitation = impact_force impact * effective_tension membrane;
          base_decay = 0.5;
          thickness_factor = membrane_thickness membrane / 3.5 in
      if effective_tension membrane = 0 then Inl ZeroDivisionError
      else
        let tension_factor = 1.0 / effective_tension membrane in
        Inr \<lparr>excitation_amplitude = excitation,
             decay_time = base_decay * thickness_factor * tension_factor,
             pitch_bend_amount = (1.0 - effective_tension membrane) * 0.15,
             pitch_bend_duration = contact_duration impact * 3\<rparr>)"

text \<open>
  \<open>calculate_rebound_dynamics\<close>: the strike profile stores its result and the mixer
  reads none of it, so the model keeps only whether the call raises.
\<close>

definition calculate_rebound_dynamics ::
  "StickProperties \<Rightarrow> MembraneProperties \<Rightarrow> real option \<Rightarrow> error + unit" where
  "calculate_rebound_dynamics stick membrane vel =
     (if momentum_factor stick = 0 then Inl ZeroDivisionError
      else if vel = None then Inl TypeError
      else if impact_brightness stick = 0 then Inl ZeroDivisionError
      else Inr ())"

definition generate_impact_transient ::
  "bandpass \<Rightarrow> int \<Rightarrow> ImpactSpectrum \<Rightarrow> real \<Rightarrow> rng \<Rightarrow> error + real list \<times> rng" where
  "generate_impact_transient bp sr impact dur g =
     (if transient_energy impact < 0.01 then
        (if py_int (dur * real_of_int sr) < 0 then Inl ValueError
         else Inr (replicate (nat (py_int (dur * real_of_int sr))) 0.0, g))
      else
        bindE (generate_transient bp dur sr (spectral_centroid impact) (spectral_width impact)
                 (contact_duration impact * 10) g) (\<lambda>(transient, g1).
          Inr (map (\<lambda>x. x * transient_energy impact) transient, g1)))"

definition generate_stick_resonance :: "int \<Rightarrow> ImpactSpectrum \<Rightarrow> real \<Rightarrow> error + real list" where
  "generate_stick_resonance sr impact dur =
     (let num_samples = py_int (dur * real_of_int sr) in
      if num_samples < 0 then Inl ValueError
      else if stick_resonance_energy impact < 0.01 then Inr (replicate (nat num_samples) 0.0)
      else
        let t = linspace0 dur (nat num_samples);
            freq = stick_resonance_freq impact;
            decay = 15.0;
            waveform = map (\<lambda>ti. sin (2 * pi * freq * ti) * exp (- decay * ti)) t
        in Inr (map (\<lambda>x. x * stick_resonance_energy impact) waveform))"

text \<open>\<open>apply_contact_point_filtering\<close>: there is no branch that leaves the signal alone.\<close>

definition apply_contact_point_filtering ::
  "int \<Rightarrow> fsample list \<Rightarrow> real \<Rightarrow> error + fsample list" where
  "apply_contact_point_filtering sr signal cp =
     (if sr = 0 then Inl ZeroDivisionError
      else if cp > 0.5 then
        (let cutoff = 300 + (cp - 0.5) * 1000 in
         bindE (butter_filter (cutoff / (real_of_int sr / 2)) Highpass signal) (\<lambda>filtered.
           let blend = (cp - 0.5) * 0.4
           in Inr (vadd (scale (1 - blend) signal) (scale blend filtered))))
      else
        (let cutoff = 1500 + cp * 2000 in
         bindE (butter_filter (cutoff / (real_of_int sr / 2)) Lowpass signal) (\<lambda>filtered.
           let blend = (0.5 - cp) * 0.4
           in Inr (vadd (scale (1 - blend) signal) (scale blend filtered)))))"

text \<open>
  \<open>create_complete_strike_profile\<close>, with the entries of the profile that the mixer
  reads. The only draws are those of the noise of the transient.
\<close>

record StrikeProfile =
  response :: MembraneResponse
  transient_waveform :: "real list"
  stick_resonance_waveform :: "real list"
  profile_contact_point :: real

definition create_complete_strike_profile ::
  "bandpass \<Rightarrow> StickProperties \<Rightarrow> MembraneProperties \<Rightarrow> real option \<Rightarrow> real option \<Rightarrow> real \<Rightarrow>
   int \<Rightarrow> rng \<Rightarrow> error + StrikeProfile \<times> rng" where
  "create_complete_strike_profile bp stick membrane vel cp ang sr g =
     bindE (calculate_impact_spectrum stick vel cp ang) (\<lambda>impact.
     bindE (calculate_membrane_response membrane impact) (\<lambda>resp.
     bindE (calculate_rebound_dynamics stick membrane vel) (\<lambda>_.
     bindE (generate_impact_transient bp sr impact 0.05 g) (\<lambda>(transient, g1).
     bindE (generate_stick_resonance sr impact 0.1) (\<lambda>stick_resonance.
       Inr (\<lparr>response = resp, transient_waveform = transient,
             stick_resonance_waveform = stick_resonance,
             profile_contact_point = impact_contact_point impact\<rparr>, g1))))))"


section \<open>ensemble\_mixer.py\<close>

record EnsembleMixer =
  mixer_sample_rate :: int

text \<open>
  \<open>_apply_pitch_bend\<close>. All of the resampling sits in a \<open>try\<close> whose handler
  passes, so a division by zero in the stretch ratio leaves the signal as it is.
\<close>

definition apply_pitch_bend :: "int \<Rightarrow> fsample list \<Rightarrow> real \<Rightarrow> real \<Rightarrow> fsample list" where
  "apply_pitch_bend sr audio_signal bend_amount bend_duration =
     (let bend_samples0 = py_int (bend_duration * real_of_int sr);
          bend_samples = (if bend_samples0 > int (length audio_signal)
                          then int (length audio_signal) else bend_samples0)
      in if bend_samples < 10 then audio_signal
         else
           let n = nat bend_samples;
               bent_portion = take n audio_signal
           in if 1.0 - bend_amount * 0.5 = 0 then audio_signal
              else
                let t_new = map (\<lambda>i. real i * (1.0 / (1.0 - bend_amount * 0.5)))
                              [0..<length bent_portion]
                in if last t_new < real (length bent_portion)
                   then map (interp_linear bent_portion) (take n t_new) @ drop n audio_signal
                   else audio_signal)"

definition apply_wood_character :: "int \<Rightarrow> fsample list \<Rightarrow> real \<Rightarrow> error + fsample list" where
  "apply_wood_character sr audio_signal brightness =
     (if brightness > 0.6 then
        (let cutoff = 1500 in
         if sr = 0 then Inl ZeroDivisionError
         else
           bindE (butter_filter (cutoff / (real_of_int sr / 2)) Highpass audio_signal)
             (\<lambda>filtered.
               let blend = (brightness - 0.6) * 0.5
               in Inr (vadd (scale (1 - blend) audio_signal) (scale blend filtered))))
      else if brightness < 0.4 then
        (let cutoff = 800 in
         if sr = 0 then Inl ZeroDivisionError
         else
           bindE (butter_filter (cutoff / (real_of_int sr / 2)) Lowpass audio_signal)
             (\<lambda>filtered.
               let blend = (0.4 - brightness) * 0.5
               in Inr (vadd (scale (1 - blend) audio_signal) (scale blend filtered))))
      else Inr audio_signal)"

definition apply_material_effects ::
  "EnsembleMixer \<Rightarrow> fsample list \<Rightarrow> StrikeProfile \<Rightarrow> WoodProperties \<Rightarrow> MembraneProperties \<Rightarrow>
   error + fsample list" where
  "apply_material_effects mx audio_signal strike_profile wood membrane =
     (let sr = mixer_sample_rate mx;
          pitch_bend = pitch_bend_amount (response strike_profile);
          output1 = (if pitch_bend > 0.01
                     then apply_pitch_bend sr audio_signal pitch_bend
                            (pitch_bend_duration (response strike_profile))
                     else audio_signal);
          brightness = resonance_brightness wood in
      bindE (apply_wood_character sr output1 brightness) (\<lambda>output2.
        apply_contact_point_filtering sr output2 (profile_contact_point strike_profile)))"

definition synthesize_cymbal_strike ::
  "Player \<Rightarrow> StrokeEvent \<Rightarrow> SpectralEngine \<Rightarrow> rng \<Rightarrow> error + fsample list \<times> rng" where
  "synthesize_cymbal_strike player event eng g =
     bindE (get_sound eng ''NAM'' (velocity event) (duration event) g) (\<lambda>(sound, g').
       Inr (map Fin sound, g'))"

definition synthesize_basic ::
  "StrokeEvent \<Rightarrow> SpectralEngine \<Rightarrow> rng \<Rightarrow> error + fsample list \<times> rng" where
  "synthesize_basic event eng g =
     bindE (get_sound eng (sound_category event) (velocity event) (duration event) g)
       (\<lambda>(sound, g'). Inr (map Fin sound, g'))"

text \<open>\<open>sound[:k] += wave[:k] * c\<close> for \<open>k = min(len(wave), len(sound))\<close>\<close>

definition mix_at_start :: "real \<Rightarrow> real list \<Rightarrow> fsample list \<Rightarrow> fsample list" where
  "mix_at_start c wave sound =
     (if length wave > 0 then
        (let k = min (length wave) (length sound)
         in vadd (take k sound) (scale c (map Fin (take k wave))) @ drop k sound)
      else sound)"

text \<open>
  \<open>_synthesize_chenda_strike\<close>. The membranes of the instrument are read through the
  store \<open>mdb\<close>, the present state of \<open>MEMBRANE_DATABASE\<close>; a reference that the
  store does not hold cannot arise from \<open>create_chenda\<close> and is reported as KeyError.
\<close>

definition synthesize_chenda_strike ::
  "bandpass \<Rightarrow> EnsembleMixer \<Rightarrow> membrane_db \<Rightarrow> Player \<Rightarrow> StrokeEvent \<Rightarrow> SpectralEngine \<Rightarrow> rng \<Rightarrow>
   error + fsample list \<times> rng" where
  "synthesize_chenda_strike bp mx mdb player event eng g =
     (case instrument player of
        Chenda ins \<Rightarrow>
          let on_valam = (sound_category event \<in> set [''THAAM'', ''CHAPU'']);
              membrane_r = (if on_valam then membrane_valam ins else membrane_edamthala ins);
              stick = (if on_valam then stick_valam ins else stick_edamthala ins);
              base_category = sound_category event in
          bindE (dict_lookup mdb membrane_r) (\<lambda>membrane.
          bindE (create_complete_strike_profile bp stick membrane (velocity event)
                   (contact_point event) 90.0 (mixer_sample_rate mx) g) (\<lambda>(strike_profile, g1).
          bindE (get_sound eng base_category (velocity event) (duration event) g1)
            (\<lambda>(base_sound, g2).
          bindE (apply_material_effects mx (map Fin base_sound) strike_profile (body_wood ins)
                   membrane) (\<lambda>modified_sound.
            Inr (mix_at_start 0.15 (stick_resonance_waveform strike_profile)
                   (mix_at_start 0.3 (transient_waveform strike_profile) modified_sound),
                 g2)))))
      | _ \<Rightarrow> synthesize_basic event eng g)"

text \<open>
  Placing one sound in the track: \<open>track[start_sample:end_sample] +=
  sound[:sound_length]\<close>, skipped for an empty sound or a start behind the track.
\<close>

definition place_sound :: "int \<Rightarrow> nat \<Rightarrow> StrokeEvent \<Rightarrow> fsample list \<Rightarrow> fsample list \<Rightarrow> fsample list"
  where
  "place_sound sr num_samples event sound track =
     (if length sound = 0 then track
      else
        let start_sample = nat (max 0 (py_int (time event * real_of_int sr))) in
        if start_sample \<ge> num_samples then track
        else
          let end_sample = min (start_sample + length sound) num_samples;
              sound_length = end_sample - start_sample
          in if sound_length > 0
             then take start_sample track
                  @ vadd (take sound_length (drop start_sample track)) (take sound_length sound)
                  @ drop end_sample track
             else track)"

text \<open>The loop of \<open>_render_player_track\<close> over the events of the player.\<close>

fun track_loop ::
  "bandpass \<Rightarrow> EnsembleMixer \<Rightarrow> membrane_db \<Rightarrow> Player \<Rightarrow> SpectralEngine \<Rightarrow> nat \<Rightarrow>
   StrokeEvent list \<Rightarrow> fsample list \<Rightarrow> rng \<Rightarrow> error + fsample list \<times> rng" where
  "track_loop bp mx mdb player eng num_samples [] track g = Inr (track, g)"
| "track_loop bp mx mdb player eng num_samples (event # rest) track g =
     (if sound_category event = ''REST''
      then track_loop bp mx mdb player eng num_samples rest track g
      else
        bindE (if instrument_type player = CHENDA
               then synthesize_chenda_strike bp mx mdb player event eng g
               else if instrument_type player = ELATHAALAM
               then synthesize_cymbal_strike player event eng g
               else if py_int (0.1 * real_of_int (mixer_sample_rate mx)) < 0
               then Inl ValueError
               else Inr (zeros (nat (py_int (0.1 * real_of_int (mixer_sample_rate mx)))), g))
          (\<lambda>(sound, g1).
            track_loop bp mx mdb player eng num_samples rest
              (place_sound (mixer_sample_rate mx) num_samples event sound track) g1))"

definition render_player_track ::
  "bandpass \<Rightarrow> EnsembleMixer \<Rightarrow> membrane_db \<Rightarrow> Player \<Rightarrow> StrokeEvent list \<Rightarrow> real \<Rightarrow>
   SpectralEngine \<Rightarrow> rng \<Rightarrow> error + fsample list \<times> rng" where
  "render_player_track bp mx mdb player events dur eng g =
     (let num_samples = py_int (dur * real_of_int (mixer_sample_rate mx)) in
      if num_samples < 0 then Inl ValueError
      else track_loop bp mx mdb player eng (nat num_samples) events (zeros (nat num_samples)) g)"

definition apply_spatial_position ::
  "int \<Rightarrow> fsample list \<Rightarrow> real \<times> real \<times> real \<Rightarrow> fsample list \<times> fsample list" where
  "apply_spatial_position sr mono_signal position =
     (case position of (x, y, z) \<Rightarrow>
        let pan_pos = clip x (-1.0) 1.0;
            reference_distance = 1.0;
            distance0 = sqrt (x ^ 2 + y ^ 2 + z ^ 2);
            distance = (if distance0 < 0.1 then 0.1 else distance0);
            attenuation = clip (reference_distance / distance) 0.5 2.0;
            ang = (pan_pos + 1.0) * pi / 4;
            left_gain = cos ang * attenuation;
            right_gain = sin ang * attenuation;
            left_channel = scale left_gain mono_signal;
            right_channel = scale right_gain mono_signal
        in if z > 0.5 then
             (let delay_samples = py_int ((z - 0.5) / 343.0 * real_of_int sr)
              in if delay_samples > 0 \<and> delay_samples < 100
                 then (take (length left_channel) (zeros (nat delay_samples) @ left_channel),
                       take (length right_channel) (zeros (nat delay_samples) @ right_channel))
                 else (left_channel, right_channel))
           else (left_channel, right_channel))"

text \<open>
  The output of \<open>render_ensemble\<close>: the two-row array of the stereo path or the
  one-dimensional array of the mono path.
\<close>

datatype audio = Stereo "fsample list" "fsample list" | Mono "fsample list"

text \<open>
  The mastering stage at the end of \<open>render_ensemble\<close>, one function per path.
  \<open>np.max\<close> is taken over both rows of the stereo array.
\<close>

definition master_stereo :: "fsample list \<Rightarrow> fsample list \<Rightarrow> error + audio" where
  "master_stereo mix_left mix_right =
     bindE (peak (mix_left @ mix_right)) (\<lambda>peak_pre.
       if fgt peak_pre 0 then
         (let drive = (if flt peak_pre 0.5 then 1.5 else 1.0);
              left1 = map (fmap tanh) (scale drive mix_left);
              right1 = map (fmap tanh) (scale drive mix_right) in
          bindE (peak (left1 @ right1)) (\<lambda>peak_post.
            if fgt peak_post 0.98
            then Inr (Stereo (normalize_to peak_post 0.98 left1)
                        (normalize_to peak_post 0.98 right1))
            else Inr (Stereo left1 right1)))
       else Inr (Stereo mix_left mix_right))"

definition master_mono :: "fsample list \<Rightarrow> error + audio" where
  "master_mono mix_mono =
     bindE (peak mix_mono) (\<lambda>peak_pre.
       if fgt peak_pre 0 then
         (let mono1 = map (fmap tanh) (scale 1.2 mix_mono) in
          bindE (peak mono1) (\<lambda>peak_post.
            if fgt peak_post 0.98
            then Inr (Mono (normalize_to peak_post 0.98 mono1))
            else Inr (Mono mono1)))
       else Inr (Mono mix_mono))"

text \<open>\<open>solo_active\<close>: some key of the pattern names a player of the ensemble that is soloed.\<close>

definition solo_active :: "Ensemble \<Rightarrow> (string, StrokeEvent list) dict \<Rightarrow> bool" where
  "solo_active ens all_events =
     list_ex (\<lambda>pid. case get_player ens pid of None \<Rightarrow> False | Some p \<Rightarrow> solo p)
       (map fst all_events)"

text \<open>
  The loop of \<open>render_ensemble\<close> over \<open>all_events.items()\<close>. The bus is the pair of
  the stereo buffers or the mono buffer; \<open>stems\<close> stays empty unless stems are asked for.
\<close>

fun mix_loop ::
  "bandpass \<Rightarrow> EnsembleMixer \<Rightarrow> membrane_db \<Rightarrow> Ensemble \<Rightarrow> SpectralEngine \<Rightarrow> real \<Rightarrow> bool \<Rightarrow>
   bool \<Rightarrow> (string \<times> StrokeEvent list) list \<Rightarrow> audio \<Rightarrow> (string, fsample list) dict \<Rightarrow> rng \<Rightarrow>
   error + (audio \<times> (string, fsample list) dict) \<times> rng" where
  "mix_loop bp mx mdb ens eng dur return_stems solo_on [] bus stems g = Inr ((bus, stems), g)"
| "mix_loop bp mx mdb ens eng dur return_stems solo_on ((pid, events) # rest) bus stems g =
     (if events = [] then mix_loop bp mx mdb ens eng dur return_stems solo_on rest bus stems g
      else
        case get_player ens pid of
          None \<Rightarrow> Inl AttributeError
        | Some player \<Rightarrow>
            if mute player \<and> \<not> solo player
            then mix_loop bp mx mdb ens eng dur return_stems solo_on rest bus stems g
            else if solo_on \<and> \<not> solo player
            then mix_loop bp mx mdb ens eng dur return_stems solo_on rest bus stems g
            else
              bindE (render_player_track bp mx mdb player events dur eng g)
                (\<lambda>(player_track, g1).
                  let stems1 = (if return_stems then AList.update pid player_track stems
                                else stems);
                      gained = scale (gain player) player_track;
                      bus1 = (case bus of
                                Stereo mix_left mix_right \<Rightarrow>
                                  (case spatial_position player of (pos_x, pos_y, pos_z) \<Rightarrow>
                                   case apply_spatial_position (mixer_sample_rate mx) gained
                                          (pan player, pos_y, pos_z) of
                                     (left, right) \<Rightarrow>
                                       Stereo (vadd mix_left left) (vadd mix_right right))
                              | Mono mix_mono \<Rightarrow> Mono (vadd mix_mono gained))
                  in mix_loop bp mx mdb ens eng dur return_stems solo_on rest bus1 stems1 g1))"

definition render_ensemble ::
  "bandpass \<Rightarrow> EnsembleMixer \<Rightarrow> membrane_db \<Rightarrow> Ensemble \<Rightarrow> OrchestrationPattern \<Rightarrow> real \<Rightarrow>
   SpectralEngine \<Rightarrow> bool \<Rightarrow> bool \<Rightarrow> rng \<Rightarrow>
   error + (audio \<times> (string, fsample list) dict) \<times> rng" where
  "render_ensemble bp mx mdb ens orchestrated_pattern dur eng enable_spatial return_stems g =
     (let num_samples = py_int (dur * real_of_int (mixer_sample_rate mx)) in
      if num_samples < 0 then Inl ValueError
      else
        let bus0 = (if enable_spatial
                    then Stereo (zeros (nat num_samples)) (zeros (nat num_samples))
                    else Mono (zeros (nat num_samples)));
            all_events = get_all_player_events orchestrated_pattern in
        bindE (mix_loop bp mx mdb ens eng dur return_stems (solo_active ens all_events)
                 all_events bus0 [] g) (\<lambda>((bus, stems), g1).
          bindE (case bus of
                   Stereo mix_left mix_right \<Rightarrow> master_stereo mix_left mix_right
                 | Mono mix_mono \<Rightarrow> master_mono mix_mono) (\<lambda>mastered.
            Inr ((mastered, stems), g1))))"


section \<open>studio\_fx.py\<close>

text \<open>
  \<open>StudioFX._run_board\<close>, the one place of the repository that tests a buffer for NaN.
  The board is a chain of library effects and a parameter of the model; when it raises,
  the handler returns the audio as it stands at that point.
\<close>

definition run_board ::
  "(fsample list \<Rightarrow> error + fsample list) \<Rightarrow> fsample list \<Rightarrow> fsample list" where
  "run_board board audio_in =
     (if NaN \<in> set audio_in then map (\<lambda>_. Fin 0) audio_in
      else
        case peak audio_in of
          Inl e \<Rightarrow> audio_in
        | Inr pk \<Rightarrow>
            let audio1 = (if fgt pk 1.0 then map (\<lambda>x. x * fmap inverse pk) audio_in
                          else audio_in)
            in (case board audio1 of Inl e \<Rightarrow> audio1 | Inr processed \<Rightarrow> processed))"


section \<open>Predicates used in the statements\<close>

text \<open>No list of the dict holds a REST event.\<close>

definition no_rest :: "(string, StrokeEvent list) dict \<Rightarrow> bool" where
  "no_rest d = (\<forall>(k, evs) \<in> set d. \<forall>e \<in> set evs. sound_category e \<noteq> ''REST'')"

definition pattern_no_rest :: "OrchestrationPattern \<Rightarrow> bool" where
  "pattern_no_rest pat =
     (no_rest (chenda_events pat) \<and> no_rest (cymbal_events pat) \<and> no_rest (wind_events pat))"

text \<open>
  \<open>e'\<close> is a copy of the input event assigned to the player: stroke, category, intensity
  and duration are those of the input, the player is recorded, and the resolved velocity
  and contact point are set.
\<close>

definition assigned_copy_of :: "StrokeEvent \<Rightarrow> Player \<Rightarrow> StrokeEvent \<Rightarrow> bool" where
  "assigned_copy_of event player e' =
     (stroke_type e' = stroke_type event \<and> sound_category e' = sound_category event
      \<and> intensity e' = intensity event \<and> duration e' = duration event
      \<and> assigned_player e' = Some (player_id player)
      \<and> velocity e' \<noteq> None \<and> contact_point e' \<noteq> None)"

text \<open>
  The assignment step in the words of the specification, for the three raw outcomes it
  draws: the velocity is the intensity mapped into the player's dynamic range plus the
  variation \<open>N(0, (1 - skill) * 0.05)\<close>, clipped to \<open>[0, 1]\<close>; the time is moved by
  the player's timing offset, the variation \<open>N(0, (1 - precision) * 0.01)\<close> plus the rush
  and groove components; the contact point is uniform on \<open>[0.6, 0.9]\<close> for an intensity
  above 0.7 and on \<open>[0.3, 0.6]\<close> otherwise.
\<close>

definition resolved_copy :: "StrokeEvent \<Rightarrow> Player \<Rightarrow> real \<Rightarrow> real \<Rightarrow> real \<Rightarrow> StrokeEvent" where
  "resolved_copy event player z_velocity z_timing u_contact =
     \<lparr>time = time event
         + ((1 - base_precision (timing player)) * 0.01 * z_timing
            + rush_tendency (timing player) * 0.005
            + groove_offset (timing player) / 1000),
      stroke_type = stroke_type event,
      sound_category = sound_category event,
      intensity = intensity event,
      duration = duration event,
      assigned_player = Some (player_id player),
      velocity = Some (clip (fst (dynamic_range player)
                   + intensity event * (snd (dynamic_range player) - fst (dynamic_range player))
                   + (1 - skill_level player) * 0.05 * z_velocity) 0 1),
      contact_point = Some (if intensity event > 0.7 then 0.6 + (0.9 - 0.6) * u_contact
                            else 0.3 + (0.6 - 0.3) * u_contact)\<rparr>"

text \<open>
  Where the turns of the unison strategy start in the stream of draws, one entry per
  non-REST event: a turn makes three draws for each of the \<open>n\<close> chenda players and, at
  a position that is a multiple of 4, two for each of the \<open>m\<close> cymbal players; a REST
  event makes none.
\<close>

fun unison_draw_blocks :: "nat \<Rightarrow> nat \<Rightarrow> nat \<Rightarrow> nat \<Rightarrow> StrokeEvent list \<Rightarrow> nat list" where
  "unison_draw_blocks n m i d [] = []"
| "unison_draw_blocks n m i d (event # rest) =
     (if sound_category event = ''REST'' then unison_draw_blocks n m (Suc i) d rest
      else d # unison_draw_blocks n m (Suc i)
                 (d + 3 * n + (if i mod 4 = 0 then 2 * m else 0)) rest)"


section \<open>Concrete inputs\<close>

definition jackwood :: WoodProperties where
  "jackwood = \<lparr>wood_name = ''Jackwood (Varikka)'', density = 720, youngs_modulus = 9.8,
        damping_coefficient = 0.15, speed_of_sound = 3800, hardness = 65\<rparr>"

text \<open>Two presets of the initial membrane database.\<close>

definition cow_high :: MembraneProperties where
  "cow_high = \<lparr>membrane_material = ''cow_leather'', membrane_thickness = 3.2,
        tension = 0.85, age_months = 6, moisture_absorption = 0.3\<rparr>"

definition cow_medium :: MembraneProperties where
  "cow_medium = \<lparr>membrane_material = ''cow_leather'', membrane_thickness = 3.5,
        tension = 0.65, age_months = 12, moisture_absorption = 0.3\<rparr>"

text \<open>
  The standard ensemble, as \<open>build_standard_melam\<close> builds it from the initial
  membrane database when every raw draw is 1/4, and the membrane database after that build.
\<close>

definition melam_P1 :: Player where
  "melam_P1 = Player_init ''P1'' ''Lead Player'' CHENDA_LEAD CHENDA
     (Chenda \<lparr>chenda_id = ''P1_chenda'',
        body_wood = \<lparr>wood_name = ''Jackwood (Varikka) (Variant)'', density = 3456 / 5,
          youngs_modulus = 2401 / 250, damping_coefficient = 18 / 125, speed_of_sound = 3762,
          hardness = 312 / 5\<rparr>,
        membrane_valam = ''cow_high'', membrane_edamthala = ''cow_medium'',
        body = \<lparr>wood_type = ''jackwood'', body_length = 59, body_diameter = 29,
          wall_thickness = 12 / 5\<rparr>,
        stick_valam = \<lparr>stick_material = ''bamboo'', mass = 95, stick_length = 35,
          stick_diameter = 7 / 5, tip_hardness = 75, tip_radius = 8\<rparr>,
        stick_edamthala = \<lparr>stick_material = ''bamboo'', mass = 110, stick_length = 38,
          stick_diameter = 3 / 2, tip_hardness = 78, tip_radius = 9\<rparr>\<rparr>)
     \<lparr>base_precision = 0.95, rush_tendency = 0.02, groove_offset = 0.0\<rparr>
     0.95 (0.6, 1.0) (-0.3, 0, 1.0)"

definition melam_P2 :: Player where
  "melam_P2 = Player_init ''P2'' ''Rhythm Player'' CHENDA_RHYTHM CHENDA
     (Chenda \<lparr>chenda_id = ''P2_chenda'',
        body_wood = \<lparr>wood_name = ''Teak (Thekk'' @ [CHR 0xD1, CHR 0x83] @ '') (Variant)'',
          density = 3264 / 5, youngs_modulus = 2499 / 250, damping_coefficient = 72 / 625,
          speed_of_sound = 3861, hardness = 336 / 5\<rparr>,
        membrane_valam = ''cow_medium'', membrane_edamthala = ''cow_medium'',
        body = \<lparr>wood_type = ''teak'', body_length = 59, body_diameter = 29,
          wall_thickness = 12 / 5\<rparr>,
        stick_valam = \<lparr>stick_material = ''bamboo'', mass = 95, stick_length = 35,
          stick_diameter = 7 / 5, tip_hardness = 75, tip_radius = 8\<rparr>,
        stick_edamthala = \<lparr>stick_material = ''bamboo'', mass = 110, stick_length = 38,
          stick_diameter = 3 / 2, tip_hardness = 78, tip_radius = 9\<rparr>\<rparr>)
     \<lparr>base_precision = 0.98, rush_tendency = 0.0, groove_offset = 0.0\<rparr>
     0.92 (0.5, 0.85) (0.3, 0, 1.0)"

definition melam_P3 :: Player where
  "melam_P3 = Player_init ''P3'' ''Accent Player'' CHENDA_ACCENT CHENDA
     (Chenda \<lparr>chenda_id = ''P3_chenda'',
        body_wood = \<lparr>wood_name = ''Rosewood (Eetti) (Variant)'', density = 864,
          youngs_modulus = 49 / 4, damping_coefficient = 108 / 625, speed_of_sound = 4158,
          hardness = 384 / 5\<rparr>,
        membrane_valam = ''cow_high'', membrane_edamthala = ''cow_medium'',
        body = \<lparr>wood_type = ''rosewood'', body_length = 59, body_diameter = 29,
          wall_thickness = 12 / 5\<rparr>,
        stick_valam = \<lparr>stick_material = ''teak'', mass = 125, stick_length = 34,
          stick_diameter = 13 / 10, tip_hardness = 82, tip_radius = 7\<rparr>,
        stick_edamthala = \<lparr>stick_material = ''bamboo'', mass = 110, stick_length = 38,
          stick_diameter = 3 / 2, tip_hardness = 78, tip_radius = 9\<rparr>\<rparr>)
     \<lparr>base_precision = 0.90, rush_tendency = -0.01, groove_offset = 0.0\<rparr>
     0.90 (0.4, 1.0) (0, 0, 0.8)"

definition melam_P4 :: Player where
  "melam_P4 = Player_init ''P4'' ''Elathaalam 1'' ELATHAALAM_PRIMARY ELATHAALAM
     (Elathaalam \<lparr>elathaalam_id = ''P4_elathaalam'', diameter = 29 / 2, thickness = 7 / 4,
        metal_type = ''bronze'', age_years = 3\<rparr>)
     \<lparr>base_precision = 0.93, rush_tendency = 0.0, groove_offset = 0.0\<rparr>
     0.90 (0.5, 0.9) (-0.8, 0, 1.2)"

definition melam_P5 :: Player where
  "melam_P5 = Player_init ''P5'' ''Elathaalam 2'' ELATHAALAM_SECONDARY ELATHAALAM
     (Elathaalam \<lparr>elathaalam_id = ''P5_elathaalam'', diameter = 25 / 2, thickness = 7 / 4,
        metal_type = ''bronze'', age_years = 3\<rparr>)
     \<lparr>base_precision = 0.91, rush_tendency = 0.0, groove_offset = 0.5\<rparr>
     0.88 (0.4, 0.8) (0.8, 0, 1.2)"

definition melam_P6 :: Player where
  "melam_P6 = create_kombu ''P6''"

definition melam :: Ensemble where
  "melam = \<lparr>players = [(''P1'', melam_P1), (''P2'', melam_P2), (''P3'', melam_P3), (''P4'', melam_P4), (''P5'', melam_P5),
                         (''P6'', melam_P6)]\<rparr>"

definition melam_db :: membrane_db where
  "melam_db =
    [(''cow_high'', \<lparr>membrane_material = ''cow_leather'', membrane_thickness = 3.2,
        tension = 25857 / 32000, age_months = 6, moisture_absorption = 0.3\<rparr>),
     (''cow_medium'', \<lparr>membrane_material = ''cow_leather'', membrane_thickness = 3.5,
        tension = 30074733 / 51200000, age_months = 12, moisture_absorption = 0.3\<rparr>),
     (''cow_low'', \<lparr>membrane_material = ''cow_leather'', membrane_thickness = 4.0,
        tension = 0.45, age_months = 18, moisture_absorption = 0.3\<rparr>),
     (''goat_high'', \<lparr>membrane_material = ''goat_leather'', membrane_thickness = 2.8,
        tension = 0.75, age_months = 4, moisture_absorption = 0.25\<rparr>)]"

text \<open>A short input sequence: a heavy accent, a stroke, a rest and a stroke.\<close>

definition demo_events :: "StrokeEvent list" where
  "demo_events =
     [\<lparr>time = 0, stroke_type = ''Dheem'', sound_category = ''DHEEM'', intensity = 0.95,
       duration = 0.4, assigned_player = None, velocity = None, contact_point = None\<rparr>,
      \<lparr>time = 0.5, stroke_type = ''Ta'', sound_category = ''THAAM'', intensity = 0.7,
       duration = 0.4, assigned_player = None, velocity = None, contact_point = None\<rparr>,
      \<lparr>time = 1.0, stroke_type = ''.'', sound_category = ''REST'', intensity = 0.0,
       duration = 0.4, assigned_player = None, velocity = None, contact_point = None\<rparr>,
      \<lparr>time = 1.5, stroke_type = ''Na'', sound_category = ''NAM'', intensity = 0.7,
       duration = 0.4, assigned_player = None, velocity = None, contact_point = None\<rparr>]"


text \<open>
  A spectral database of one signature, of category NAM and with one partial at 100 Hz,
  in an engine at 44100 Hz; and the duration of two samples.
\<close>

definition demo_partial :: "real \<times> real \<times> real" where
  "demo_partial = (100, 1, 1)"

definition demo_engine :: SpectralEngine where
  "demo_engine = \<lparr>engine_sample_rate = 44100,
      db = [(''nam_001'', \<lparr>cat = ''NAM'', partials = [demo_partial]\<rparr>)]\<rparr>"

definition two_samples :: real where
  "two_samples = 2 / 44100"


text \<open>
  A mixer at 44100 Hz, one cymbal hit of two samples at time 0 for the player P4, and the
  pattern that holds this hit alone; a pattern with a hit for each of the cymbal players;
  and a band-pass stage that lets the noise through unchanged.
\<close>

definition demo_mixer :: EnsembleMixer where
  "demo_mixer = \<lparr>mixer_sample_rate = 44100\<rparr>"

definition cymbal_hit :: StrokeEvent where
  "cymbal_hit = \<lparr>time = 0, stroke_type = ''1'', sound_category = ''NAM'', intensity = 0.6,
      duration = two_samples, assigned_player = Some ''P4'', velocity = Some (1 / 2),
      contact_point = Some 0.5\<rparr>"

definition demo_pattern :: OrchestrationPattern where
  "demo_pattern = \<lparr>chenda_events = [], cymbal_events = [(''P4'', [cymbal_hit])],
      wind_events = []\<rparr>"

definition duo_pattern :: OrchestrationPattern where
  "duo_pattern = \<lparr>chenda_events = [],
      cymbal_events = [(''P4'', [cymbal_hit]),
                       (''P5'', [cymbal_hit\<lparr>assigned_player := Some ''P5''\<rparr>])],
      wind_events = []\<rparr>"

definition no_bandpass :: bandpass where
  "no_bandpass low high noise = Inr noise"

text \<open>
  The standard ensemble with solo set on the wind player P6 alone, and with solo set on
  the cymbal player P4 alone.
\<close>

definition melam_solo_wind :: Ensemble where
  "melam_solo_wind = \<lparr>players = [(''P1'', melam_P1), (''P2'', melam_P2), (''P3'', melam_P3),
      (''P4'', melam_P4), (''P5'', melam_P5), (''P6'', melam_P6\<lparr>solo := True\<rparr>)]\<rparr>"

definition melam_solo_cymbal :: Ensemble where
  "melam_solo_cymbal = \<lparr>players = [(''P1'', melam_P1), (''P2'', melam_P2), (''P3'', melam_P3),
      (''P4'', melam_P4\<lparr>solo := True\<rparr>), (''P5'', melam_P5), (''P6'', melam_P6)]\<rparr>"

text \<open>
  The words of the specification on solo, "an orchestration pattern containing only that
  player's events": each of the three dicts of the pattern, restricted to the key of the
  player.
\<close>

definition restrict_dict :: "'k \<Rightarrow> ('k, 'v) dict \<Rightarrow> ('k, 'v) dict" where
  "restrict_dict pid d = [(k, v) \<leftarrow> d. k = pid]"

definition restrict_pattern :: "string \<Rightarrow> OrchestrationPattern \<Rightarrow> OrchestrationPattern" where
  "restrict_pattern pid pat =
     \<lparr>chenda_events = restrict_dict pid (chenda_events pat),
      cymbal_events = restrict_dict pid (cymbal_events pat),
      wind_events = restrict_dict pid (wind_events pat)\<rparr>"

text \<open>
  The words of the specification on mastering, for a bus given as its rows (left and
  right, or the one mono row): \<open>tanh(bus * drive)\<close>, then the peak normalisation to
  0.98 when the peak after saturation is above 0.98; and the drive of the specification,
  1.5 when the peak before saturation is below 0.5 and 1.0 otherwise.
\<close>

definition audio_rows :: "audio \<Rightarrow> fsample list list" where
  "audio_rows a = (case a of Stereo l r \<Rightarrow> [l, r] | Mono m \<Rightarrow> [m])"

definition saturate_and_normalise :: "real \<Rightarrow> fsample list list \<Rightarrow> error + fsample list list" where
  "saturate_and_normalise drive rows =
     (let rows1 = map (\<lambda>row. map (fmap tanh) (scale drive row)) rows in
      bindE (peak (concat rows1)) (\<lambda>peak_post.
        if fgt peak_post 0.98 then Inr (map (normalize_to peak_post 0.98) rows1)
        else Inr rows1))"

definition spec_master :: "fsample list list \<Rightarrow> error + fsample list list" where
  "spec_master rows =
     bindE (peak (concat rows)) (\<lambda>peak_pre.
       saturate_and_normalise (if flt peak_pre 0.5 then 1.5 else 1.0) rows)"

text \<open>
  A strike profile with a pitch bend of 0.05 over 20 ms and the contact point 0.5.
\<close>

definition bend_profile :: StrikeProfile where
  "bend_profile = \<lparr>response = \<lparr>excitation_amplitude = 1, decay_time = 1,
                       pitch_bend_amount = 0.05, pitch_bend_duration = 0.02\<rparr>,
                    transient_waveform = [], stick_resonance_waveform = [],
                    profile_contact_point = 1 / 2\<rparr>"

section \<open>Basic lemmas\<close>

lemma bindE_Inr_iff: "bindE m f = Inr y \<longleftrightarrow> (\<exists>x. m = Inr x \<and> f x = Inr y)"
  by (cases m) (auto simp: bindE_def)

lemma bindE_Inr [simp]: "bindE (Inr x) f = f x"
  by (simp add: bindE_def)

lemma bindE_Inl [simp]: "bindE (Inl e) f = Inl e"
  by (simp add: bindE_def)

lemma uniform_eq: "uniform lo hi g = (lo + (hi - lo) * g 0, \<lambda>n. g (Suc n))"
  by (simp add: uniform_def draw_def)

lemma uniform_bounds:
  assumes "(lo::real) \<le> hi" "0 \<le> u" "u \<le> 1"
  shows "lo \<le> lo + (hi - lo) * u" "lo + (hi - lo) * u \<le> hi"
proof -
  from assms show "lo \<le> lo + (hi - lo) * u" by simp
  have "(hi - lo) * u \<le> (hi - lo) * 1"
    using assms by (intro mult_left_mono) auto
  then show "lo + (hi - lo) * u \<le> hi" by simp
qed

lemma uniform_const [simp]: "uniform lo hi (\<lambda>_. c) = (lo + (hi - lo) * c, \<lambda>_. c)"
  by (simp add: uniform_eq)

lemma normal_const [simp]:
  "0 \<le> sigma \<Longrightarrow> normal mu sigma (\<lambda>_. c) = Inr (mu + sigma * c, \<lambda>_. c)"
  by (simp add: normal_def draw_def)

lemma set_update_subset: "set (AList.update k v al) \<subseteq> insert (k, v) (set al)"
  by (induction al) auto

lemma dict_append_lookup:
  assumes "dict_append d k x = Inr d'"
  shows "\<exists>old. map_of d k = Some old \<and> map_of d' = (map_of d)(k \<mapsto> old @ [x])"
  using assms by (auto simp: dict_append_def update_conv' split: option.splits)

lemma init_lists_values: "(k, evs) \<in> set (foldl (\<lambda>d p. AList.update (player_id p) [] d) d0 ps)
   \<Longrightarrow> evs = [] \<or> (k, evs) \<in> set d0"
proof (induction ps arbitrary: d0)
  case Nil
  then show ?case by simp
next
  case (Cons p ps)
  from Cons.IH[of "AList.update (player_id p) [] d0"] Cons.prems
  have "evs = [] \<or> (k, evs) \<in> set (AList.update (player_id p) [] d0)" by simp
  then show ?case using set_update_subset[of "player_id p" "[]" d0] by auto
qed

lemma init_lists_lookup_aux:
  "map_of (foldl (\<lambda>d p. AList.update (player_id p) [] d) d0 ps) k
     = (if k \<in> player_id ` set ps then Some [] else map_of d0 k)"
  by (induction ps arbitrary: d0) (auto simp: update_conv')

lemma init_lists_lookup: "p \<in> set ps \<Longrightarrow> map_of (init_lists ps) (player_id p) = Some []"
  by (simp add: init_lists_def init_lists_lookup_aux)

lemma set_dict_update_all: "set (dict_update_all d other) \<subseteq> set d \<union> set other"
proof -
  have "set (foldl (\<lambda>acc (k, v). AList.update k v acc) d other) \<subseteq> set d \<union> set other"
  proof (induction other arbitrary: d)
    case Nil
    then show ?case by simp
  next
    case (Cons kv other)
    obtain k v where kv: "kv = (k, v)" by (cases kv)
    from Cons.IH[of "AList.update k v d"] set_update_subset[of k v d]
    show ?case by (auto simp: kv)
  qed
  then show ?thesis by (simp add: dict_update_all_def)
qed


text \<open>The standard ensemble is what the factory builds.\<close>

lemmas player_defs = melam_P1_def melam_P2_def melam_P3_def melam_P4_def melam_P5_def
  melam_P6_def create_kombu_def Player_init_def

lemma build_standard_melam_quarter:
  "build_standard_melam MEMBRANE_DATABASE (\<lambda>_. 1 / 4) = (Inr melam, melam_db, \<lambda>_. 1 / 4)"
  by (simp add: build_standard_melam_def create_chenda_lead_def create_chenda_rhythm_def
      create_chenda_accent_def create_elathaalam_primary_def create_elathaalam_secondary_def
      create_chenda_def create_elathaalam_def get_random_wood_variant_def dict_lookup_def
      WOOD_DATABASE_def MEMBRANE_DATABASE_def STICK_DATABASE_def melam_def melam_db_def
      melam_P1_def melam_P2_def melam_P3_def melam_P4_def melam_P5_def melam_P6_def choice_def randint_def draw_def rand_index_def Let_def)


section \<open>The wood variant generator\<close>

text \<open>
  C7, as the specification words it, fails: the speed of sound is perturbed within a
  quarter of the range, not the full range. At jackwood, variation 0.1 and every raw
  draw at 0 the code returns the speed of sound 3800 * 0.975 = 3705, the generator of
  the specification 3800 * 0.9 = 3420.
\<close>

theorem wood_variant_speed_of_sound_counterexample:
  "get_random_wood_variant ''jackwood'' 0.1 (\<lambda>_. 0)
     \<noteq> spec_random_wood_variant ''jackwood'' 0.1 (\<lambda>_. 0)
   \<and> map_sum id (speed_of_sound \<circ> fst) (get_random_wood_variant ''jackwood'' 0.1 (\<lambda>_. 0))
       = Inr 3705
   \<and> map_sum id (speed_of_sound \<circ> fst) (spec_random_wood_variant ''jackwood'' 0.1 (\<lambda>_. 0))
       = Inr 3420"
  by (simp add: get_random_wood_variant_def spec_random_wood_variant_def dict_lookup_def
      bindE_def uniform_eq WOOD_DATABASE_def)

text \<open>
  C7, amended: for a base wood of the database, a variation \<open>v \<ge> 0\<close> and raw draws in
  \<open>[0, 1)\<close>, \<open>get_random_wood_variant\<close> returns a new WoodProperties whose numeric
  fields are those of the base preset, each multiplied by a factor of its own draw:
  density, damping coefficient and hardness by a uniform factor from \<open>[1 - v, 1 + v]\<close>,
  the elasticity modulus by one from \<open>[1 - v/2, 1 + v/2]\<close> and the speed of sound by one
  from \<open>[1 - v/4, 1 + v/4]\<close>. Five draws are consumed. The default variation is 0.1.
\<close>

theorem wood_variant_perturbation:
  assumes "map_of WOOD_DATABASE base_wood = Some base"
    and "0 \<le> variation" and "\<forall>n. 0 \<le> g n \<and> g n < 1"
  shows "\<exists>f_density f_youngs f_damping f_speed f_hardness.
     get_random_wood_variant base_wood variation g =
       Inr (\<lparr>wood_name = wood_name base @ '' (Variant)'',
             density = density base * f_density,
             youngs_modulus = youngs_modulus base * f_youngs,
             damping_coefficient = damping_coefficient base * f_damping,
             speed_of_sound = speed_of_sound base * f_speed,
             hardness = hardness base * f_hardness\<rparr>, \<lambda>n. g (n + 5))
     \<and> f_density = (1 - variation) + ((1 + variation) - (1 - variation)) * g 0
     \<and> f_youngs = (1 - variation / 2) + ((1 + variation / 2) - (1 - variation / 2)) * g 1
     \<and> f_damping = (1 - variation) + ((1 + variation) - (1 - variation)) * g 2
     \<and> f_speed = (1 - variation / 4) + ((1 + variation / 4) - (1 - variation / 4)) * g 3
     \<and> f_hardness = (1 - variation) + ((1 + variation) - (1 - variation)) * g 4
     \<and> 1 - variation \<le> f_density \<and> f_density \<le> 1 + variation
     \<and> 1 - variation / 2 \<le> f_youngs \<and> f_youngs \<le> 1 + variation / 2
     \<and> 1 - variation \<le> f_damping \<and> f_damping \<le> 1 + variation
     \<and> 1 - variation / 4 \<le> f_speed \<and> f_speed \<le> 1 + variation / 4
     \<and> 1 - variation \<le> f_hardness \<and> f_hardness \<le> 1 + variation
     \<and> get_random_wood_variant_default base_wood g = get_random_wood_variant base_wood 0.1 g"
proof -
  have r: "\<And>k. 0 \<le> g k" "\<And>k. g k \<le> 1" using assms(3) by (auto intro: less_imp_le)
  have b1: "\<And>k. 1 - variation \<le> (1 - variation) + ((1 + variation) - (1 - variation)) * g k"
           "\<And>k. (1 - variation) + ((1 + variation) - (1 - variation)) * g k \<le> 1 + variation"
    using uniform_bounds[of "1 - variation" "1 + variation"] assms(2) r by auto
  have b2: "1 - variation / 2
              \<le> (1 - variation / 2) + ((1 + variation / 2) - (1 - variation / 2)) * g 1"
           "(1 - variation / 2) + ((1 + variation / 2) - (1 - variation / 2)) * g 1
              \<le> 1 + variation / 2"
    using uniform_bounds[of "1 - variation / 2" "1 + variation / 2" "g 1"] assms(2) r by auto
  have b4: "1 - variation / 4
              \<le> (1 - variation / 4) + ((1 + variation / 4) - (1 - variation / 4)) * g 3"
           "(1 - variation / 4) + ((1 + variation / 4) - (1 - variation / 4)) * g 3
              \<le> 1 + variation / 4"
    using uniform_bounds[of "1 - variation / 4" "1 + variation / 4" "g 3"] assms(2) r by auto
  have e: "get_random_wood_variant base_wood variation g =
       Inr (\<lparr>wood_name = wood_name base @ '' (Variant)'',
             density = density base
               * ((1 - variation) + ((1 + variation) - (1 - variation)) * g 0),
             youngs_modulus = youngs_modulus base
               * ((1 - variation / 2) + ((1 + variation / 2) - (1 - variation / 2)) * g 1),
             damping_coefficient = damping_coefficient base
               * ((1 - variation) + ((1 + variation) - (1 - variation)) * g 2),
             speed_of_sound = speed_of_sound base
               * ((1 - variation / 4) + ((1 + variation / 4) - (1 - variation / 4)) * g 3),
             hardness = hardness base
               * ((1 - variation) + ((1 + variation) - (1 - variation)) * g 4)\<rparr>,
            \<lambda>n. g (n + 5))"
    using assms(1)
    by (simp add: get_random_wood_variant_def dict_lookup_def bindE_def uniform_eq
        eval_nat_numeral)
  have d: "get_random_wood_variant_default base_wood g
             = get_random_wood_variant base_wood 0.1 g"
    by (simp add: get_random_wood_variant_default_def)
  show ?thesis
    apply (intro exI conjI)
                    apply (rule e)
                   apply (rule refl)+
    using b1 b2 b4 d by auto
qed

theorem wood_variant_perturbation_witness:
  "map_of WOOD_DATABASE ''jackwood'' = Some jackwood \<and> (0::real) \<le> 0.1
   \<and> (\<forall>n::nat. (0::real) \<le> (\<lambda>_. 1 / 2) n \<and> (\<lambda>_. 1 / 2 :: real) n < 1)
   \<and> (\<exists>w. get_random_wood_variant ''jackwood'' 0.1 (\<lambda>_. 1 / 2) = Inr (w, \<lambda>_. 1 / 2)
          \<and> density w = 720 \<and> speed_of_sound w = 3800)"
proof -
  have h1: "map_of WOOD_DATABASE ''jackwood'' = Some jackwood"
    by (simp add: WOOD_DATABASE_def jackwood_def)
  have h2: "(0::real) \<le> 0.1" by simp
  have h3: "\<forall>n::nat. (0::real) \<le> (\<lambda>_. 1 / 2) n \<and> (\<lambda>_. 1 / 2 :: real) n < 1" by simp
  from wood_variant_perturbation [OF h1 h2 h3]
  have "\<exists>w. get_random_wood_variant ''jackwood'' 0.1 (\<lambda>_. 1 / 2) = Inr (w, \<lambda>_. 1 / 2)
          \<and> density w = 720 \<and> speed_of_sound w = 3800"
    by (auto simp: jackwood_def)
  with h1 h2 h3 show ?thesis by blast
qed

section \<open>Orchestration: REST events, the unison strategy, heavy accents\<close>

lemma no_rest_update:
  "no_rest d \<Longrightarrow> \<forall>e \<in> set evs. sound_category e \<noteq> ''REST'' \<Longrightarrow> no_rest (AList.update k evs d)"
  using set_update_subset[of k evs d] by (fastforce simp: no_rest_def)

lemma dict_append_no_rest:
  assumes "no_rest d" "sound_category x \<noteq> ''REST''" "dict_append d k x = Inr d'"
  shows "no_rest d'"
proof -
  from assms(3) obtain xs where xs: "map_of d k = Some xs" and d': "d' = AList.update k (xs @ [x]) d"
    by (auto simp: dict_append_def split: option.splits)
  from xs have "(k, xs) \<in> set d" by (rule map_of_SomeD)
  with assms(1) have "\<forall>e \<in> set xs. sound_category e \<noteq> ''REST''" by (auto simp: no_rest_def)
  with assms(2) have "\<forall>e \<in> set (xs @ [x]). sound_category e \<noteq> ''REST''" by auto
  with assms(1) show ?thesis unfolding d' by (rule no_rest_update)
qed

lemma assign_event_fields:
  assumes "assign_event_to_player event player g = Inr (e', g')"
  shows "stroke_type e' = stroke_type event" "sound_category e' = sound_category event"
    "intensity e' = intensity event" "duration e' = duration event"
    "assigned_player e' = Some (player_id player)" "velocity e' \<noteq> None" "contact_point e' \<noteq> None"
  using assms
  by (auto simp: assign_event_to_player_def bindE_Inr_iff Let_def uniform_eq split: prod.splits if_splits)

lemma add_cymbal_events_no_rest:
  "pattern_no_rest pat \<Longrightarrow> add_cymbal_events t cs pat g = Inr (pat', g') \<Longrightarrow> pattern_no_rest pat'"
proof (induction cs arbitrary: pat g)
  case Nil
  then show ?case by simp
next
  case (Cons c cs)
  from Cons.prems(2) obtain off g1 vel g2 ce where
    ce: "dict_append (cymbal_events pat) (player_id c)
           \<lparr>time = t + off, stroke_type = ''1'', sound_category = ''NAM'', intensity = 0.6,
              duration = 0.5, assigned_player = Some (player_id c),
              velocity = Some vel, contact_point = Some 0.5\<rparr> = Inr ce"
    and rec: "add_cymbal_events t cs (pat\<lparr>cymbal_events := ce\<rparr>) g2 = Inr (pat', g')"
    by (auto simp: bindE_Inr_iff Let_def split: prod.splits)
  from Cons.prems(1) have "no_rest (cymbal_events pat)" by (simp add: pattern_no_rest_def)
  from dict_append_no_rest[OF this _ ce] have "no_rest ce" by simp
  with Cons.prems(1) have "pattern_no_rest (pat\<lparr>cymbal_events := ce\<rparr>)"
    by (simp add: pattern_no_rest_def)
  from Cons.IH[OF this rec] show ?case .
qed

lemma assign_chenda_no_rest:
  assumes "pattern_no_rest pat" "sound_category event \<noteq> ''REST''"
    "assign_event_to_player event player g = Inr (e', g1)"
    "dict_append (chenda_events pat) k e' = Inr ce"
  shows "pattern_no_rest (pat\<lparr>chenda_events := ce\<rparr>)"
proof -
  from assms(1) have "no_rest (chenda_events pat)" by (simp add: pattern_no_rest_def)
  moreover from assign_event_fields(2)[OF assms(3)] assms(2) have "sound_category e' \<noteq> ''REST''" by simp
  ultimately have "no_rest ce" using assms(4) by (rule dict_append_no_rest)
  with assms(1) show ?thesis by (simp add: pattern_no_rest_def)
qed

lemma traditional_loop_no_rest:
  "pattern_no_rest pat \<Longrightarrow>
   traditional_loop lead rhythm accent cymbals cx n i events pat g = Inr (pat', g') \<Longrightarrow>
   pattern_no_rest pat'"
proof (induction events arbitrary: i pat g)
  case Nil
  then show ?case by simp
next
  case (Cons event rest)
  show ?case
  proof (cases "sound_category event = ''REST''")
    case True
    with Cons show ?thesis by simp
  next
    case False
    from Cons.prems(2) False obtain e' g1 ce pat1 g2 where
      a: "assign_event_to_player event (select_player_traditional event i cx lead rhythm accent) g = Inr (e', g1)"
      and d: "dict_append (chenda_events pat) (player_id (select_player_traditional event i cx lead rhythm accent)) e' = Inr ce"
      and c: "(if is_structural_beat i n
               then add_cymbal_events (time event) cymbals (pat\<lparr>chenda_events := ce\<rparr>) g1
               else Inr (pat\<lparr>chenda_events := ce\<rparr>, g1)) = Inr (pat1, g2)"
      and r: "traditional_loop lead rhythm accent cymbals cx n (Suc i) rest pat1 g2 = Inr (pat', g')"
      by (auto simp: bindE_Inr_iff Let_def split: prod.splits)
    from assign_chenda_no_rest[OF Cons.prems(1) False a d]
    have p: "pattern_no_rest (pat\<lparr>chenda_events := ce\<rparr>)" .
    from c p have "pattern_no_rest pat1"
      by (auto split: if_splits dest: add_cymbal_events_no_rest)
    from Cons.IH[OF this r] show ?thesis .
  qed
qed


lemma dynamic_loop_no_rest:
  "pattern_no_rest pat \<Longrightarrow>
   dynamic_loop ens chendas cymbals i events pat g = Inr (pat', g') \<Longrightarrow>
   pattern_no_rest pat'"
proof (induction events arbitrary: i pat g)
  case Nil
  then show ?case by simp
next
  case (Cons event rest)
  show ?case
  proof (cases "sound_category event = ''REST''")
    case True
    with Cons show ?thesis by simp
  next
    case False
    from Cons.prems(2) False obtain player e' g1 ce pat1 g2 where
      a: "assign_event_to_player event player g = Inr (e', g1)"
      and d: "dict_append (chenda_events pat) (player_id player) e' = Inr ce"
      and c: "(if i mod 8 = 0
               then add_cymbal_events (time event) cymbals (pat\<lparr>chenda_events := ce\<rparr>) g1
               else Inr (pat\<lparr>chenda_events := ce\<rparr>, g1)) = Inr (pat1, g2)"
      and r: "dynamic_loop ens chendas cymbals (Suc i) rest pat1 g2 = Inr (pat', g')"
      by (auto simp: bindE_Inr_iff Let_def split: prod.splits option.splits)
    from assign_chenda_no_rest[OF Cons.prems(1) False a d]
    have p: "pattern_no_rest (pat\<lparr>chenda_events := ce\<rparr>)" .
    from c p have "pattern_no_rest pat1"
      by (auto split: if_splits dest: add_cymbal_events_no_rest)
    from Cons.IH[OF this r] show ?thesis .
  qed
qed

lemma antiphonal_loop_no_rest:
  "pattern_no_rest pat \<Longrightarrow>
   antiphonal_loop lead rhythm accent i events pat g = Inr (pat', g') \<Longrightarrow>
   pattern_no_rest pat'"
proof (induction events arbitrary: i pat g)
  case Nil
  then show ?case by simp
next
  case (Cons event rest)
  show ?case
  proof (cases "sound_category event = ''REST''")
    case True
    with Cons show ?thesis by simp
  next
    case False
    from Cons.prems(2) False obtain player e' g1 ce where
      a: "assign_event_to_player event player g = Inr (e', g1)"
      and d: "dict_append (chenda_events pat) (player_id player) e' = Inr ce"
      and r: "antiphonal_loop lead rhythm accent (Suc i) rest (pat\<lparr>chenda_events := ce\<rparr>) g1
                = Inr (pat', g')"
      by (auto simp: bindE_Inr_iff Let_def split: prod.splits)
    from assign_chenda_no_rest[OF Cons.prems(1) False a d]
    have p: "pattern_no_rest (pat\<lparr>chenda_events := ce\<rparr>)" .
    from Cons.IH[OF this r] show ?thesis .
  qed
qed

lemma assign_to_all_no_rest:
  "pattern_no_rest pat \<Longrightarrow> sound_category event \<noteq> ''REST'' \<Longrightarrow>
   assign_to_all event ps pat g = Inr (pat', g') \<Longrightarrow> pattern_no_rest pat'"
proof (induction ps arbitrary: pat g)
  case Nil
  then show ?case by simp
next
  case (Cons p ps)
  from Cons.prems(3) obtain e' g1 ce where
    a: "assign_event_to_player event p g = Inr (e', g1)"
    and d: "dict_append (chenda_events pat) (player_id p) e' = Inr ce"
    and r: "assign_to_all event ps (pat\<lparr>chenda_events := ce\<rparr>) g1 = Inr (pat', g')"
    by (auto simp: bindE_Inr_iff split: prod.splits)
  from assign_chenda_no_rest[OF Cons.prems(1,2) a d]
  have "pattern_no_rest (pat\<lparr>chenda_events := ce\<rparr>)" .
  from Cons.IH[OF this Cons.prems(2) r] show ?case .
qed

lemma unison_loop_no_rest:
  "pattern_no_rest pat \<Longrightarrow>
   unison_loop chendas cymbals n i events pat g = Inr (pat', g') \<Longrightarrow>
   pattern_no_rest pat'"
proof (induction events arbitrary: i pat g)
  case Nil
  then show ?case by simp
next
  case (Cons event rest)
  show ?case
  proof (cases "sound_category event = ''REST''")
    case True
    with Cons show ?thesis by simp
  next
    case False
    from Cons.prems(2) False obtain pat0 g0 pat1 g2 where
      a: "assign_to_all event chendas pat g = Inr (pat0, g0)"
      and c: "(if is_structural_beat i n
               then add_cymbal_events (time event) cymbals pat0 g0
               else Inr (pat0, g0)) = Inr (pat1, g2)"
      and r: "unison_loop chendas cymbals n (Suc i) rest pat1 g2 = Inr (pat', g')"
      by (auto simp: bindE_Inr_iff split: prod.splits)
    from assign_to_all_no_rest[OF Cons.prems(1) False a] have "pattern_no_rest pat0" .
    with c have "pattern_no_rest pat1"
      by (auto split: if_splits dest: add_cymbal_events_no_rest)
    from Cons.IH[OF this r] show ?thesis .
  qed
qed

lemma layered_loop_no_rest:
  "pattern_no_rest pat \<Longrightarrow>
   layered_loop chendas entries i events pat g = Inr (pat', g') \<Longrightarrow>
   pattern_no_rest pat'"
proof (induction events arbitrary: i pat g)
  case Nil
  then show ?case by simp
next
  case (Cons event rest)
  show ?case
  proof (cases "sound_category event = ''REST''")
    case True
    with Cons show ?thesis by simp
  next
    case False
    from Cons.prems(2) False obtain pat0 g0 where
      a: "assign_to_all event (active_players entries chendas i) pat g = Inr (pat0, g0)"
      and r: "layered_loop chendas entries (Suc i) rest pat0 g0 = Inr (pat', g')"
      by (auto simp: bindE_Inr_iff split: prod.splits)
    from assign_to_all_no_rest[OF Cons.prems(1) False a] have "pattern_no_rest pat0" .
    from Cons.IH[OF this r] show ?thesis .
  qed
qed

lemma init_pattern_no_rest: "pattern_no_rest (init_pattern chendas cymbals)"
  by (auto simp: pattern_no_rest_def no_rest_def init_pattern_def init_lists_def
      dest!: init_lists_values)

lemma orchestrate_sequence_no_rest:
  assumes "orchestrate_sequence ens events strategy g = Inr (pat, g')"
  shows "pattern_no_rest pat"
proof (cases strategy)
  case TRADITIONAL
  with assms show ?thesis
    by (auto simp: orchestrate_sequence_def orchestrate_traditional_def bindE_Inr_iff Let_def
        intro: traditional_loop_no_rest[OF init_pattern_no_rest])
next
  case DYNAMIC
  with assms show ?thesis
    by (auto simp: orchestrate_sequence_def orchestrate_dynamic_def Let_def
        intro: dynamic_loop_no_rest[OF init_pattern_no_rest])
next
  case ANTIPHONAL
  with assms show ?thesis
    by (auto simp: orchestrate_sequence_def orchestrate_antiphonal_def bindE_Inr_iff Let_def
        intro: antiphonal_loop_no_rest[OF init_pattern_no_rest])
next
  case UNISON
  with assms show ?thesis
    by (auto simp: orchestrate_sequence_def orchestrate_unison_def Let_def
        intro: unison_loop_no_rest[OF init_pattern_no_rest])
next
  case LAYERED
  with assms show ?thesis
    by (auto simp: orchestrate_sequence_def orchestrate_layered_def Let_def
        intro: layered_loop_no_rest[OF init_pattern_no_rest])
qed

lemma get_all_player_events_no_rest:
  assumes "pattern_no_rest pat"
  shows "no_rest (get_all_player_events pat)"
proof -
  have "set (get_all_player_events pat)
          \<subseteq> set (chenda_events pat) \<union> set (cymbal_events pat) \<union> set (wind_events pat)"
    unfolding get_all_player_events_def
    using set_dict_update_all[of "dict_update_all (dict_update_all [] (chenda_events pat)) (cymbal_events pat)" "wind_events pat"]
      set_dict_update_all[of "dict_update_all [] (chenda_events pat)" "cymbal_events pat"]
      set_dict_update_all[of "[]" "chenda_events pat"]
    by auto
  with assms show ?thesis by (fastforce simp: pattern_no_rest_def no_rest_def)
qed

lemma track_loop_skips_rest:
  "track_loop bp mx mdb player eng n events track g
     = track_loop bp mx mdb player eng n [e \<leftarrow> events. sound_category e \<noteq> ''REST''] track g"
proof (induction events arbitrary: track g)
  case Nil
  then show ?case by simp
next
  case (Cons event rest)
  show ?case
  proof (cases "sound_category event = ''REST''")
    case True
    with Cons show ?thesis by simp
  next
    case False
    have eq: "(\<lambda>(sound, y). track_loop bp mx mdb player eng n rest
                      (place_sound (mixer_sample_rate mx) n event sound track) y)
        = (\<lambda>(sound, y). track_loop bp mx mdb player eng n
                      [e \<leftarrow> rest. sound_category e \<noteq> ''REST'']
                      (place_sound (mixer_sample_rate mx) n event sound track) y)"
      by (rule ext) (simp add: Cons.IH split: prod.splits)
    show ?thesis by (simp add: False eq Cons.IH)
  qed
qed


lemma assign_event_copy:
  "assign_event_to_player event player g = Inr (e', g') \<Longrightarrow> assigned_copy_of event player e'"
  by (simp add: assigned_copy_of_def assign_event_fields)

lemma add_cymbal_events_chenda:
  "add_cymbal_events t cs pat g = Inr (pat', g') \<Longrightarrow> chenda_events pat' = chenda_events pat"
proof (induction cs arbitrary: pat g)
  case Nil
  then show ?case by simp
next
  case (Cons c cs)
  from Cons.prems obtain ce g2 where
    "add_cymbal_events t cs (pat\<lparr>cymbal_events := ce\<rparr>) g2 = Inr (pat', g')"
    by (auto simp: bindE_Inr_iff Let_def split: prod.splits)
  from Cons.IH[OF this] show ?case by simp
qed

lemma unison_draw_blocks_length:
  "length (unison_draw_blocks n m i d events)
     = length [e \<leftarrow> events. sound_category e \<noteq> ''REST'']"
  by (induction events arbitrary: i d) auto

lemma get_velocity_for_intensity_Inr:
  assumes "get_velocity_for_intensity p inten g = Inr (v, g')"
  shows "v = clip (fst (dynamic_range p) + inten * (snd (dynamic_range p) - fst (dynamic_range p))
                   + (1 - skill_level p) * 0.05 * g 0) 0 1"
    and "g' = (\<lambda>n. g (Suc n))"
  using assms
  by (simp_all add: get_velocity_for_intensity_def normal_def draw_def bindE_def Let_def
      split: if_splits prod.splits)

lemma get_timing_offset_Inr:
  assumes "get_timing_offset tc b g = Inr (off, g')"
  shows "off = (1 - base_precision tc) * 0.01 * g 0 + rush_tendency tc * 0.005
                 + groove_offset tc / 1000"
    and "g' = (\<lambda>n. g (Suc n))"
  using assms
  by (simp_all add: get_timing_offset_def normal_def draw_def bindE_def Let_def
      split: if_splits prod.splits)

lemma assign_event_resolved:
  assumes "assign_event_to_player event player g = Inr (e', g')"
  shows "e' = resolved_copy event player (g 0) (g 1) (g 2)" and "g' = (\<lambda>k. g (k + 3))"
proof -
  obtain vel g1 where v: "get_velocity_for_intensity player (intensity event) g = Inr (vel, g1)"
  proof (cases "get_velocity_for_intensity player (intensity event) g")
    case (Inl e)
    with assms show ?thesis by (simp add: assign_event_to_player_def)
  next
    case (Inr x)
    with that show ?thesis by (cases x) simp
  qed
  obtain off g2 where t: "get_timing_offset (timing player) (time event) g1 = Inr (off, g2)"
  proof (cases "get_timing_offset (timing player) (time event) g1")
    case (Inl e)
    with assms v show ?thesis by (simp add: assign_event_to_player_def)
  next
    case (Inr x)
    with that show ?thesis by (cases x) simp
  qed
  note vs = get_velocity_for_intensity_Inr[OF v]
  note ts = get_timing_offset_Inr[OF t]
  have g2: "g2 = (\<lambda>n. g (Suc (Suc n)))" using vs(2) ts(2) by simp
  have n: "g1 0 = g 1" "g2 0 = g 2" using vs(2) g2 by (simp_all add: numeral_2_eq_2)
  have s: "(\<lambda>n. g2 (Suc n)) = (\<lambda>k. g (k + 3))"
    unfolding g2 by (rule ext) (simp add: eval_nat_numeral)
  from assms v t show "e' = resolved_copy event player (g 0) (g 1) (g 2)"
    by (auto simp: assign_event_to_player_def Let_def uniform_eq resolved_copy_def
        vs(1) ts(1) n split: if_splits)
  from assms v t show "g' = (\<lambda>k. g (k + 3))"
    by (auto simp: assign_event_to_player_def Let_def uniform_eq s split: if_splits)
qed

lemma add_cymbal_events_draws:
  "add_cymbal_events t cs pat g = Inr (pat', g') \<Longrightarrow> g' = (\<lambda>k. g (k + 2 * length cs))"
proof (induction cs arbitrary: pat g)
  case Nil
  then show ?case by simp
next
  case (Cons c cs)
  from Cons.prems obtain off g1 vel g2 ce where
    t: "get_timing_offset (timing c) t g = Inr (off, g1)"
    and v: "get_velocity_for_intensity c 0.6 g1 = Inr (vel, g2)"
    and r: "add_cymbal_events t cs (pat\<lparr>cymbal_events := ce\<rparr>) g2 = Inr (pat', g')"
    by (auto simp: bindE_Inr_iff Let_def)
  have "g2 = (\<lambda>n. g (Suc (Suc n)))"
    using get_velocity_for_intensity_Inr(2)[OF v] get_timing_offset_Inr(2)[OF t] by simp
  with Cons.IH[OF r] show ?case by (simp add: add.commute)
qed

lemma assign_to_all_resolved:
  assumes "distinct (map player_id ps)" "assign_to_all event ps pat g = Inr (pat', g')"
  shows "g' = (\<lambda>k. g (k + 3 * length ps))"
    and "\<And>k. k \<notin> player_id ` set ps \<Longrightarrow>
            map_of (chenda_events pat') k = map_of (chenda_events pat) k"
    and "\<And>j. j < length ps \<Longrightarrow>
           \<exists>old. map_of (chenda_events pat) (player_id (ps ! j)) = Some old
             \<and> map_of (chenda_events pat') (player_id (ps ! j))
                 = Some (old @ [resolved_copy event (ps ! j)
                                  (g (3 * j)) (g (3 * j + 1)) (g (3 * j + 2))])"
  using assms
proof (induction ps arbitrary: pat g)
  case Nil
  { case 1 then show ?case by simp }
  { case 2 then show ?case by simp }
  { case 3 then show ?case by simp }
next
  case (Cons q ps)
  { fix pat g
    assume dist0: "distinct (map player_id (q # ps))"
      and run: "assign_to_all event (q # ps) pat g = Inr (pat', g')"
    from run obtain e' g1 ce where
      a: "assign_event_to_player event q g = Inr (e', g1)"
      and d: "dict_append (chenda_events pat) (player_id q) e' = Inr ce"
      and r: "assign_to_all event ps (pat\<lparr>chenda_events := ce\<rparr>) g1 = Inr (pat', g')"
      by (auto simp: bindE_Inr_iff split: prod.splits)
    note e' = assign_event_resolved(1)[OF a]
    note g1 = assign_event_resolved(2)[OF a]
    from dict_append_lookup[OF d] obtain old where
      old: "map_of (chenda_events pat) (player_id q) = Some old"
      and ce: "map_of ce = (map_of (chenda_events pat))(player_id q \<mapsto> old @ [e'])" by blast
    from dist0 have dist: "distinct (map player_id ps)"
      and notin: "player_id q \<notin> player_id ` set ps" by auto
    note ih1 = Cons.IH(1)[OF dist r]
    have ih2: "\<And>k. k \<notin> player_id ` set ps \<Longrightarrow> map_of (chenda_events pat') k = map_of ce k"
      using Cons.IH(2)[OF _ dist r] by simp
    have ih3: "\<And>j. j < length ps \<Longrightarrow>
           \<exists>old. map_of ce (player_id (ps ! j)) = Some old
             \<and> map_of (chenda_events pat') (player_id (ps ! j))
                 = Some (old @ [resolved_copy event (ps ! j)
                                  (g1 (3 * j)) (g1 (3 * j + 1)) (g1 (3 * j + 2))])"
      using Cons.IH(3)[OF _ dist r] by simp
    have c1: "g' = (\<lambda>k. g (k + 3 * length (q # ps)))"
      unfolding ih1 g1 by (rule ext) (simp add: add.commute add.left_commute)
    have c2: "map_of (chenda_events pat') k = map_of (chenda_events pat) k"
      if "k \<notin> player_id ` set (q # ps)" for k
      using that ih2[of k] ce by auto
    have c3: "\<exists>old. map_of (chenda_events pat) (player_id ((q # ps) ! j)) = Some old
             \<and> map_of (chenda_events pat') (player_id ((q # ps) ! j))
                 = Some (old @ [resolved_copy event ((q # ps) ! j)
                                  (g (3 * j)) (g (3 * j + 1)) (g (3 * j + 2))])"
      if j: "j < length (q # ps)" for j
    proof (cases j)
      case 0
      from ih2[OF notin] ce have "map_of (chenda_events pat') (player_id q) = Some (old @ [e'])"
        by simp
      with old e' 0 show ?thesis by (simp add: numeral_2_eq_2)
    next
      case (Suc i)
      with j have i: "i < length ps" by simp
      then have "player_id (ps ! i) \<in> player_id ` set ps" by simp
      with notin have ne: "player_id (ps ! i) \<noteq> player_id q" by metis
      have idx: "g1 (3 * i) = g (3 * j)" "g1 (3 * i + 1) = g (3 * j + 1)"
        "g1 (3 * i + 2) = g (3 * j + 2)"
        unfolding g1 Suc by (simp_all add: add.commute add.left_commute)
      from ih3[OF i] ne ce show ?thesis unfolding idx by (simp add: Suc)
    qed
    note c1 c2 c3
  } note step = this
  { case 1 from step(1)[OF 1(1) 1(2)] show ?case . }
  { case 2 from step(2)[OF 2(2) 2(3) 2(1)] show ?case . }
  { case 3 from step(3)[OF 3(2) 3(3) 3(1)] show ?case . }
qed

lemma unison_loop_resolved:
  assumes "distinct (map player_id chendas)" "j < length chendas"
  shows "unison_loop chendas cymbals n i events pat (\<lambda>k. G (k + d0)) = Inr (pat', g') \<Longrightarrow>
         map_of (chenda_events pat) (player_id (chendas ! j)) = Some old \<Longrightarrow>
         map_of (chenda_events pat') (player_id (chendas ! j))
           = Some (old @ map2 (\<lambda>e d. resolved_copy e (chendas ! j)
                                 (G (d + 3 * j)) (G (d + 3 * j + 1)) (G (d + 3 * j + 2)))
                      [e \<leftarrow> events. sound_category e \<noteq> ''REST'']
                      (unison_draw_blocks (length chendas) (length cymbals) i d0 events))"
proof (induction events arbitrary: i pat d0 old)
  case Nil
  then show ?case by simp
next
  case (Cons event rest)
  show ?case
  proof (cases "sound_category event = ''REST''")
    case True
    with Cons show ?thesis by simp
  next
    case False
    let ?g = "\<lambda>k. G (k + d0)"
    let ?d1 = "d0 + 3 * length chendas + (if i mod 4 = 0 then 2 * length cymbals else 0)"
    from Cons.prems(1) False obtain pat0 g0 pat1 g2 where
      a: "assign_to_all event chendas pat ?g = Inr (pat0, g0)"
      and c: "(if is_structural_beat i n
               then add_cymbal_events (time event) cymbals pat0 g0
               else Inr (pat0, g0)) = Inr (pat1, g2)"
      and r: "unison_loop chendas cymbals n (Suc i) rest pat1 g2 = Inr (pat', g')"
      by (auto simp: bindE_Inr_iff split: prod.splits)
    have g0: "g0 = (\<lambda>k. ?g (k + 3 * length chendas))"
      by (rule assign_to_all_resolved(1)[OF assms(1) a])
    have g2: "g2 = (\<lambda>k. G (k + ?d1))"
    proof (cases "i mod 4 = 0")
      case True
      with c have "add_cymbal_events (time event) cymbals pat0 g0 = Inr (pat1, g2)"
        by (simp add: is_structural_beat_def)
      from add_cymbal_events_draws[OF this] True show ?thesis
        unfolding g0 by (simp add: add.commute add.left_commute add.assoc)
    next
      case False
      with c have "g2 = g0" by (simp add: is_structural_beat_def)
      with False show ?thesis unfolding g0 by (simp add: add.commute add.left_commute)
    qed
    from assign_to_all_resolved(3)[OF assms(1) a assms(2)] Cons.prems(2)
    have e': "map_of (chenda_events pat0) (player_id (chendas ! j))
                = Some (old @ [resolved_copy event (chendas ! j)
                                 (G (d0 + 3 * j)) (G (d0 + 3 * j + 1)) (G (d0 + 3 * j + 2))])"
      by (simp add: add.commute add.left_commute)
    from c have "chenda_events pat1 = chenda_events pat0"
      by (auto split: if_splits dest: add_cymbal_events_chenda)
    with e' have l: "map_of (chenda_events pat1) (player_id (chendas ! j))
                = Some (old @ [resolved_copy event (chendas ! j)
                                 (G (d0 + 3 * j)) (G (d0 + 3 * j + 1)) (G (d0 + 3 * j + 2))])"
      by simp
    from Cons.IH[OF r[unfolded g2] l] False show ?thesis by simp
  qed
qed

lemma traditional_loop_grows:
  "traditional_loop lead rhythm accent cymbals cx n i events pat g = Inr (pat', g') \<Longrightarrow>
   map_of (chenda_events pat) k = Some old \<Longrightarrow>
   \<exists>new. map_of (chenda_events pat') k = Some (old @ new)"
proof (induction events arbitrary: i pat g old)
  case Nil
  then show ?case by simp
next
  case (Cons event rest)
  show ?case
  proof (cases "sound_category event = ''REST''")
    case True
    with Cons show ?thesis by simp
  next
    case False
    from Cons.prems(1) False obtain e' g1 ce pat1 g2 where
      d: "dict_append (chenda_events pat) (player_id (select_player_traditional event i cx lead rhythm accent)) e' = Inr ce"
      and c: "(if is_structural_beat i n
               then add_cymbal_events (time event) cymbals (pat\<lparr>chenda_events := ce\<rparr>) g1
               else Inr (pat\<lparr>chenda_events := ce\<rparr>, g1)) = Inr (pat1, g2)"
      and r: "traditional_loop lead rhythm accent cymbals cx n (Suc i) rest pat1 g2 = Inr (pat', g')"
      by (auto simp: bindE_Inr_iff Let_def split: prod.splits)
    from c have ch: "chenda_events pat1 = ce"
      by (auto split: if_splits dest: add_cymbal_events_chenda)
    from dict_append_lookup[OF d] Cons.prems(2)
    obtain mid where "map_of ce k = Some (old @ mid)"
      by (cases "k = player_id (select_player_traditional event i cx lead rhythm accent)") auto
    with ch have "map_of (chenda_events pat1) k = Some (old @ mid)" by simp
    from Cons.IH[OF r this] show ?thesis by auto
  qed
qed

lemma traditional_loop_heavy:
  "traditional_loop lead rhythm accent cymbals cx n i events pat g = Inr (pat', g') \<Longrightarrow>
   j < length events \<Longrightarrow> sound_category (events ! j) \<noteq> ''REST'' \<Longrightarrow>
   intensity (events ! j) = 0.95 \<Longrightarrow> stroke_type (events ! j) \<in> {''Dheem'', ''Dha''} \<Longrightarrow>
   \<exists>evs e'. map_of (chenda_events pat') (player_id accent) = Some evs \<and> e' \<in> set evs
      \<and> assigned_copy_of (events ! j) accent e'"
proof (induction events arbitrary: i j pat g)
  case Nil
  then show ?case by simp
next
  case (Cons event rest)
  show ?case
  proof (cases j)
    case 0
    with Cons.prems have nr: "sound_category event \<noteq> ''REST''"
      and hv: "intensity event = 0.95" "stroke_type event \<in> {''Dheem'', ''Dha''}" by auto
    from hv have sel: "select_player_traditional event i cx lead rhythm accent = accent"
      by (auto simp: select_player_traditional_def)
    from Cons.prems(1) nr sel obtain e' g1 ce pat1 g2 where
      a: "assign_event_to_player event accent g = Inr (e', g1)"
      and d: "dict_append (chenda_events pat) (player_id accent) e' = Inr ce"
      and c: "(if is_structural_beat i n
               then add_cymbal_events (time event) cymbals (pat\<lparr>chenda_events := ce\<rparr>) g1
               else Inr (pat\<lparr>chenda_events := ce\<rparr>, g1)) = Inr (pat1, g2)"
      and r: "traditional_loop lead rhythm accent cymbals cx n (Suc i) rest pat1 g2 = Inr (pat', g')"
      by (auto simp: bindE_Inr_iff Let_def split: prod.splits)
    from c have ch: "chenda_events pat1 = ce"
      by (auto split: if_splits dest: add_cymbal_events_chenda)
    from dict_append_lookup[OF d] obtain old where "map_of ce (player_id accent) = Some (old @ [e'])"
      by auto
    with ch have "map_of (chenda_events pat1) (player_id accent) = Some (old @ [e'])" by simp
    from traditional_loop_grows[OF r this] obtain new where
      "map_of (chenda_events pat') (player_id accent) = Some ((old @ [e']) @ new)" by blast
    with assign_event_copy[OF a] 0 show ?thesis by auto
  next
    case (Suc j')
    show ?thesis
    proof (cases "sound_category event = ''REST''")
      case True
      with Cons.prems(1) have
        "traditional_loop lead rhythm accent cymbals cx n (Suc i) rest pat g = Inr (pat', g')" by simp
      from Cons.IH[OF this, of j'] Cons.prems(2-) Suc show ?thesis by simp
    next
      case False
      from Cons.prems(1) False obtain pat1 g2 where
        "traditional_loop lead rhythm accent cymbals cx n (Suc i) rest pat1 g2 = Inr (pat', g')"
        by (auto simp: bindE_Inr_iff Let_def split: prod.splits)
      from Cons.IH[OF this, of j'] Cons.prems(2-) Suc show ?thesis by simp
    qed
  qed
qed


text \<open>The five strategies return on the standard ensemble and the short sequence.\<close>

lemmas orchestrate_defs = orchestrate_sequence_def orchestrate_traditional_def
  orchestrate_dynamic_def orchestrate_antiphonal_def orchestrate_unison_def
  orchestrate_layered_def get_players_by_role_def get_chenda_players_def
  get_cymbal_players_def get_player_def first_def init_pattern_def init_lists_def
  analyze_pattern_complexity_def clip_def select_player_traditional_def
  assign_event_to_player_def get_velocity_for_intensity_def get_timing_offset_def
  is_structural_beat_def dict_append_def select_player_by_load_def first_min_key_def
  active_players_def

lemma demo_orchestration_returns:
  "\<exists>pat. orchestrate_sequence melam demo_events TRADITIONAL (\<lambda>_. 1 / 4) = Inr (pat, \<lambda>_. 1 / 4)"
  "\<exists>pat. orchestrate_sequence melam demo_events DYNAMIC (\<lambda>_. 1 / 4) = Inr (pat, \<lambda>_. 1 / 4)"
  "\<exists>pat. orchestrate_sequence melam demo_events ANTIPHONAL (\<lambda>_. 1 / 4) = Inr (pat, \<lambda>_. 1 / 4)"
  "\<exists>pat. orchestrate_sequence melam demo_events UNISON (\<lambda>_. 1 / 4) = Inr (pat, \<lambda>_. 1 / 4)"
  "\<exists>pat. orchestrate_sequence melam demo_events LAYERED (\<lambda>_. 1 / 4) = Inr (pat, \<lambda>_. 1 / 4)"
  by (simp_all add: orchestrate_defs melam_def demo_events_def player_defs Let_def)

lemma melam_second_chenda: "get_chenda_players melam ! 1 = melam_P2"
  by (simp add: get_chenda_players_def melam_def player_defs)

lemma demo_copies_P2:
  "map2 (\<lambda>e d. resolved_copy e melam_P2 (1 / 4) (1 / 4) (1 / 4))
     [e \<leftarrow> demo_events. sound_category e \<noteq> ''REST''] (unison_draw_blocks 3 2 0 0 demo_events)
   = [\<lparr>time = 1 / 20000, stroke_type = ''Dheem'', sound_category = ''DHEEM'',
       intensity = 19 / 20, duration = 2 / 5, assigned_player = Some ''P2'',
       velocity = Some (1667 / 2000), contact_point = Some (27 / 40)\<rparr>,
      \<lparr>time = 10001 / 20000, stroke_type = ''Ta'', sound_category = ''THAAM'',
       intensity = 7 / 10, duration = 2 / 5, assigned_player = Some ''P2'',
       velocity = Some (373 / 500), contact_point = Some (3 / 8)\<rparr>,
      \<lparr>time = 30001 / 20000, stroke_type = ''Na'', sound_category = ''NAM'',
       intensity = 7 / 10, duration = 2 / 5, assigned_player = Some ''P2'',
       velocity = Some (373 / 500), contact_point = Some (3 / 8)\<rparr>]"
  by (simp add: demo_events_def resolved_copy_def player_defs clip_def)

text \<open>
  Every ensemble that \<open>build_standard_melam\<close> returns has the chenda players P1, P2 and
  P3, so their ids are distinct.
\<close>

lemma factory_ids:
  "create_chenda_lead pid mdb g = (Inr p, mdb', g') \<Longrightarrow> player_id p = pid \<and> instrument_type p = CHENDA"
  "create_chenda_rhythm pid mdb g = (Inr p, mdb', g') \<Longrightarrow> player_id p = pid \<and> instrument_type p = CHENDA"
  "create_chenda_accent pid mdb g = (Inr p, mdb', g') \<Longrightarrow> player_id p = pid \<and> instrument_type p = CHENDA"
  "create_elathaalam_primary pid g = Inr (q, g'') \<Longrightarrow> player_id q = pid \<and> instrument_type q = ELATHAALAM"
  "create_elathaalam_secondary pid g = Inr (q, g'') \<Longrightarrow> player_id q = pid \<and> instrument_type q = ELATHAALAM"
  "player_id (create_kombu pid) = pid \<and> instrument_type (create_kombu pid) = KOMBU_instrument"
  by (auto simp: create_chenda_lead_def create_chenda_rhythm_def create_chenda_accent_def
      create_elathaalam_primary_def create_elathaalam_secondary_def create_kombu_def
      Player_init_def bindE_Inr_iff split: prod.splits sum.splits)

lemma build_standard_melam_distinct_ids:
  assumes "build_standard_melam mdb g = (Inr ens, mdb', g')"
  shows "map player_id (get_chenda_players ens) = [''P1'', ''P2'', ''P3'']"
  using assms
  by (auto simp: build_standard_melam_def get_chenda_players_def
      split: prod.splits sum.splits dest!: factory_ids(1-5))
     (simp_all add: factory_ids(6))

text \<open>
  C2: under each of the five strategies, no list of the resulting pattern (the chenda,
  cymbal and wind dicts, and their union \<open>get_all_player_events\<close>) holds an event of
  category REST; and the mixer renders a player's track as if the REST events of its
  list were not there.
\<close>

theorem rest_never_assigned_nor_rendered:
  assumes "orchestrate_sequence ens events strategy g = Inr (pat, g')"
  shows "(\<forall>(pid, evs) \<in> set (get_all_player_events pat).
            \<forall>e \<in> set evs. sound_category e \<noteq> ''REST'')
       \<and> (\<forall>(pid, evs) \<in> set (chenda_events pat) \<union> set (cymbal_events pat)
                           \<union> set (wind_events pat).
            \<forall>e \<in> set evs. sound_category e \<noteq> ''REST'')
       \<and> render_player_track bp mx mdb player track_events dur eng g0
           = render_player_track bp mx mdb player
               [e \<leftarrow> track_events. sound_category e \<noteq> ''REST''] dur eng g0"
proof -
  from orchestrate_sequence_no_rest[OF assms] have p: "pattern_no_rest pat" .
  from get_all_player_events_no_rest[OF p]
  have 1: "\<forall>(pid, evs) \<in> set (get_all_player_events pat).
            \<forall>e \<in> set evs. sound_category e \<noteq> ''REST''"
    by (simp add: no_rest_def)
  from p have 2: "\<forall>(pid, evs) \<in> set (chenda_events pat) \<union> set (cymbal_events pat)
                           \<union> set (wind_events pat).
            \<forall>e \<in> set evs. sound_category e \<noteq> ''REST''"
    by (auto simp: pattern_no_rest_def no_rest_def)
  have 3: "render_player_track bp mx mdb player track_events dur eng g0
           = render_player_track bp mx mdb player
               [e \<leftarrow> track_events. sound_category e \<noteq> ''REST''] dur eng g0"
    using track_loop_skips_rest[of bp mx mdb player eng _ track_events]
    by (simp add: render_player_track_def Let_def)
  from 1 2 3 show ?thesis by blast
qed

theorem rest_never_assigned_nor_rendered_witness:
  "\<exists>pat. orchestrate_sequence melam demo_events TRADITIONAL (\<lambda>_. 1 / 4) = Inr (pat, \<lambda>_. 1 / 4)
     \<and> ''REST'' \<in> sound_category ` set demo_events
     \<and> (\<forall>(pid, evs) \<in> set (get_all_player_events pat).
            \<forall>e \<in> set evs. sound_category e \<noteq> ''REST'')"
proof -
  from demo_orchestration_returns(1) obtain pat where
    h: "orchestrate_sequence melam demo_events TRADITIONAL (\<lambda>_. 1 / 4) = Inr (pat, \<lambda>_. 1 / 4)"
    by blast
  have "''REST'' \<in> sound_category ` set demo_events" by (simp add: demo_events_def)
  with h rest_never_assigned_nor_rendered [OF h] show ?thesis by blast
qed

text \<open>
  C3: under the unison strategy, for an ensemble whose chenda players have distinct ids
  (the lists are keyed by id; every ensemble of \<open>build_standard_melam\<close> is one), the
  list of every chenda player (the \<open>j\<close>-th of \<open>get_chenda_players\<close>) holds exactly
  one assigned copy of each non-REST input event, in input order: the list is as long as
  the input has non-REST events, so the lists of all chenda players are equally long, and
  its k-th entry is the k-th non-REST event with the player recorded and with timing,
  velocity and contact point resolved for this player from three draws of its own, the
  draws \<open>3j\<close>, \<open>3j + 1\<close> and \<open>3j + 2\<close> of the event's turn.
\<close>

theorem unison_every_player_gets_every_event:
  assumes "orchestrate_sequence ens events UNISON g = Inr (pat, g')"
    and "distinct (map player_id (get_chenda_players ens))"
    and "j < length (get_chenda_players ens)"
  shows "\<exists>evs. map_of (chenda_events pat) (player_id (get_chenda_players ens ! j)) = Some evs
           \<and> length evs = length [e \<leftarrow> events. sound_category e \<noteq> ''REST'']
           \<and> evs = map2 (\<lambda>e d. resolved_copy e (get_chenda_players ens ! j)
                                  (g (d + 3 * j)) (g (d + 3 * j + 1)) (g (d + 3 * j + 2)))
                     [e \<leftarrow> events. sound_category e \<noteq> ''REST'']
                     (unison_draw_blocks (length (get_chenda_players ens))
                        (length (get_cymbal_players ens)) 0 0 events)"
proof -
  let ?chendas = "get_chenda_players ens"
  from assms(1) have
    "unison_loop ?chendas (get_cymbal_players ens) (length events) 0 events
       (init_pattern ?chendas (get_cymbal_players ens)) (\<lambda>k. g (k + 0)) = Inr (pat, g')"
    by (simp add: orchestrate_sequence_def orchestrate_unison_def Let_def)
  moreover have "map_of (chenda_events (init_pattern ?chendas (get_cymbal_players ens)))
                   (player_id (?chendas ! j)) = Some []"
    using assms(3) by (simp add: init_pattern_def init_lists_lookup)
  ultimately have
    "map_of (chenda_events pat) (player_id (?chendas ! j))
       = Some ([] @ map2 (\<lambda>e d. resolved_copy e (?chendas ! j)
                                  (g (d + 3 * j)) (g (d + 3 * j + 1)) (g (d + 3 * j + 2)))
                     [e \<leftarrow> events. sound_category e \<noteq> ''REST'']
                     (unison_draw_blocks (length ?chendas)
                        (length (get_cymbal_players ens)) 0 0 events))"
    by (rule unison_loop_resolved[OF assms(2,3)])
  then show ?thesis by (simp add: unison_draw_blocks_length)
qed

theorem unison_every_player_gets_every_event_witness:
  "\<exists>pat. orchestrate_sequence melam demo_events UNISON (\<lambda>_. 1 / 4) = Inr (pat, \<lambda>_. 1 / 4)
     \<and> distinct (map player_id (get_chenda_players melam))
     \<and> (1::nat) < length (get_chenda_players melam)
     \<and> get_chenda_players melam ! 1 = melam_P2
     \<and> map_of (chenda_events pat) ''P2''
         = Some [\<lparr>time = 1 / 20000, stroke_type = ''Dheem'', sound_category = ''DHEEM'',
                  intensity = 19 / 20, duration = 2 / 5, assigned_player = Some ''P2'',
                  velocity = Some (1667 / 2000), contact_point = Some (27 / 40)\<rparr>,
                 \<lparr>time = 10001 / 20000, stroke_type = ''Ta'', sound_category = ''THAAM'',
                  intensity = 7 / 10, duration = 2 / 5, assigned_player = Some ''P2'',
                  velocity = Some (373 / 500), contact_point = Some (3 / 8)\<rparr>,
                 \<lparr>time = 30001 / 20000, stroke_type = ''Na'', sound_category = ''NAM'',
                  intensity = 7 / 10, duration = 2 / 5, assigned_player = Some ''P2'',
                  velocity = Some (373 / 500), contact_point = Some (3 / 8)\<rparr>]"
proof -
  from demo_orchestration_returns(4) obtain pat where
    h1: "orchestrate_sequence melam demo_events UNISON (\<lambda>_. 1 / 4) = Inr (pat, \<lambda>_. 1 / 4)"
    by blast
  have h2: "distinct (map player_id (get_chenda_players melam))"
    by (simp add: get_chenda_players_def melam_def player_defs)
  have h3: "(1::nat) < length (get_chenda_players melam)"
    by (simp add: get_chenda_players_def melam_def player_defs)
  have n: "length (get_chenda_players melam) = 3" "length (get_cymbal_players melam) = 2"
    by (simp_all add: get_chenda_players_def get_cymbal_players_def melam_def player_defs)
  have i: "player_id melam_P2 = ''P2''" by (simp add: player_defs)
  from unison_every_player_gets_every_event [OF h1 h2 h3]
  have "map_of (chenda_events pat) ''P2''
          = Some (map2 (\<lambda>e d. resolved_copy e melam_P2 (1 / 4) (1 / 4) (1 / 4))
                    [e \<leftarrow> demo_events. sound_category e \<noteq> ''REST'']
                    (unison_draw_blocks 3 2 0 0 demo_events))"
    unfolding melam_second_chenda n i by blast
  with h1 h2 h3 melam_second_chenda show ?thesis
    unfolding demo_copies_P2 by (intro exI[of _ pat] conjI)
qed

text \<open>
  C4: an event of intensity 0.95 whose stroke type is one of the heavy accents
  ("Dheem", "Dha") is given to the accent player by \<open>_select_player_traditional\<close>, at
  every position and complexity; and when such an event, not a REST, stands in the input
  of the traditional strategy, the list of the accent player in the resulting pattern
  holds an assigned copy of it.
\<close>

theorem traditional_heavy_accent_to_accent_player:
  assumes "intensity event = 0.95" and "stroke_type event \<in> {''Dheem'', ''Dha''}"
  shows "select_player_traditional event position complexity lead rhythm accent = accent
       \<and> (\<forall>ens events g pat g' j.
            orchestrate_sequence ens events TRADITIONAL g = Inr (pat, g') \<and> j < length events
            \<and> events ! j = event \<and> sound_category event \<noteq> ''REST''
            \<longrightarrow> (\<exists>acc evs e'. first (get_players_by_role ens CHENDA_ACCENT) = Inr acc
                   \<and> map_of (chenda_events pat) (player_id acc) = Some evs \<and> e' \<in> set evs
                   \<and> assigned_copy_of event acc e'))"
proof -
  from assms have 1: "select_player_traditional event position complexity lead rhythm accent
                        = accent"
    by (auto simp: select_player_traditional_def)
  have 2: "\<exists>acc evs e'. first (get_players_by_role ens CHENDA_ACCENT) = Inr acc
             \<and> map_of (chenda_events pat) (player_id acc) = Some evs \<and> e' \<in> set evs
             \<and> assigned_copy_of event acc e'"
    if o: "orchestrate_sequence ens events TRADITIONAL g = Inr (pat, g')"
      and j: "j < length events" "events ! j = event" "sound_category event \<noteq> ''REST''"
    for ens events g pat g' j
  proof -
    from o obtain ld rh acc where
      acc: "first (get_players_by_role ens CHENDA_ACCENT) = Inr acc"
      and loop: "traditional_loop ld rh acc (get_cymbal_players ens)
                   (analyze_pattern_complexity events) (length events) 0 events
                   (init_pattern [ld, rh, acc] (get_cymbal_players ens)) g = Inr (pat, g')"
      by (auto simp: orchestrate_sequence_def orchestrate_traditional_def bindE_Inr_iff Let_def)
    from traditional_loop_heavy[OF loop j(1)] j(2,3) assms
    obtain evs e' where "map_of (chenda_events pat) (player_id acc) = Some evs"
      "e' \<in> set evs" "assigned_copy_of event acc e'" by auto
    with acc show ?thesis by blast
  qed
  from 1 2 show ?thesis by blast
qed

theorem traditional_heavy_accent_to_accent_player_witness:
  "intensity (demo_events ! 0) = 0.95 \<and> stroke_type (demo_events ! 0) \<in> {''Dheem'', ''Dha''}
   \<and> select_player_traditional (demo_events ! 0) 0 1 melam_P1 melam_P2 melam_P3 = melam_P3
   \<and> (\<exists>pat evs e'.
        orchestrate_sequence melam demo_events TRADITIONAL (\<lambda>_. 1 / 4) = Inr (pat, \<lambda>_. 1 / 4)
        \<and> map_of (chenda_events pat) ''P3'' = Some evs \<and> e' \<in> set evs
        \<and> stroke_type e' = ''Dheem'' \<and> assigned_player e' = Some ''P3'')"
proof -
  have h1: "intensity (demo_events ! 0) = 0.95" by (simp add: demo_events_def)
  have h2: "stroke_type (demo_events ! 0) \<in> {''Dheem'', ''Dha''}" by (simp add: demo_events_def)
  from demo_orchestration_returns(1) obtain pat where
    h3: "orchestrate_sequence melam demo_events TRADITIONAL (\<lambda>_. 1 / 4) = Inr (pat, \<lambda>_. 1 / 4)"
    by blast
  have h4: "(0::nat) < length demo_events" "sound_category (demo_events ! 0) \<noteq> ''REST''"
    by (simp_all add: demo_events_def)
  have acc: "first (get_players_by_role melam CHENDA_ACCENT) = Inr melam_P3"
    by (simp add: first_def get_players_by_role_def melam_def player_defs)
  note t = traditional_heavy_accent_to_accent_player [OF h1 h2, of 0 1 melam_P1 melam_P2 melam_P3]
  from t have s: "select_player_traditional (demo_events ! 0) 0 1 melam_P1 melam_P2 melam_P3
                    = melam_P3" by blast
  from t h3 h4 obtain a evs e' where
    "first (get_players_by_role melam CHENDA_ACCENT) = Inr a"
    "map_of (chenda_events pat) (player_id a) = Some evs" "e' \<in> set evs"
    "assigned_copy_of (demo_events ! 0) a e'" by blast
  with acc have "map_of (chenda_events pat) ''P3'' = Some evs" "e' \<in> set evs"
    "stroke_type e' = ''Dheem''" "assigned_player e' = Some ''P3''"
    by (auto simp: assigned_copy_of_def demo_events_def player_defs)
  with h1 h2 h3 s show ?thesis by blast
qed

section \<open>The instrument factory and the membrane database\<close>

lemma update_keys_present: "map_of al k = Some v0 \<Longrightarrow> map fst (AList.update k v al) = map fst al"
  by (induction al) (auto split: if_splits)

lemma create_chenda_store:
  assumes w: "map_of WOOD_DATABASE base_wood = Some w"
    and mv: "map_of mdb (''cow_'' @ vt) = Some mv" and me: "map_of mdb (''cow_'' @ et) = Some me"
  shows "\<exists>res me1. create_chenda cid base_wood vt et vs es variation mdb g
           = (res, AList.update (''cow_'' @ et) (me1\<lparr>tension := tension me1 * (0.95 + (1.05 - 0.95) * g 6)\<rparr>)
                    (AList.update (''cow_'' @ vt) (mv\<lparr>tension := tension mv * (0.95 + (1.05 - 0.95) * g 5)\<rparr>) mdb),
              \<lambda>n. g (n + 10))
         \<and> me1 = (if vt = et then mv\<lparr>tension := tension mv * (0.95 + (1.05 - 0.95) * g 5)\<rparr> else me)
         \<and> (\<forall>ins. res = Inr ins \<longrightarrow> membrane_valam ins = ''cow_'' @ vt
                \<and> membrane_edamthala ins = ''cow_'' @ et)"
  using assms
  by (auto simp: create_chenda_def get_random_wood_variant_def dict_lookup_def uniform_eq
      Let_def update_conv' eval_nat_numeral split: option.splits)


text \<open>
  C10: a call of \<open>create_chenda\<close> whose wood and membrane keys are in the databases
  writes to the membrane database in place: the tension of the valam preset is multiplied
  by a uniform factor of its own draw from \<open>[0.95, 1.05]\<close>, then that of the edamthala
  preset by another (both factors on the one object when the two keys are the same); no
  other entry changes and the keys stay. The database is left changed also when a stick
  lookup raises afterwards. The instrument that is returned holds the two keys, that is
  references to the objects of the database and no copies, so any two chendas made from
  the same tension key hold the same object.
\<close>

theorem create_chenda_mutates_shared_membranes:
  assumes w: "map_of WOOD_DATABASE base_wood = Some w"
    and mv: "map_of mdb (''cow_'' @ vt) = Some mv" and me: "map_of mdb (''cow_'' @ et) = Some me"
    and g: "\<forall>n. 0 \<le> g n \<and> g n < 1"
  shows "\<exists>res mdb' f_v f_e.
      create_chenda cid base_wood vt et vs es variation mdb g = (res, mdb', \<lambda>n. g (n + 10))
    \<and> f_v = 0.95 + (1.05 - 0.95) * g 5 \<and> f_e = 0.95 + (1.05 - 0.95) * g 6
    \<and> 0.95 \<le> f_v \<and> f_v \<le> 1.05 \<and> 0.95 \<le> f_e \<and> f_e \<le> 1.05
    \<and> map fst mdb' = map fst mdb
    \<and> (\<forall>k. k \<noteq> ''cow_'' @ vt \<and> k \<noteq> ''cow_'' @ et \<longrightarrow> map_of mdb' k = map_of mdb k)
    \<and> (vt \<noteq> et \<longrightarrow> map_of mdb' (''cow_'' @ vt) = Some (mv\<lparr>tension := tension mv * f_v\<rparr>)
               \<and> map_of mdb' (''cow_'' @ et) = Some (me\<lparr>tension := tension me * f_e\<rparr>))
    \<and> (vt = et \<longrightarrow> map_of mdb' (''cow_'' @ vt) = Some (mv\<lparr>tension := tension mv * f_v * f_e\<rparr>))
    \<and> (\<forall>ins. res = Inr ins \<longrightarrow> membrane_valam ins = ''cow_'' @ vt
           \<and> membrane_edamthala ins = ''cow_'' @ et)
    \<and> (vt \<noteq> et \<and> tension mv \<noteq> 0 \<and> g 5 \<noteq> 1 / 2 \<longrightarrow> mdb' \<noteq> mdb)"
proof -
  define f_v where "f_v = 0.95 + (1.05 - 0.95) * g 5"
  define f_e where "f_e = 0.95 + (1.05 - 0.95) * g 6"
  define me1 where "me1 = (if vt = et then mv\<lparr>tension := tension mv * f_v\<rparr> else me)"
  define mdb1 where "mdb1 = AList.update (''cow_'' @ vt) (mv\<lparr>tension := tension mv * f_v\<rparr>) mdb"
  define mdb' where "mdb' = AList.update (''cow_'' @ et) (me1\<lparr>tension := tension me1 * f_e\<rparr>) mdb1"
  from create_chenda_store[OF w mv me, of cid vs es variation g] obtain res where
    res: "create_chenda cid base_wood vt et vs es variation mdb g = (res, mdb', \<lambda>n. g (n + 10))"
    and refs: "\<forall>ins. res = Inr ins \<longrightarrow> membrane_valam ins = ''cow_'' @ vt
                \<and> membrane_edamthala ins = ''cow_'' @ et"
    unfolding mdb'_def mdb1_def me1_def f_v_def f_e_def by blast
  have r: "0 \<le> g 5" "g 5 \<le> 1" "0 \<le> g 6" "g 6 \<le> 1"
    using g by (auto intro: less_imp_le)
  have bv: "0.95 \<le> f_v" "f_v \<le> 1.05"
    unfolding f_v_def using uniform_bounds[of "0.95" "1.05" "g 5"] r by auto
  have be: "0.95 \<le> f_e" "f_e \<le> 1.05"
    unfolding f_e_def using uniform_bounds[of "0.95" "1.05" "g 6"] r by auto
  have m1: "map_of mdb1 (''cow_'' @ et) = Some me1"
    using mv me by (auto simp: mdb1_def me1_def update_conv')
  have keys: "map fst mdb' = map fst mdb"
    unfolding mdb'_def using update_keys_present[OF m1] update_keys_present[OF mv]
    by (simp add: mdb1_def)
  have other: "\<forall>k. k \<noteq> ''cow_'' @ vt \<and> k \<noteq> ''cow_'' @ et \<longrightarrow> map_of mdb' k = map_of mdb k"
    by (simp add: mdb'_def mdb1_def update_conv')
  have ne: "vt \<noteq> et \<longrightarrow> map_of mdb' (''cow_'' @ vt) = Some (mv\<lparr>tension := tension mv * f_v\<rparr>)
               \<and> map_of mdb' (''cow_'' @ et) = Some (me\<lparr>tension := tension me * f_e\<rparr>)"
    by (simp add: mdb'_def mdb1_def me1_def update_conv')
  have eq: "vt = et \<longrightarrow> map_of mdb' (''cow_'' @ vt) = Some (mv\<lparr>tension := tension mv * f_v * f_e\<rparr>)"
    by (simp add: mdb'_def mdb1_def me1_def update_conv')
  have chg: "vt \<noteq> et \<and> tension mv \<noteq> 0 \<and> g 5 \<noteq> 1 / 2 \<longrightarrow> mdb' \<noteq> mdb"
  proof (intro impI notI)
    assume a: "vt \<noteq> et \<and> tension mv \<noteq> 0 \<and> g 5 \<noteq> 1 / 2" and same: "mdb' = mdb"
    from ne a have "map_of mdb' (''cow_'' @ vt) = Some (mv\<lparr>tension := tension mv * f_v\<rparr>)" by simp
    with same mv have "mv\<lparr>tension := tension mv * f_v\<rparr> = mv" by simp
    then have "tension (mv\<lparr>tension := tension mv * f_v\<rparr>) = tension mv" by simp
    then have "tension mv * f_v = tension mv" by simp
    with a have "f_v = 1" by simp
    with a show False by (simp add: f_v_def)
  qed
  show ?thesis
    apply (rule exI[of _ res], rule exI[of _ mdb'], rule exI[of _ f_v], rule exI[of _ f_e])
    using res refs bv be keys other ne eq chg f_v_def f_e_def by blast
qed

theorem create_chenda_mutates_shared_membranes_witness:
  "map_of WOOD_DATABASE ''jackwood'' = Some jackwood
   \<and> map_of MEMBRANE_DATABASE (''cow_'' @ ''high'') = Some cow_high
   \<and> map_of MEMBRANE_DATABASE (''cow_'' @ ''medium'') = Some cow_medium
   \<and> (\<forall>n::nat. (0::real) \<le> (\<lambda>_. 1 / 4) n \<and> (\<lambda>_. 1 / 4 :: real) n < 1)
   \<and> (\<exists>res mdb'. create_chenda ''P1_chenda'' ''jackwood'' ''high'' ''medium'' ''bamboo_medium''
                      ''bamboo_heavy'' 0.08 MEMBRANE_DATABASE (\<lambda>_. 1 / 4) = (res, mdb', \<lambda>_. 1 / 4)
        \<and> map_of mdb' ''cow_high'' = Some (cow_high\<lparr>tension := 0.85 * 0.975\<rparr>)
        \<and> map_of mdb' ''cow_medium'' = Some (cow_medium\<lparr>tension := 0.65 * 0.975\<rparr>)
        \<and> mdb' \<noteq> MEMBRANE_DATABASE)"
proof -
  have h1: "map_of WOOD_DATABASE ''jackwood'' = Some jackwood"
    by (simp add: WOOD_DATABASE_def jackwood_def)
  have h2: "map_of MEMBRANE_DATABASE (''cow_'' @ ''high'') = Some cow_high"
    by (simp add: MEMBRANE_DATABASE_def cow_high_def)
  have h3: "map_of MEMBRANE_DATABASE (''cow_'' @ ''medium'') = Some cow_medium"
    by (simp add: MEMBRANE_DATABASE_def cow_medium_def)
  have h4: "\<forall>n::nat. (0::real) \<le> (\<lambda>_. 1 / 4) n \<and> (\<lambda>_. 1 / 4 :: real) n < 1" by simp
  from create_chenda_mutates_shared_membranes [OF h1 h2 h3 h4,
      of "''P1_chenda''" "''bamboo_medium''" "''bamboo_heavy''" "0.08"]
  obtain res mdb' where
    c: "create_chenda ''P1_chenda'' ''jackwood'' ''high'' ''medium'' ''bamboo_medium''
          ''bamboo_heavy'' 0.08 MEMBRANE_DATABASE (\<lambda>_. 1 / 4) = (res, mdb', \<lambda>_. 1 / 4)"
    and v: "map_of mdb' (''cow_'' @ ''high'')
              = Some (cow_high\<lparr>tension := tension cow_high * (0.95 + (1.05 - 0.95) * (1 / 4))\<rparr>)"
    and e: "map_of mdb' (''cow_'' @ ''medium'')
              = Some (cow_medium\<lparr>tension := tension cow_medium * (0.95 + (1.05 - 0.95) * (1 / 4))\<rparr>)"
    and n: "tension cow_high \<noteq> 0 \<longrightarrow> mdb' \<noteq> MEMBRANE_DATABASE"
    by auto
  have "map_of mdb' ''cow_high'' = Some (cow_high\<lparr>tension := 0.85 * 0.975\<rparr>)"
    using v by (simp add: cow_high_def)
  moreover have "map_of mdb' ''cow_medium'' = Some (cow_medium\<lparr>tension := 0.65 * 0.975\<rparr>)"
    using e by (simp add: cow_medium_def)
  moreover have "mdb' \<noteq> MEMBRANE_DATABASE" using n by (simp add: cow_high_def)
  ultimately show ?thesis using h1 h2 h3 h4 c
    by (intro conjI exI[of _ res] exI[of _ mdb'])
qed

text \<open>
  After one build of the standard ensemble the database has changed, and the lead and
  the accent player hold the same valam membrane, whose tension carries both factors.
\<close>

lemma standard_build_changes_and_shares:
  "build_standard_melam MEMBRANE_DATABASE (\<lambda>_. 1 / 4) = (Inr melam, melam_db, \<lambda>_. 1 / 4)"
  "melam_db \<noteq> MEMBRANE_DATABASE"
  "\<exists>c1 c3. instrument melam_P1 = Chenda c1 \<and> instrument melam_P3 = Chenda c3
      \<and> membrane_valam c1 = membrane_valam c3
      \<and> map_option tension (map_of melam_db (membrane_valam c1)) = Some (0.85 * 0.975 * 0.975)"
    apply (rule build_standard_melam_quarter)
   apply (simp add: melam_db_def MEMBRANE_DATABASE_def)
  apply (simp add: melam_db_def player_defs)
  done

section \<open>The spectral engine\<close>

subsection \<open>Lengths and the peak\<close>

lemma oscillator_loop_length:
  "length (oscillator_loop ts om dc tm af ds i outs) = length outs"
  by (induction outs arbitrary: i) (simp_all add: Let_def)

lemma add_partial_length: "length (add_partial ts outp p) = length outp"
  by (cases p) (simp add: add_partial_def Let_def oscillator_loop_length)

lemma foldl_add_partial_length:
  "length (foldl (add_partial ts) outp parts) = length outp"
  by (induction parts arbitrary: outp) (simp_all add: add_partial_length)

lemma synthesize_additive_returns:
  assumes "0 \<le> py_int (dur * real_of_int sr)" "sr \<noteq> 0"
  shows "\<exists>out. synthesize_additive parts dur sr vel = Inr out
           \<and> length out = nat (py_int (dur * real_of_int sr))"
  using assms
  by (auto simp: synthesize_additive_def Let_def foldl_add_partial_length)

lemma shift_layer_length:
  "length layer = n \<Longrightarrow> length (shift_layer t sr n layer) = n"
  by (auto simp: shift_layer_def Let_def)

lemma candidates_in_db:
  "k \<in> set (map fst [(k, v) \<leftarrow> d. P v]) \<Longrightarrow> \<exists>v. map_of d k = Some v"
  by (induction d) (auto split: if_splits)

lemma normal_returns: "0 \<le> sigma \<Longrightarrow> \<exists>x g'. normal mu sigma g = Inr (x, g')"
  by (simp add: normal_def draw_def)

lemma choice_returns: "xs \<noteq> [] \<Longrightarrow> \<exists>x g'. choice xs g = Inr (x, g') \<and> x \<in> set xs"
  by (auto simp: choice_def draw_def rand_index_def min_def)

lemma render_layer_returns:
  assumes c: "candidates \<noteq> []" "\<forall>k \<in> set candidates. \<exists>v. map_of (db eng) k = Some v"
    and sr: "engine_sample_rate eng \<noteq> 0"
    and n: "0 \<le> py_int (dur * real_of_int (engine_sample_rate eng))"
  shows "\<exists>layer g'. render_layer eng candidates (Some v) dur g = Inr (layer, g')
           \<and> length layer = nat (py_int (dur * real_of_int (engine_sample_rate eng)))"
proof -
  from choice_returns[OF c(1)] obtain sid g1 where
    ch: "choice candidates g = Inr (sid, g1)" and sid: "sid \<in> set candidates" by blast
  from c(2) sid obtain data where d: "dict_lookup (db eng) sid = Inr data"
    by (auto simp: dict_lookup_def)
  have "(0::real) \<le> 0.015" by simp
  from normal_returns[OF this, of 0 g1] obtain dz g2 where
    n1: "normal 0 0.015 g1 = Inr (dz, g2)" by blast
  have "(0::real) \<le> 0.008" by simp
  from normal_returns[OF this, of 0 g2] obtain toff g3 where
    n2: "normal 0 0.008 g2 = Inr (toff, g3)" by blast
  obtain jit g4 where u: "uniform 0.9 1.1 g3 = (jit, g4)" by (cases "uniform 0.9 1.1 g3")
  from synthesize_additive_returns[OF n sr] obtain layer where
    s: "synthesize_additive (map (\<lambda>(f, a, d). (f * (1.0 + dz), a * (1.0 + dz), d * (1.0 + dz))) (partials data))
          dur (engine_sample_rate eng) (v * jit) = Inr layer"
    and l: "length layer = nat (py_int (dur * real_of_int (engine_sample_rate eng)))" by blast
  show ?thesis
    using ch d n1 n2 u s l
    by (simp add: render_layer_def Let_def shift_layer_length)
qed

lemma render_layers_returns:
  assumes c: "candidates \<noteq> []" "\<forall>k \<in> set candidates. \<exists>v. map_of (db eng) k = Some v"
    and sr: "engine_sample_rate eng \<noteq> 0"
    and n: "0 \<le> py_int (dur * real_of_int (engine_sample_rate eng))"
  shows "\<exists>layers g'. render_layers eng candidates (Some v) dur k g = Inr (layers, g')
           \<and> (\<forall>l \<in> set layers. length l = nat (py_int (dur * real_of_int (engine_sample_rate eng))))"
proof (induction k arbitrary: g)
  case 0
  then show ?case by simp
next
  case (Suc k)
  from render_layer_returns[OF c sr n, of v g] obtain layer g1 where
    "render_layer eng candidates (Some v) dur g = Inr (layer, g1)"
    "length layer = nat (py_int (dur * real_of_int (engine_sample_rate eng)))" by blast
  moreover from Suc[of g1] obtain layers g2 where
    "render_layers eng candidates (Some v) dur k g1 = Inr (layers, g2)"
    "\<forall>l \<in> set layers. length l = nat (py_int (dur * real_of_int (engine_sample_rate eng)))" by blast
  ultimately show ?case by simp
qed

lemma sum_layers_length:
  "length acc = n \<Longrightarrow>
   length (foldl (\<lambda>acc layer. if length layer = n then map2 (+) acc layer else acc) acc layers) = n"
  by (induction layers arbitrary: acc) auto

lemma foldl_max_ge: "(m::real) \<le> foldl max m xs"
proof (induction xs arbitrary: m)
  case Nil
  then show ?case by simp
next
  case (Cons x xs)
  have "m \<le> max m x" by simp
  also have "\<dots> \<le> foldl max (max m x) xs" by (rule Cons)
  finally show ?case by simp
qed

lemma foldl_max_upper: "x \<in> set xs \<Longrightarrow> (x::real) \<le> foldl max m xs"
proof (induction xs arbitrary: m)
  case Nil
  then show ?case by simp
next
  case (Cons y ys)
  show ?case
  proof (cases "x = y")
    case True
    have "x \<le> max m y" using True by simp
    also have "\<dots> \<le> foldl max (max m y) ys" by (rule foldl_max_ge)
    finally show ?thesis by simp
  next
    case False
    with Cons show ?thesis by simp
  qed
qed

lemma np_max_upper:
  "np_max xs = Inr m \<Longrightarrow> x \<in> set xs \<Longrightarrow> x \<le> m"
  by (cases xs) (auto simp: np_max_def foldl_max_upper intro: foldl_max_ge)

lemma np_max_returns: "xs \<noteq> [] \<Longrightarrow> \<exists>m. np_max xs = Inr m"
  by (cases xs) (auto simp: np_max_def)

lemma py_int_round:
  assumes "0 \<le> x"
  shows "\<bar>py_int x - py_round x\<bar> \<le> 1"
  using assms by (auto simp: py_int_def py_round_def)

lemma get_sound_length_and_peak:
  assumes sr: "engine_sample_rate eng = 44100"
    and c: "map fst [(k, s) \<leftarrow> db eng. cat s = category] \<noteq> []"
    and d: "1 \<le> dur * 44100"
  shows "\<exists>buf g'. get_sound eng category (Some v) dur g = Inr (buf, g')
           \<and> int (length buf) = py_int (dur * 44100)
           \<and> \<bar>int (length buf) - py_round (dur * 44100)\<bar> \<le> 1
           \<and> (\<forall>x \<in> set buf. \<bar>x\<bar> \<le> \<bar>v\<bar>)"
proof -
  define n where "n = nat (py_int (dur * 44100))"
  have pos: "1 \<le> py_int (dur * 44100)" using d by (simp add: py_int_def le_floor_iff)
  then have n0: "0 \<le> py_int (dur * real_of_int (engine_sample_rate eng))" by (simp add: sr)
  have sr0: "engine_sample_rate eng \<noteq> 0" by (simp add: sr)
  have cdb: "\<forall>k \<in> set (map fst [(k, s) \<leftarrow> db eng. cat s = category]). \<exists>v. map_of (db eng) k = Some v"
    using candidates_in_db by fast
  from render_layers_returns[OF c cdb sr0 n0, of v 4 g] obtain layers g1 where
    r: "render_layers eng (map fst [(k, s) \<leftarrow> db eng. cat s = category]) (Some v) dur 4 g
          = Inr (layers, g1)" by (auto simp: sr)
  define ens where "ens = foldl (\<lambda>acc layer. if length layer = n then map2 (+) acc layer else acc)
                           (replicate n 0.0) layers"
  have len: "length ens = n" unfolding ens_def by (rule sum_layers_length) simp
  have npos: "0 < n" using pos by (simp add: n_def)
  with len have "map abs ens \<noteq> []" by auto
  from np_max_returns[OF this] obtain m where m: "np_max (map abs ens) = Inr m" by blast
  have ub: "\<And>x. x \<in> set ens \<Longrightarrow> \<bar>x\<bar> \<le> m" using np_max_upper[OF m] by auto
  have gs: "get_sound eng category (Some v) dur g
              = (if m > 0 then Inr (map (\<lambda>x. x / m * v) ens, g1) else Inr (ens, g1))"
    using c r m by (simp add: get_sound_def Let_def sr n_def ens_def)
  have rd: "\<bar>py_int (dur * 44100) - py_round (dur * 44100)\<bar> \<le> 1"
    using d by (intro py_int_round) simp
  show ?thesis
  proof (cases "m > 0")
    case True
    have "\<bar>x / m * v\<bar> \<le> \<bar>v\<bar>" if "x \<in> set ens" for x
    proof -
      have "\<bar>x\<bar> / m \<le> 1" using ub[OF that] True by simp
      then have "\<bar>x\<bar> / m * \<bar>v\<bar> \<le> 1 * \<bar>v\<bar>" by (intro mult_right_mono) auto
      then show ?thesis using True by (simp add: abs_mult)
    qed
    with gs True len pos rd show ?thesis by (auto simp: n_def)
  next
    case False
    have "\<bar>x\<bar> \<le> \<bar>v\<bar>" if "x \<in> set ens" for x using ub[OF that] False by simp
    with gs False len pos rd show ?thesis by (auto simp: n_def)
  qed
qed


lemma get_sound_no_variants:
  assumes "map fst [(k, s) \<leftarrow> db eng. cat s = category] = []"
  shows "get_sound eng category vel dur g
           = (if py_int (dur * real_of_int (engine_sample_rate eng)) < 0 then Inl ValueError
              else Inr (replicate (nat (py_int (dur * real_of_int (engine_sample_rate eng)))) 0, g))"
  using assms by (simp add: get_sound_def Let_def)

lemma get_sound_zero_length_raises:
  assumes sr: "engine_sample_rate eng = 44100"
    and c: "map fst [(k, s) \<leftarrow> db eng. cat s = category] \<noteq> []"
    and d: "py_int (dur * 44100) = 0"
  shows "get_sound eng category (Some v) dur g = Inl ValueError"
proof -
  have n0: "0 \<le> py_int (dur * real_of_int (engine_sample_rate eng))" by (simp add: sr d)
  have sr0: "engine_sample_rate eng \<noteq> 0" by (simp add: sr)
  have cdb: "\<forall>k \<in> set (map fst [(k, s) \<leftarrow> db eng. cat s = category]). \<exists>v. map_of (db eng) k = Some v"
    using candidates_in_db by fast
  from render_layers_returns[OF c cdb sr0 n0, of v 4 g] obtain layers g1 where
    r: "render_layers eng (map fst [(k, s) \<leftarrow> db eng. cat s = category]) (Some v) dur 4 g
          = Inr (layers, g1)" by (auto simp: sr)
  have "length (foldl (\<lambda>acc layer. if length layer = 0 then map2 (+) acc layer else acc)
                  (replicate 0 (0.0::real)) layers) = 0"
    by (rule sum_layers_length) simp
  then have e: "foldl (\<lambda>acc layer. if length layer = 0 then map2 (+) acc layer else acc)
                  [] layers = ([]::real list)" by simp
  show ?thesis using c r e
    by (simp add: get_sound_def Let_def sr d np_max_def del: length_0_conv)
qed

lemma render_layer_negative_raises:
  assumes c: "candidates \<noteq> []" "\<forall>k \<in> set candidates. \<exists>v. map_of (db eng) k = Some v"
    and n: "py_int (dur * real_of_int (engine_sample_rate eng)) < 0"
  shows "render_layer eng candidates (Some v) dur g = Inl ValueError"
proof -
  from choice_returns[OF c(1)] obtain sid g1 where
    ch: "choice candidates g = Inr (sid, g1)" and sid: "sid \<in> set candidates" by blast
  from c(2) sid obtain data where d: "dict_lookup (db eng) sid = Inr data"
    by (auto simp: dict_lookup_def)
  have "(0::real) \<le> 0.015" by simp
  from normal_returns[OF this, of 0 g1] obtain dz g2 where
    n1: "normal 0 0.015 g1 = Inr (dz, g2)" by blast
  have "(0::real) \<le> 0.008" by simp
  from normal_returns[OF this, of 0 g2] obtain toff g3 where
    n2: "normal 0 0.008 g2 = Inr (toff, g3)" by blast
  obtain jit g4 where u: "uniform 0.9 1.1 g3 = (jit, g4)" by (cases "uniform 0.9 1.1 g3")
  have s: "synthesize_additive ps dur (engine_sample_rate eng) x = Inl ValueError" for ps x
    using n by (simp add: synthesize_additive_def Let_def)
  show ?thesis using ch d n1 n2 u s by (simp add: render_layer_def Let_def)
qed

lemma get_sound_negative_raises:
  assumes n: "py_int (dur * real_of_int (engine_sample_rate eng)) < 0"
  shows "get_sound eng category (Some v) dur g = Inl ValueError"
proof (cases "map fst [(k, s) \<leftarrow> db eng. cat s = category] = []")
  case True
  with n show ?thesis by (simp add: get_sound_no_variants)
next
  case False
  have cdb: "\<forall>k \<in> set (map fst [(k, s) \<leftarrow> db eng. cat s = category]). \<exists>v. map_of (db eng) k = Some v"
    using candidates_in_db by fast
  from render_layer_negative_raises[OF False cdb n]
  have "render_layers eng (map fst [(k, s) \<leftarrow> db eng. cat s = category]) (Some v) dur 4 g
          = Inl ValueError"
    by (simp add: eval_nat_numeral)
  with False show ?thesis by (simp add: get_sound_def Let_def)
qed

subsection \<open>The engine on a concrete database\<close>

lemma oscillator_loop_two:
  assumes af: "0.00001 \<le> af" and ds: "1 \<le> ds" and e: "0.00001 \<le> exp (dc * ts) * af"
  shows "oscillator_loop ts om dc 0 af ds 0 [a, b]
           = [a, b + sin (om * ts) * (exp (dc * ts) * af * ds)]"
proof -
  have c0: "(0::real) \<le> 0.00001" by simp
  have af0: "0 \<le> af" by (rule order_trans[OF c0 af])
  have "af * 1 \<le> af * ds" using af0 ds by (intro mult_left_mono) auto
  then have "af \<le> af * ds" by simp
  from order_trans[OF af this] have 0: "\<not> af * ds < 0.00001" by (rule leD)
  have "0 \<le> exp (dc * ts) * af" by (rule order_trans[OF c0 e])
  then have "(exp (dc * ts) * af) * 1 \<le> (exp (dc * ts) * af) * ds"
    using ds by (intro mult_left_mono) auto
  then have "exp (dc * ts) * af \<le> exp (dc * ts) * af * ds" by simp
  from order_trans[OF e this] have 1: "\<not> exp (dc * ts) * af * ds < 0.00001" by (rule leD)
  have s0: "oscillator_loop ts om dc 0 af ds 0 [a, b]
              = a # oscillator_loop ts om dc 0 af ds (Suc 0) [b]"
    using 0 by (simp add: Let_def)
  have s1: "oscillator_loop ts om dc 0 af ds (Suc 0) [b]
              = [b + sin (om * ts) * (exp (dc * ts) * af * ds)]"
    using 1 by (simp add: Let_def)
  show ?thesis by (simp only: s0 s1)
qed

lemma exp_small: "0.9 \<le> exp (- (5::real) / 44100)"
proof -
  have "1 + (- 5 / 44100) \<le> exp (- (5::real) / 44100)" by (rule exp_ge_add_one_self)
  then show ?thesis by simp
qed

lemma add_partial_demo:
  "\<exists>s. 0 < s \<and> add_partial (1 / 44100) [0, 0] demo_partial = [0, s]"
proof -
  define om :: real where "om = 2.0 * pi * (100 * (1.0 + (100 * 0.00005)))"
  define ds :: real where "ds = 1.0 + 0.1 * \<bar>sin (om * 0.002)\<bar>"
  define dc :: real where "dc = -5.0 * 1"
  define af :: real where "af = 1 * freq_factor 100"
  define ts :: real where "ts = 1 / 44100"
  have ds: "1 \<le> ds" by (simp add: ds_def)
  have afv: "af = 1.2" by (simp add: af_def freq_factor_def)
  have af: "0.00001 \<le> af" by (simp add: afv)
  have "dc * ts = - 5 / 44100" by (simp add: dc_def ts_def)
  with exp_small have ex: "0.9 \<le> exp (dc * ts)" by simp
  then have "0.9 * 1.2 \<le> exp (dc * ts) * af" unfolding afv by (intro mult_mono) auto
  then have e: "0.00001 \<le> exp (dc * ts) * af" by simp
  have "add_partial ts [0, 0] demo_partial = oscillator_loop ts om dc 0 af ds 0 [0, 0]"
    by (simp add: add_partial_def demo_partial_def Let_def om_def ds_def dc_def af_def)
  also have "\<dots> = [0, 0 + sin (om * ts) * (exp (dc * ts) * af * ds)]"
    by (rule oscillator_loop_two[OF af ds e])
  finally have eq: "add_partial ts [0, 0] demo_partial
                      = [0, sin (om * ts) * (exp (dc * ts) * af * ds)]" by simp
  have omts: "om * ts = pi * (201 / 44100)" by (simp add: om_def ts_def)
  have "0 < pi * (201 / 44100)" by simp
  moreover have "pi * (201 / 44100) < pi * 1" by (intro mult_strict_left_mono) auto
  then have "pi * (201 / 44100) < pi" by simp
  ultimately have "0 < sin (pi * (201 / 44100))" by (rule sin_gt_zero)
  then have "0 < sin (om * ts)" by (simp only: omts)
  moreover have "0 < exp (dc * ts) * af * ds"
    using ds by (simp add: afv)
  ultimately have "0 < sin (om * ts) * (exp (dc * ts) * af * ds)"
    by (rule mult_pos_pos)
  with eq show ?thesis unfolding ts_def by blast
qed

lemma synthesize_additive_demo:
  "synthesize_additive [demo_partial] two_samples 44100 vel = Inr [0, vel]"
proof -
  from add_partial_demo obtain s where s: "0 < s"
    and a: "add_partial (1 / 44100) [0, 0] demo_partial = [0, s]" by blast
  show ?thesis using s a
    by (simp add: synthesize_additive_def py_int_def Let_def abs_max_def eval_nat_numeral
        two_samples_def)
qed


lemma choice_const_single [simp]: "choice [x] (\<lambda>_. c) = Inr (x, \<lambda>_. c)"
  by (simp add: choice_def draw_def rand_index_def)

lemma two_samples_int [simp]: "py_int (two_samples * 44100) = 2"
  by (simp add: two_samples_def py_int_def)

lemma render_layer_demo:
  "render_layer demo_engine [''nam_001''] (Some v) two_samples (\<lambda>_. 0)
     = Inr ([0, v * 0.9], \<lambda>_. 0)"
proof -
  have m: "map (\<lambda>(f, a, d). (f * (1.0 + 0.015 * 0), a * (1.0 + 0.015 * 0), d * (1.0 + 0.015 * 0)))
             [demo_partial] = [demo_partial]"
    by (simp add: demo_partial_def)
  show ?thesis
    using m synthesize_additive_demo[of "v * 0.9"]
    by (simp add: render_layer_def demo_engine_def dict_lookup_def Let_def shift_layer_def)
qed

lemma get_sound_demo:
  "0 < v \<Longrightarrow> get_sound demo_engine ''NAM'' (Some v) two_samples (\<lambda>_. 0) = Inr ([0, v], \<lambda>_. 0)"
proof -
  assume v: "0 < v"
  have c: "map fst [(k, s) \<leftarrow> db demo_engine. cat s = ''NAM''] = [''nam_001'']"
    by (simp add: demo_engine_def)
  have l: "render_layers demo_engine [''nam_001''] (Some v) two_samples 4 (\<lambda>_. 0)
            = Inr ([[0, v * 0.9], [0, v * 0.9], [0, v * 0.9], [0, v * 0.9]], \<lambda>_. 0)"
    by (simp add: eval_nat_numeral render_layer_demo)
  have n: "engine_sample_rate demo_engine = 44100"
    by (simp add: demo_engine_def)
  show ?thesis using v
    by (simp add: get_sound_def Let_def c n np_max_def eval_nat_numeral render_layer_demo)
qed


subsection \<open>The claims on \<open>get_sound\<close>\<close>

text \<open>
  C1 at the failing input: for a positive duration below one sample and a category that
  has a variant, \<open>get_sound\<close> raises ValueError (\<open>np.max\<close> of the empty ensemble
  buffer) and returns no buffer, while for a category without variants the same call
  returns the empty buffer.
\<close>

theorem get_sound_short_duration_raises:
  "get_sound demo_engine ''NAM'' (Some v) (1 / 100000) g = Inl ValueError
   \<and> get_sound demo_engine ''THAAM'' (Some v) (1 / 100000) g = Inr ([], g)"
proof -
  have sr: "engine_sample_rate demo_engine = 44100" by (simp add: demo_engine_def)
  have c: "map fst [(k, s) \<leftarrow> db demo_engine. cat s = ''NAM''] \<noteq> []"
    by (simp add: demo_engine_def)
  have d: "py_int (1 / 100000 * 44100) = 0" by (simp add: py_int_def)
  have n: "map fst [(k, s) \<leftarrow> db demo_engine. cat s = ''THAAM''] = []"
    by (simp add: demo_engine_def)
  from get_sound_zero_length_raises[OF sr c d]
  have 1: "get_sound demo_engine ''NAM'' (Some v) (1 / 100000) g = Inl ValueError" .
  from get_sound_no_variants[OF n]
  have 2: "get_sound demo_engine ''THAAM'' (Some v) (1 / 100000) g = Inr ([], g)"
    by (simp add: sr py_int_def)
  from 1 2 show ?thesis ..
qed

text \<open>
  C8 fails at a negative duration: for a category without variants and the duration -1
  \<open>get_sound\<close> raises ValueError (\<open>np.zeros\<close> of a negative size).
\<close>

theorem get_sound_negative_duration_counterexample:
  "get_sound demo_engine ''UNKNOWN'' (Some 1) (- 1) (\<lambda>_. 0) = Inl ValueError"
proof -
  have "py_int (- 1 * real_of_int (engine_sample_rate demo_engine)) < 0"
    by (simp add: demo_engine_def py_int_def)
  from get_sound_negative_raises[OF this] show ?thesis .
qed

text \<open>
  C8, amended: at 44100 Hz, for every velocity and every category without variants,
  \<open>get_sound\<close> returns the all-zero buffer of \<open>int(duration * 44100)\<close> samples for every
  duration above -1/44100, which is the empty buffer for every such duration up to 0;
  for a duration of -1/44100 or less it raises ValueError, whatever the category.
\<close>

theorem get_sound_unknown_category_and_duration:
  assumes "engine_sample_rate eng = 44100"
  shows "(map fst [(k, s) \<leftarrow> db eng. cat s = category] = [] \<and> - 1 < dur * 44100 \<longrightarrow>
            get_sound eng category vel dur g
              = Inr (replicate (nat (py_int (dur * 44100))) 0, g))
       \<and> (map fst [(k, s) \<leftarrow> db eng. cat s = category] = [] \<and> - 1 < dur * 44100 \<and> dur \<le> 0 \<longrightarrow>
            get_sound eng category vel dur g = Inr ([], g))
       \<and> (dur * 44100 \<le> - 1 \<longrightarrow> get_sound eng category (Some v) dur g = Inl ValueError)"
proof -
  have p: "0 \<le> py_int (dur * 44100)" if "- 1 < dur * 44100"
    using that by (auto simp: py_int_def less_ceiling_iff)
  have z: "py_int (dur * 44100) \<le> 0" if "dur \<le> 0"
    using that by (auto simp: py_int_def ceiling_le_iff floor_le_iff mult_le_0_iff)
  have n: "py_int (dur * 44100) < 0" if "dur * 44100 \<le> - 1"
    using that by (auto simp: py_int_def ceiling_less_iff)
  have 1: "get_sound eng category vel dur g
              = Inr (replicate (nat (py_int (dur * 44100))) 0, g)"
    if "map fst [(k, s) \<leftarrow> db eng. cat s = category] = []" "- 1 < dur * 44100"
    using get_sound_no_variants[OF that(1)] p[OF that(2)] by (simp add: assms)
  have 2: "get_sound eng category vel dur g = Inr ([], g)"
    if "map fst [(k, s) \<leftarrow> db eng. cat s = category] = []" "- 1 < dur * 44100" "dur \<le> 0"
    using 1[OF that(1,2)] z[OF that(3)] by simp
  have 3: "get_sound eng category (Some v) dur g = Inl ValueError" if "dur * 44100 \<le> - 1"
    using get_sound_negative_raises[of dur eng] n[OF that] by (simp add: assms)
  from 1 2 3 show ?thesis by blast
qed

theorem get_sound_unknown_category_and_duration_witness:
  "engine_sample_rate demo_engine = 44100
   \<and> map fst [(k, s) \<leftarrow> db demo_engine. cat s = ''UNKNOWN''] = []
   \<and> get_sound demo_engine ''UNKNOWN'' None (3 / 44100) (\<lambda>_. 0) = Inr ([0, 0, 0], \<lambda>_. 0)
   \<and> get_sound demo_engine ''UNKNOWN'' None 0 (\<lambda>_. 0) = Inr ([], \<lambda>_. 0)
   \<and> get_sound demo_engine ''NAM'' (Some 1) (- 2) (\<lambda>_. 0) = Inl ValueError"
proof -
  have h: "engine_sample_rate demo_engine = 44100" by (simp add: demo_engine_def)
  have c: "map fst [(k, s) \<leftarrow> db demo_engine. cat s = ''UNKNOWN''] = []"
    by (simp add: demo_engine_def)
  note t = get_sound_unknown_category_and_duration [OF h]
  have i3: "py_int (3 / 44100 * 44100) = 3" by (simp add: py_int_def)
  have 1: "get_sound demo_engine ''UNKNOWN'' None (3 / 44100) (\<lambda>_. 0) = Inr ([0, 0, 0], \<lambda>_. 0)"
    using t[of "''UNKNOWN''" "3 / 44100" None "\<lambda>_. 0"] c i3
    by (simp add: eval_nat_numeral)
  have 2: "get_sound demo_engine ''UNKNOWN'' None 0 (\<lambda>_. 0) = Inr ([], \<lambda>_. 0)"
    using t[of "''UNKNOWN''" 0 None "\<lambda>_. 0"] c by (simp add: py_int_def)
  have 3: "get_sound demo_engine ''NAM'' (Some 1) (- 2) (\<lambda>_. 0) = Inl ValueError"
    using t[of "''NAM''" "- 2" None "\<lambda>_. 0" 1] by simp
  from h c 1 2 3 show ?thesis by blast
qed

section \<open>The mixer\<close>

subsection \<open>Sample arithmetic and the demonstration render\<close>

lemma fsample_arith [simp]:
  "Fin a + Fin b = Fin (a + b)" "Fin a * Fin b = Fin (a * b)"
  "NaN + x = NaN" "x + NaN = NaN" "NaN * x = NaN" "x * NaN = NaN"
  by (auto simp: plus_fsample_def times_fsample_def split: fsample.splits)

lemma tanh_six_tenths: "tanh (6 / 10 :: real) \<le> 98 / 100" "0 < tanh (6 / 10 :: real)"
proof -
  have "exp (12 / 10 :: real) \<le> exp 2" by simp
  also have "exp (2::real) = exp 1 * exp 1" by (simp flip: exp_add)
  also have "\<dots> \<le> 3 * 3" by (intro mult_mono exp_le) auto
  finally have e: "exp (12 / 10 :: real) \<le> 9" by simp
  have "exp (- 2 * (6 / 10 :: real)) = inverse (exp (12 / 10))" by (simp add: exp_minus)
  also have "\<dots> \<ge> inverse 9" using e by (intro le_imp_inverse_le) auto
  finally have l: "1 / 9 \<le> exp (- 2 * (6 / 10 :: real))" by simp
  have p: "0 < 1 + exp (- 2 * (6 / 10 :: real))" by (simp add: add_pos_pos)
  have "1 - exp (- 2 * (6 / 10 :: real)) \<le> 98 / 100 * (1 + exp (- 2 * (6 / 10 :: real)))"
    using l by simp
  then have "(1 - exp (- 2 * (6 / 10 :: real))) / (1 + exp (- 2 * (6 / 10 :: real))) \<le> 98 / 100"
    using p by (simp add: pos_divide_le_eq)
  then show "tanh (6 / 10 :: real) \<le> 98 / 100" by (simp only: tanh_real_altdef)
  show "0 < tanh (6 / 10 :: real)" by simp
qed

lemma tanh_half: "tanh (1 / 2 :: real) < tanh (6 / 10)" "0 < tanh (1 / 2 :: real)"
  by (simp_all add: tanh_real_less_iff)

lemma mixer_sample_rate_demo [simp]: "mixer_sample_rate demo_mixer = 44100"
  by (simp add: demo_mixer_def)

lemma py_int_0 [simp]: "py_int 0 = 0"
  by (simp add: py_int_def)

lemma track_demo:
  "render_player_track bp demo_mixer mdb melam_P4 [cymbal_hit] two_samples demo_engine (\<lambda>_. 0)
     = Inr ([Fin 0, Fin (1 / 2)], \<lambda>_. 0)"
proof -
  have g: "get_sound demo_engine ''NAM'' (Some (1 / 2)) two_samples (\<lambda>_. 0)
             = Inr ([0, 1 / 2], \<lambda>_. 0)"
    by (rule get_sound_demo) simp
  show ?thesis
    by (simp add: render_player_track_def demo_mixer_def Let_def cymbal_hit_def player_defs
        synthesize_cymbal_strike_def g place_sound_def zeros_def vadd_def eval_nat_numeral)
qed

lemma peak_demo: "peak [Fin 0, Fin (1 / 2)] = Inr (Fin (1 / 2))"
  by (simp add: peak_def)

lemma master_mono_demo:
  "master_mono [Fin 0, Fin (1 / 2)] = Inr (Mono [Fin 0, Fin (tanh (6 / 10))])"
proof -
  have m: "max 0 \<bar>tanh (3 / 5 :: real)\<bar> = tanh (3 / 5)" by simp
  have n: "\<not> 49 < tanh (3 / 5 :: real) * 50" using tanh_six_tenths(1) by simp
  show ?thesis
    using m n by (simp add: master_mono_def peak_def fgt_def scale_def fmap_def)
qed

lemma master_mono_silence: "master_mono [Fin 0, Fin 0] = Inr (Mono [Fin 0, Fin 0])"
  by (simp add: master_mono_def peak_def fgt_def)

lemma all_events_demo: "get_all_player_events demo_pattern = [(''P4'', [cymbal_hit])]"
  by (simp add: get_all_player_events_def dict_update_all_def demo_pattern_def)

lemma mix_demo:
  "mix_loop bp demo_mixer mdb melam demo_engine two_samples False False
     [(''P4'', [cymbal_hit])] (Mono [Fin 0, Fin 0]) [] (\<lambda>_. 0)
     = Inr ((Mono [Fin 0, Fin (1 / 2)], []), \<lambda>_. 0)"
proof -
  have p: "get_player melam ''P4'' = Some melam_P4"
    by (simp add: get_player_def melam_def)
  have f: "\<not> mute melam_P4" "\<not> solo melam_P4" "gain melam_P4 = 1"
    by (simp_all add: player_defs)
  show ?thesis
    by (simp add: p f track_demo vadd_def scale_def Let_def)
qed

lemma render_demo:
  assumes "get_player ens ''P4'' = Some melam_P4"
    and "\<not> solo_active ens [(''P4'', [cymbal_hit])]"
  shows "render_ensemble bp demo_mixer mdb ens demo_pattern two_samples demo_engine
           False False (\<lambda>_. 0) = Inr ((Mono [Fin 0, Fin (tanh (6 / 10))], []), \<lambda>_. 0)"
proof -
  have f: "\<not> mute melam_P4" "\<not> solo melam_P4" "gain melam_P4 = 1"
    by (simp_all add: player_defs)
  show ?thesis
    by (simp add: render_ensemble_def demo_mixer_def[symmetric] all_events_demo assms f
        track_demo zeros_def vadd_def scale_def master_mono_demo Let_def eval_nat_numeral
        mixer_sample_rate_demo)
qed

subsection \<open>Solo\<close>

lemma restrict_dict_update:
  "restrict_dict pid (AList.update k v d)
     = (if k = pid then AList.update k v (restrict_dict pid d) else restrict_dict pid d)"
  by (induction d) (auto simp: restrict_dict_def)

lemma restrict_dict_update_all:
  "restrict_dict pid (dict_update_all d other)
     = dict_update_all (restrict_dict pid d) (restrict_dict pid other)"
proof -
  have "restrict_dict pid (foldl (\<lambda>acc (k, v). AList.update k v acc) d other)
          = foldl (\<lambda>acc (k, v). AList.update k v acc) (restrict_dict pid d)
              (restrict_dict pid other)"
  proof (induction other arbitrary: d)
    case Nil
    then show ?case by (simp add: restrict_dict_def)
  next
    case (Cons kv other)
    obtain k v where kv: "kv = (k, v)" by (cases kv)
    show ?case
    proof (cases "k = pid")
      case True
      have "restrict_dict pid (kv # other) = (k, v) # restrict_dict pid other"
        using True by (simp add: restrict_dict_def kv)
      then show ?thesis using Cons[of "AList.update k v d"] True
        by (simp add: kv restrict_dict_update)
    next
      case False
      have "restrict_dict pid (kv # other) = restrict_dict pid other"
        using False by (simp add: restrict_dict_def kv)
      then show ?thesis using Cons[of "AList.update k v d"] False
        by (simp add: kv restrict_dict_update)
    qed
  qed
  then show ?thesis by (simp add: dict_update_all_def)
qed

lemma get_all_player_events_restrict:
  "get_all_player_events (restrict_pattern pid pat)
     = restrict_dict pid (get_all_player_events pat)"
  by (simp add: get_all_player_events_def restrict_pattern_def restrict_dict_update_all)
     (simp add: restrict_dict_def)

lemma mix_loop_solo_skips_others:
  assumes "\<forall>(k, evs) \<in> set entries. k \<noteq> pid \<longrightarrow> (\<exists>q. get_player ens k = Some q \<and> \<not> solo q)"
  shows "mix_loop bp mx mdb ens eng dur st True entries bus stems g
           = mix_loop bp mx mdb ens eng dur st True (restrict_dict pid entries) bus stems g"
  using assms
proof (induction entries arbitrary: bus stems g)
  case Nil
  then show ?case by (simp add: restrict_dict_def)
next
  case (Cons entry entries)
  obtain k evs where entry: "entry = (k, evs)" by (cases entry)
  from Cons.prems have rest:
    "\<forall>(k, evs) \<in> set entries. k \<noteq> pid \<longrightarrow> (\<exists>q. get_player ens k = Some q \<and> \<not> solo q)"
    by simp
  note ih = Cons.IH[OF rest]
  show ?case
  proof (cases "k = pid")
    case True
    have r: "restrict_dict pid (entry # entries) = (k, evs) # restrict_dict pid entries"
      using True by (simp add: restrict_dict_def entry)
    show ?thesis unfolding r unfolding entry
      by (simp only: mix_loop.simps bindE_def)
         (auto simp: ih Let_def split: option.splits sum.splits prod.splits audio.splits)
  next
    case False
    with Cons.prems obtain q where q: "get_player ens k = Some q" "\<not> solo q"
      by (auto simp: entry)
    have r: "restrict_dict pid (entry # entries) = restrict_dict pid entries"
      using False by (simp add: restrict_dict_def entry)
    show ?thesis unfolding r unfolding entry using q by (simp add: ih)
  qed
qed

lemma solo_active_iff:
  "solo_active ens d \<longleftrightarrow> (\<exists>k \<in> fst ` set d. \<exists>p. get_player ens k = Some p \<and> solo p)"
  by (auto simp: solo_active_def list_ex_iff split: option.splits)

lemma render_demo_restricted_to_wind:
  "render_ensemble bp demo_mixer mdb ens (restrict_pattern ''P6'' demo_pattern) two_samples
     demo_engine False False (\<lambda>_. 0) = Inr ((Mono [Fin 0, Fin 0], []), \<lambda>_. 0)"
proof -
  have a: "get_all_player_events (restrict_pattern ''P6'' demo_pattern) = []"
    by (simp add: get_all_player_events_restrict all_events_demo restrict_dict_def)
  show ?thesis
    by (simp add: render_ensemble_def a zeros_def master_mono_silence Let_def eval_nat_numeral)
qed

text \<open>
  C5, as the specification words it, fails when the one soloed player has no entry in
  the pattern. \<open>solo_active\<close> is computed over the keys of the pattern only, so with solo
  set on the wind player P6 alone and a pattern that holds one cymbal hit of P4, no solo
  is seen and P4 is rendered: the master buffer is \<open>[0, tanh 0.6]\<close>. The pattern
  restricted to the events of P6 is empty and renders as silence.
\<close>

theorem solo_without_entry_counterexample:
  "list_all (\<lambda>(k, q). solo q = (k = ''P6'')) (players melam_solo_wind)
   \<and> render_ensemble no_bandpass demo_mixer MEMBRANE_DATABASE melam_solo_wind demo_pattern
        two_samples demo_engine False False (\<lambda>_. 0)
       = Inr ((Mono [Fin 0, Fin (tanh (6 / 10))], []), \<lambda>_. 0)
   \<and> render_ensemble no_bandpass demo_mixer MEMBRANE_DATABASE melam_solo_wind
        (restrict_pattern ''P6'' demo_pattern) two_samples demo_engine False False (\<lambda>_. 0)
       = Inr ((Mono [Fin 0, Fin 0], []), \<lambda>_. 0)
   \<and> tanh (6 / 10 :: real) \<noteq> 0"
proof -
  have s: "\<not> solo_active melam_solo_wind [(''P4'', [cymbal_hit])]"
    by (simp add: solo_active_def get_player_def melam_solo_wind_def player_defs)
  have p: "get_player melam_solo_wind ''P4'' = Some melam_P4"
    by (simp add: get_player_def melam_solo_wind_def)
  have l: "list_all (\<lambda>(k, q). solo q = (k = ''P6'')) (players melam_solo_wind)"
    by (simp add: melam_solo_wind_def player_defs)
  show ?thesis
    using l render_demo[OF p s] render_demo_restricted_to_wind by simp
qed

text \<open>
  C5, amended: if exactly one player of the ensemble has solo set, that player has an
  entry in the pattern, and every key of the pattern names a player of the ensemble,
  then \<open>render_ensemble\<close> returns what it returns for the pattern restricted to that
  player's events, for the same duration, spatial setting, stems setting and draws: the
  same master buffer, the same stems and the same remaining draws, or the same error.
\<close>

theorem solo_equals_rendering_alone:
  assumes soloed: "get_player ens pid = Some p" "solo p"
    and others: "\<forall>k q. get_player ens k = Some q \<and> k \<noteq> pid \<longrightarrow> \<not> solo q"
    and present: "pid \<in> fst ` set (get_all_player_events pat)"
    and known: "\<forall>k \<in> fst ` set (get_all_player_events pat). get_player ens k \<noteq> None"
  shows "render_ensemble bp mx mdb ens pat dur eng enable_spatial return_stems g
           = render_ensemble bp mx mdb ens (restrict_pattern pid pat) dur eng enable_spatial
               return_stems g"
proof -
  let ?all = "get_all_player_events pat"
  have a1: "solo_active ens ?all" using soloed present by (auto simp: solo_active_iff)
  have "pid \<in> fst ` set (restrict_dict pid ?all)"
    using present by (force simp: restrict_dict_def)
  then have a2: "solo_active ens (restrict_dict pid ?all)"
    using soloed by (auto simp: solo_active_iff)
  have sk: "\<forall>(k, evs) \<in> set ?all. k \<noteq> pid \<longrightarrow> (\<exists>q. get_player ens k = Some q \<and> \<not> solo q)"
    using known others by force
  have "mix_loop bp mx mdb ens eng dur return_stems True ?all bus [] g
          = mix_loop bp mx mdb ens eng dur return_stems True (restrict_dict pid ?all) bus [] g"
    for bus
    by (rule mix_loop_solo_skips_others[OF sk])
  then show ?thesis
    by (simp add: render_ensemble_def get_all_player_events_restrict a1 a2 Let_def)
qed

text \<open>
  The amended C5 at the standard ensemble with solo on the cymbal player P4, a pattern
  with a hit for P4 and one for P5, and the spatial mix.
\<close>

theorem solo_equals_rendering_alone_witness:
  "get_player melam_solo_cymbal ''P4'' = Some (melam_P4\<lparr>solo := True\<rparr>)
   \<and> map fst (get_all_player_events duo_pattern) = [''P4'', ''P5'']
   \<and> render_ensemble no_bandpass demo_mixer MEMBRANE_DATABASE melam_solo_cymbal duo_pattern
        two_samples demo_engine True False (\<lambda>_. 0)
       = render_ensemble no_bandpass demo_mixer MEMBRANE_DATABASE melam_solo_cymbal
           (restrict_pattern ''P4'' duo_pattern) two_samples demo_engine True False (\<lambda>_. 0)"
proof -
  have a: "get_all_player_events duo_pattern
             = [(''P4'', [cymbal_hit]), (''P5'', [cymbal_hit\<lparr>assigned_player := Some ''P5''\<rparr>])]"
    by (simp add: get_all_player_events_def dict_update_all_def duo_pattern_def)
  have p: "get_player melam_solo_cymbal ''P4'' = Some (melam_P4\<lparr>solo := True\<rparr>)"
    by (simp add: get_player_def melam_solo_cymbal_def)
  have o: "\<forall>k q. get_player melam_solo_cymbal k = Some q \<and> k \<noteq> ''P4'' \<longrightarrow> \<not> solo q"
    by (auto simp: get_player_def melam_solo_cymbal_def player_defs split: if_splits)
  have k: "\<forall>k \<in> fst ` set (get_all_player_events duo_pattern).
             get_player melam_solo_cymbal k \<noteq> None"
    by (simp add: a get_player_def melam_solo_cymbal_def)
  show ?thesis
    using solo_equals_rendering_alone[of melam_solo_cymbal "''P4''" "melam_P4\<lparr>solo := True\<rparr>"
        duo_pattern no_bandpass demo_mixer MEMBRANE_DATABASE two_samples demo_engine True False
        "\<lambda>_. 0", OF p _ o _ k]
    by (simp add: a p)
qed

subsection \<open>Mastering\<close>

lemma peak_finite:
  assumes "NaN \<notin> set xs" "xs \<noteq> []"
  shows "\<exists>p. peak xs = Inr (Fin p) \<and> 0 \<le> p \<and> (\<forall>x \<in> set xs. \<exists>a. x = Fin a \<and> \<bar>a\<bar> \<le> p)"
proof -
  let ?A = "set (map (\<lambda>x. case x of Fin a \<Rightarrow> \<bar>a\<bar> | NaN \<Rightarrow> 0) xs)"
  have fin: "finite ?A" and ne: "?A \<noteq> {}" using assms(2) by auto
  have pk: "peak xs = Inr (Fin (Max ?A))" using assms by (simp add: peak_def)
  have ub: "\<exists>a. x = Fin a \<and> \<bar>a\<bar> \<le> Max ?A" if "x \<in> set xs" for x
  proof -
    from that assms(1) have "x \<noteq> NaN" by auto
    then obtain a where a: "x = Fin a" by (cases x) auto
    with that have "\<bar>a\<bar> \<in> ?A" by force
    then have "\<bar>a\<bar> \<le> Max ?A" using fin by (intro Max_ge) auto
    with a show ?thesis by blast
  qed
  from assms(2) obtain x where x: "x \<in> set xs" by (cases xs) auto
  from ub[OF x] have "0 \<le> Max ?A" by (smt (verit) abs_ge_zero)
  with pk ub show ?thesis by blast
qed

lemma saturate_zero:
  assumes "\<forall>x \<in> set xs. x = Fin 0"
  shows "map (fmap tanh) (scale d xs) = xs"
  using assms by (induction xs) (auto simp: scale_def fmap_def)

lemma master_stereo_is_spec:
  assumes "NaN \<notin> set (l @ r)"
  shows "map_sum id audio_rows (master_stereo l r) = spec_master [l, r]"
proof (cases "l @ r = []")
  case True
  then show ?thesis
    by (simp add: master_stereo_def spec_master_def peak_def)
next
  case False
  from peak_finite[OF assms False] obtain p where
    pk: "peak (l @ r) = Inr (Fin p)" and p0: "0 \<le> p"
    and ub: "\<forall>x \<in> set (l @ r). \<exists>a. x = Fin a \<and> \<bar>a\<bar> \<le> p" by blast
  show ?thesis
  proof (cases "0 < p")
    case True
    then show ?thesis
      by (simp add: master_stereo_def spec_master_def saturate_and_normalise_def pk fgt_def
          flt_def Let_def audio_rows_def bindE_def split: sum.splits)
  next
    case zero: False
    with p0 have p: "p = 0" by simp
    with ub have z: "\<forall>x \<in> set (l @ r). x = Fin 0" by fastforce
    then have zl: "map (fmap tanh) (scale d l) = l" and zr: "map (fmap tanh) (scale d r) = r" for d
      by (auto intro!: saturate_zero)
    show ?thesis
      by (simp add: master_stereo_def spec_master_def saturate_and_normalise_def pk p fgt_def
          flt_def Let_def audio_rows_def zl zr)
  qed
qed

lemma master_mono_is_fixed_drive:
  assumes "NaN \<notin> set m"
  shows "map_sum id audio_rows (master_mono m)
           = bindE (peak m) (\<lambda>_. saturate_and_normalise 1.2 [m])"
proof (cases "m = []")
  case True
  then show ?thesis by (simp add: master_mono_def peak_def)
next
  case False
  from peak_finite[OF assms False] obtain p where
    pk: "peak m = Inr (Fin p)" and p0: "0 \<le> p"
    and ub: "\<forall>x \<in> set m. \<exists>a. x = Fin a \<and> \<bar>a\<bar> \<le> p" by blast
  show ?thesis
  proof (cases "0 < p")
    case True
    then show ?thesis
      by (simp add: master_mono_def saturate_and_normalise_def pk fgt_def
          Let_def audio_rows_def bindE_def split: sum.splits)
  next
    case zero: False
    with p0 have p: "p = 0" by simp
    with ub have z: "\<forall>x \<in> set m. x = Fin 0" by fastforce
    then have zm: "map (fmap tanh) (scale d m) = m" for d
      by (auto intro!: saturate_zero)
    show ?thesis
      by (simp add: master_mono_def saturate_and_normalise_def pk p fgt_def
          Let_def audio_rows_def zm)
  qed
qed

lemma mix_loop_bus_kind:
  "mix_loop bp mx mdb ens eng dur st so entries bus stems g = Inr ((bus', stems'), g') \<Longrightarrow>
   (case bus' of Stereo l r \<Rightarrow> True | Mono m \<Rightarrow> False)
     = (case bus of Stereo l r \<Rightarrow> True | Mono m \<Rightarrow> False)"
proof (induction entries arbitrary: bus stems g)
  case Nil
  then show ?case by auto
next
  case (Cons entry entries)
  obtain k evs where entry: "entry = (k, evs)" by (cases entry)
  show ?case
  proof (cases "evs = []")
    case True
    with Cons.prems entry
    have "mix_loop bp mx mdb ens eng dur st so entries bus stems g = Inr ((bus', stems'), g')"
      by simp
    then show ?thesis by (rule Cons.IH)
  next
    case False
    from Cons.prems False entry obtain q where q: "get_player ens k = Some q"
      by (auto split: option.splits)
    show ?thesis
    proof (cases "(mute q \<and> \<not> solo q) \<or> (so \<and> \<not> solo q)")
      case True
      with Cons.prems entry False q
      have "mix_loop bp mx mdb ens eng dur st so entries bus stems g = Inr ((bus', stems'), g')"
        by (simp split: if_splits)
      then show ?thesis by (rule Cons.IH)
    next
      case run: False
      with Cons.prems entry False q obtain track g1 bus1 stems1 where
        b1: "bus1 = (case bus of
                       Stereo mix_left mix_right \<Rightarrow>
                         (case spatial_position q of (pos_x, pos_y, pos_z) \<Rightarrow>
                          case apply_spatial_position (mixer_sample_rate mx) (scale (gain q) track)
                                 (pan q, pos_y, pos_z) of
                            (left, right) \<Rightarrow> Stereo (vadd mix_left left) (vadd mix_right right))
                     | Mono mix_mono \<Rightarrow> Mono (vadd mix_mono (scale (gain q) track)))"
        and rest: "mix_loop bp mx mdb ens eng dur st so entries bus1 stems1 g1
                     = Inr ((bus', stems'), g')"
        by (auto simp: bindE_Inr_iff Let_def split: if_splits)
      from b1 have "(case bus1 of Stereo l r \<Rightarrow> True | Mono m \<Rightarrow> False)
                      = (case bus of Stereo l r \<Rightarrow> True | Mono m \<Rightarrow> False)"
        by (auto split: audio.splits prod.splits)
      with Cons.IH[OF rest] show ?thesis by simp
    qed
  qed
qed

lemma render_ensemble_masters_the_bus:
  assumes "render_ensemble bp mx mdb ens pat dur eng enable_spatial return_stems g
             = Inr ((out, stems), g')"
  shows "\<exists>bus. mix_loop bp mx mdb ens eng dur return_stems
                   (solo_active ens (get_all_player_events pat)) (get_all_player_events pat)
                   (if enable_spatial
                    then Stereo (zeros (nat (py_int (dur * real_of_int (mixer_sample_rate mx)))))
                           (zeros (nat (py_int (dur * real_of_int (mixer_sample_rate mx)))))
                    else Mono (zeros (nat (py_int (dur * real_of_int (mixer_sample_rate mx))))))
                   [] g = Inr ((bus, stems), g')
           \<and> (case bus of
                 Stereo l r \<Rightarrow> enable_spatial \<and> master_stereo l r = Inr out
               | Mono m \<Rightarrow> \<not> enable_spatial \<and> master_mono m = Inr out)"
proof -
  let ?bus0 = "if enable_spatial
               then Stereo (zeros (nat (py_int (dur * real_of_int (mixer_sample_rate mx)))))
                      (zeros (nat (py_int (dur * real_of_int (mixer_sample_rate mx)))))
               else Mono (zeros (nat (py_int (dur * real_of_int (mixer_sample_rate mx)))))"
  from assms obtain bus where
    m: "mix_loop bp mx mdb ens eng dur return_stems
              (solo_active ens (get_all_player_events pat)) (get_all_player_events pat)
              ?bus0 [] g = Inr ((bus, stems), g')"
    and ms: "(case bus of Stereo l r \<Rightarrow> master_stereo l r | Mono m \<Rightarrow> master_mono m) = Inr out"
    by (auto simp: render_ensemble_def Let_def bindE_Inr_iff split: if_splits)
  from mix_loop_bus_kind[OF m]
  have "(case bus of Stereo l r \<Rightarrow> True | Mono m \<Rightarrow> False) = enable_spatial"
    by (auto split: if_splits)
  with ms have "case bus of
                 Stereo l r \<Rightarrow> enable_spatial \<and> master_stereo l r = Inr out
               | Mono m \<Rightarrow> \<not> enable_spatial \<and> master_mono m = Inr out"
    by (cases bus) auto
  with m show ?thesis by blast
qed

lemma spec_master_demo:
  "spec_master [[Fin 0, Fin (1 / 2)]] = Inr [[Fin 0, Fin (tanh (1 / 2))]]"
proof -
  have m: "max 0 \<bar>tanh (1 / 2 :: real)\<bar> = tanh (1 / 2)" by simp
  have "tanh (1 / 2 :: real) \<le> 98 / 100" using tanh_half(1) tanh_six_tenths(1) by linarith
  then have n: "\<not> 49 < tanh (1 / 2 :: real) * 50" by simp
  show ?thesis
    using m n
    by (simp add: spec_master_def saturate_and_normalise_def peak_def fgt_def flt_def scale_def
        fmap_def)
qed

text \<open>
  C6, as the specification words it, fails on the mono path, which saturates with the
  fixed drive 1.2. The mono render of one cymbal hit sums to the bus \<open>[0, 0.5]\<close>, of
  peak 0.5; the code returns \<open>[0, tanh 0.6]\<close>, the stage of the specification (drive 1.0,
  the peak not being below 0.5) \<open>[0, tanh 0.5]\<close>.
\<close>

theorem mono_mastering_drive_counterexample:
  "render_ensemble no_bandpass demo_mixer MEMBRANE_DATABASE melam demo_pattern two_samples
     demo_engine False False (\<lambda>_. 0)
     = Inr ((Mono [Fin 0, Fin (tanh (6 / 10))], []), \<lambda>_. 0)
   \<and> master_mono [Fin 0, Fin (1 / 2)] = Inr (Mono [Fin 0, Fin (tanh (6 / 10))])
   \<and> spec_master [[Fin 0, Fin (1 / 2)]] = Inr [[Fin 0, Fin (tanh (1 / 2))]]
   \<and> tanh (6 / 10 :: real) \<noteq> tanh (1 / 2)"
proof -
  have s: "\<not> solo_active melam [(''P4'', [cymbal_hit])]"
    by (simp add: solo_active_def get_player_def melam_def player_defs)
  have p: "get_player melam ''P4'' = Some melam_P4"
    by (simp add: get_player_def melam_def)
  have "tanh (6 / 10 :: real) \<noteq> tanh (1 / 2)" using tanh_half(1) by simp
  then show ?thesis
    using render_demo[OF p s] master_mono_demo spec_master_demo by simp
qed

text \<open>
  C6, amended: when \<open>render_ensemble\<close> returns, its output is the mastered sum of the
  player channels, and for a summed bus of finite samples the mastering is: on the stereo
  (spatial) path \<open>tanh(bus * drive)\<close> with drive 1.5 if the peak before saturation is
  below 0.5 and 1.0 otherwise, on the mono path \<open>tanh(bus * 1.2)\<close> whatever the peak;
  on both paths followed by the peak normalisation to 0.98 only when the peak after
  saturation is above 0.98.
\<close>

theorem mastering_stage:
  assumes "render_ensemble bp mx mdb ens pat dur eng enable_spatial return_stems g
             = Inr ((out, stems), g')"
  shows "\<exists>bus. mix_loop bp mx mdb ens eng dur return_stems
                   (solo_active ens (get_all_player_events pat)) (get_all_player_events pat)
                   (if enable_spatial
                    then Stereo (zeros (nat (py_int (dur * real_of_int (mixer_sample_rate mx)))))
                           (zeros (nat (py_int (dur * real_of_int (mixer_sample_rate mx)))))
                    else Mono (zeros (nat (py_int (dur * real_of_int (mixer_sample_rate mx))))))
                   [] g = Inr ((bus, stems), g')
           \<and> (NaN \<notin> set (concat (audio_rows bus)) \<longrightarrow>
                Inr (audio_rows out)
                  = (if enable_spatial then spec_master (audio_rows bus)
                     else bindE (peak (concat (audio_rows bus)))
                            (\<lambda>_. saturate_and_normalise 1.2 (audio_rows bus))))"
proof -
  from render_ensemble_masters_the_bus[OF assms] obtain bus where
    m: "mix_loop bp mx mdb ens eng dur return_stems
          (solo_active ens (get_all_player_events pat)) (get_all_player_events pat)
          (if enable_spatial
           then Stereo (zeros (nat (py_int (dur * real_of_int (mixer_sample_rate mx)))))
                  (zeros (nat (py_int (dur * real_of_int (mixer_sample_rate mx)))))
           else Mono (zeros (nat (py_int (dur * real_of_int (mixer_sample_rate mx))))))
          [] g = Inr ((bus, stems), g')"
    and k: "case bus of
              Stereo l r \<Rightarrow> enable_spatial \<and> master_stereo l r = Inr out
            | Mono m \<Rightarrow> \<not> enable_spatial \<and> master_mono m = Inr out"
    by blast
  have "Inr (audio_rows out)
          = (if enable_spatial then spec_master (audio_rows bus)
             else bindE (peak (concat (audio_rows bus)))
                    (\<lambda>_. saturate_and_normalise 1.2 (audio_rows bus)))"
    if n: "NaN \<notin> set (concat (audio_rows bus))"
  proof (cases bus)
    case (Stereo l r)
    with k have e: "enable_spatial" "master_stereo l r = Inr out" by simp_all
    from n Stereo have "NaN \<notin> set (l @ r)" by (simp add: audio_rows_def)
    from master_stereo_is_spec[OF this] e Stereo show ?thesis
      by (simp add: audio_rows_def)
  next
    case (Mono mono)
    with k have e: "\<not> enable_spatial" "master_mono mono = Inr out" by simp_all
    from n Mono have "NaN \<notin> set mono" by (simp add: audio_rows_def)
    from master_mono_is_fixed_drive[OF this] e Mono show ?thesis
      by (simp add: audio_rows_def)
  qed
  with m show ?thesis by blast
qed

text \<open>
  The amended C6 at the mono render of one cymbal hit by the standard ensemble.
\<close>

theorem mastering_stage_witness:
  "render_ensemble no_bandpass demo_mixer MEMBRANE_DATABASE melam demo_pattern two_samples
     demo_engine False False (\<lambda>_. 0)
     = Inr ((Mono [Fin 0, Fin (tanh (6 / 10))], []), \<lambda>_. 0)
   \<and> mix_loop no_bandpass demo_mixer MEMBRANE_DATABASE melam demo_engine two_samples False
        False [(''P4'', [cymbal_hit])] (Mono [Fin 0, Fin 0]) [] (\<lambda>_. 0)
       = Inr ((Mono [Fin 0, Fin (1 / 2)], []), \<lambda>_. 0)
   \<and> NaN \<notin> set [Fin 0, Fin (1 / 2)]
   \<and> Inr [[Fin 0, Fin (tanh (6 / 10))]]
       = bindE (peak [Fin 0, Fin (1 / 2)])
           (\<lambda>_. saturate_and_normalise 1.2 [[Fin 0, Fin (1 / 2)]])"
proof -
  have s: "\<not> solo_active melam [(''P4'', [cymbal_hit])]"
    by (simp add: solo_active_def get_player_def melam_def player_defs)
  have p: "get_player melam ''P4'' = Some melam_P4"
    by (simp add: get_player_def melam_def)
  note r = render_demo[OF p s, of no_bandpass MEMBRANE_DATABASE]
  from mastering_stage[OF r] mix_demo[of no_bandpass MEMBRANE_DATABASE]
  have "Inr [[Fin 0, Fin (tanh (6 / 10))]]
          = bindE (peak [Fin 0, Fin (1 / 2)])
              (\<lambda>_. saturate_and_normalise 1.2 [[Fin 0, Fin (1 / 2)]])"
    by (simp add: all_events_demo s zeros_def audio_rows_def eval_nat_numeral)
  with r mix_demo[of no_bandpass MEMBRANE_DATABASE] show ?thesis by simp
qed

subsection \<open>NaN in the post-processing stages\<close>

lemma sosfilt1_length [simp]: "length (sosfilt1 c st xs) = length xs"
proof (induction xs arbitrary: st)
  case Nil
  then show ?case by simp
next
  case (Cons x xs)
  obtain b0 b1 a1 where c: "c = (b0, b1, a1)" by (cases c)
  show ?case using Cons by (simp add: c Let_def)
qed

lemma butter_filter_length: "butter_filter Wn bt xs = Inr ys \<Longrightarrow> length ys = length xs"
  by (auto simp: butter_filter_def bindE_Inr_iff)

lemma blend_keeps_nan:
  assumes "length fs = length xs"
  shows "length (vadd (scale a xs) (scale b fs)) = length xs"
    and "i < length xs \<Longrightarrow> xs ! i = NaN \<Longrightarrow> vadd (scale a xs) (scale b fs) ! i = NaN"
  using assms by (simp_all add: vadd_def scale_def)

lemma apply_wood_character_keeps_nan:
  assumes "apply_wood_character sr xs brightness = Inr ys"
  shows "length ys = length xs \<and> (\<forall>i < length xs. xs ! i = NaN \<longrightarrow> ys ! i = NaN)"
  using assms
  by (auto simp: apply_wood_character_def bindE_Inr_iff Let_def blend_keeps_nan
      dest!: butter_filter_length split: if_splits)

lemma apply_contact_point_filtering_keeps_nan:
  assumes "apply_contact_point_filtering sr xs cp = Inr ys"
  shows "length ys = length xs \<and> (\<forall>i < length xs. xs ! i = NaN \<longrightarrow> ys ! i = NaN)"
  using assms
  by (auto simp: apply_contact_point_filtering_def bindE_Inr_iff Let_def blend_keeps_nan
      dest!: butter_filter_length split: if_splits)

lemma apply_pitch_bend_short:
  "py_int (bend_duration * real_of_int sr) < 10 \<or> length xs < 10 \<Longrightarrow>
   apply_pitch_bend sr xs bend_amount bend_duration = xs"
  by (auto simp: apply_pitch_bend_def Let_def)

lemma run_board_silences_nan:
  "NaN \<in> set xs \<Longrightarrow> run_board board xs = map (\<lambda>_. Fin 0) xs"
  by (simp add: run_board_def)

lemma wood_nan_demo: "apply_wood_character 44100 [NaN, Fin 0] (1 / 2) = Inr [NaN, Fin 0]"
  by (simp add: apply_wood_character_def)

lemma butter_filter_nan_demo:
  assumes "0 < Wn" "Wn < 1"
  shows "butter_filter Wn bt [NaN, x] = Inr [NaN, NaN]"
  using assms by (cases bt) (simp_all add: butter_filter_def butter1_def Let_def)

lemma contact_nan_demo:
  "apply_contact_point_filtering 44100 [NaN, x] (1 / 2) = Inr [NaN, NaN]"
  by (simp add: apply_contact_point_filtering_def butter_filter_nan_demo vadd_def scale_def
      Let_def)

lemma pitch_bend_nan_demo: "apply_pitch_bend 44100 [NaN, Fin 0] (5 / 100) (2 / 100) = [NaN, Fin 0]"
  by (rule apply_pitch_bend_short) simp

lemma material_effects_nan_demo:
  "apply_material_effects demo_mixer [NaN, Fin 0] bend_profile jackwood cow_high
     = Inr [NaN, NaN]"
proof -
  have b: "resonance_brightness jackwood = 78 / 100"
    by (simp add: resonance_brightness_def jackwood_def)
  have w: "apply_wood_character 44100 [NaN, Fin 0] (39 / 50) = Inr [NaN, NaN]"
    by (simp add: apply_wood_character_def butter_filter_nan_demo vadd_def scale_def Let_def)
  show ?thesis
    using pitch_bend_nan_demo
    by (simp add: apply_material_effects_def bend_profile_def b w contact_nan_demo Let_def)
qed

text \<open>
  C9, as the specification words it, fails: no post-processing stage of the mixer replaces
  a buffer that holds NaN with silence. The buffer \<open>[NaN, 0]\<close> leaves the pitch bend and
  the wood-character filter (brightness 0.5) as it entered, leaves the contact-point
  filter as \<open>[NaN, NaN]\<close>, and leaves the whole chain \<open>_apply_material_effects\<close> as
  \<open>[NaN, NaN]\<close>.
\<close>

theorem nan_passes_mixer_stages_counterexample:
  "apply_pitch_bend 44100 [NaN, Fin 0] (5 / 100) (2 / 100) = [NaN, Fin 0]
   \<and> apply_wood_character 44100 [NaN, Fin 0] (1 / 2) = Inr [NaN, Fin 0]
   \<and> apply_contact_point_filtering 44100 [NaN, Fin 0] (1 / 2) = Inr [NaN, NaN]
   \<and> apply_material_effects demo_mixer [NaN, Fin 0] bend_profile jackwood cow_high
       = Inr [NaN, NaN]"
  using pitch_bend_nan_demo wood_nan_demo contact_nan_demo material_effects_nan_demo by simp

text \<open>
  C9, amended: the replacement of a buffer that holds NaN by silence of the same length
  is done by \<open>StudioFX._run_board\<close>, not by the post-processing stages of the mixer.
  The wood-character filter and the contact-point filter, when they return, return a
  buffer of the length of their input that is NaN at every index where the input is NaN,
  and the pitch bend returns a buffer of fewer than 10 samples unchanged.
\<close>

theorem nan_guard_is_in_studio_board:
  "(apply_wood_character sr xs brightness = Inr ys \<longrightarrow>
      length ys = length xs \<and> (\<forall>i < length xs. xs ! i = NaN \<longrightarrow> ys ! i = NaN))
   \<and> (apply_contact_point_filtering sr xs cp = Inr zs \<longrightarrow>
      length zs = length xs \<and> (\<forall>i < length xs. xs ! i = NaN \<longrightarrow> zs ! i = NaN))
   \<and> (length xs < 10 \<longrightarrow> apply_pitch_bend sr xs bend_amount bend_duration = xs)
   \<and> (NaN \<in> set xs \<longrightarrow> run_board board xs = map (\<lambda>_. Fin 0) xs)"
  using apply_wood_character_keeps_nan[of sr xs brightness ys]
    apply_contact_point_filtering_keeps_nan[of sr xs cp zs]
    apply_pitch_bend_short[of bend_duration sr xs bend_amount]
    run_board_silences_nan[of xs board]
  by blast

text \<open>
  The amended C9 at the buffer \<open>[NaN, 0]\<close> and a studio board that returns its input.
\<close>

theorem nan_guard_is_in_studio_board_witness:
  "apply_wood_character 44100 [NaN, Fin 0] (1 / 2) = Inr [NaN, Fin 0]
   \<and> apply_contact_point_filtering 44100 [NaN, Fin 0] (1 / 2) = Inr [NaN, NaN]
   \<and> apply_pitch_bend 44100 [NaN, Fin 0] (5 / 100) (2 / 100) = [NaN, Fin 0]
   \<and> NaN \<in> set [NaN, Fin 0]
   \<and> run_board Inr [NaN, Fin 0] = [Fin 0, Fin 0]"
  using nan_guard_is_in_studio_board[of 44100 "[NaN, Fin 0]" "1 / 2" "[NaN, Fin 0]" "1 / 2"
      "[NaN, NaN]" "5 / 100" "2 / 100" Inr]
    wood_nan_demo contact_nan_demo[of "Fin 0"]
  by simp

end
